theory Spec2Isabelle
  imports Main "HOL-Library.Word" "HOL-Library.Signed_Division"
begin

section \<open>Units and geometry\<close>

text \<open>
  A Length is a signed 64-bit count of nanometres (qint64). Addition, subtraction and
  multiplication are those of the machine word; comparisons are signed. UnsignedLength
  and PositiveLength are Lengths whose constructors refuse a negative respectively a
  non-positive value.
\<close>

type_synonym Length = "64 word"
type_synonym Point = "Length \<times> Length"
type_synonym Angle = "32 word"
type_synonym Vertex = "Point \<times> Angle"
type_synonym Path = "Vertex list"

text \<open>
  The exceptions that can leave the check: the one of the constructors of the length types,
  and the one that BI_StrokeText::getFont lets through when the font pool of the project
  does not hold the default font of the board (the source marks the call "can throw").
\<close>

datatype error = InvalidRange | FontLookupFailed

text \<open>The constructor of PositiveLength: it throws unless the value is greater than zero.\<close>

definition PositiveLength :: "Length \<Rightarrow> error + Length" where
  "PositiveLength v = (if 0 <s v then Inr v else Inl InvalidRange)"

text \<open>Length::operator/ is the division of qint64: it truncates towards zero.\<close>

definition Length_div :: "Length \<Rightarrow> Length \<Rightarrow> Length" where
  "Length_div a b = word_of_int (sint a sdiv sint b)"

text \<open>std::max and qMax on Lengths: \<open>(a < b) ? b : a\<close>, with the signed order.\<close>

definition std_max :: "Length \<Rightarrow> Length \<Rightarrow> Length" where
  "std_max a b = (if a <s b then b else a)"

record Transform =
  tf_position :: Point
  tf_rotation :: Angle
  tf_mirrored :: bool

text \<open>The default constructed Transform(): no translation, no rotation, not mirrored.\<close>

definition Transform_default :: Transform where
  "Transform_default = \<lparr>tf_position = (0, 0), tf_rotation = 0, tf_mirrored = False\<rparr>"

subsection \<open>ClipperLib\<close>

type_synonym IntPoint = "64 word \<times> 64 word"
type_synonym ClipperPath = "IntPoint list"
type_synonym Paths = "ClipperPath list"

datatype PolyNode = PolyNode (Contour: ClipperPath) (Childs: "PolyNode list")

type_synonym PolyTree = "PolyNode list"

section \<open>The board\<close>

text \<open>
  A net signal is identified by its name. A pointer that may be null is an option; the
  pointers the check compares (net signals, layers) are compared by the identity of what
  they point to.
\<close>

type_synonym NetSignal = string

record GraphicsLayer =
  layer_getName :: string
  layer_isCopperLayer :: bool
  layer_isEnabled :: bool

record StrokeText =
  text_getLayerName :: string
  text_getStrokeWidth :: Length
  text_getPosition :: Point
  text_getRotation :: Angle
  text_getMirrored :: bool

text \<open>
  A stroke font is known to the check by its name only. \<open>bst_getFont\<close> is what
  BI_StrokeText::getFont() finds in the font pool of the project: None when the lookup
  throws.
\<close>

type_synonym StrokeFont = string

record BI_StrokeText =
  bst_getText :: StrokeText
  bst_getFont :: "StrokeFont option"

record BI_Via =
  via_getPosition :: Point
  via_getDrillDiameter :: Length
  via_getSize :: Length

record BI_NetLine =
  netline_getLayer :: GraphicsLayer
  netline_getWidth :: Length
  netline_getStartPosition :: Point
  netline_getEndPosition :: Point

record BI_NetPoint =
  netpoint_getPosition :: Point
  netpoint_isUsed :: bool

record BI_NetSegment =
  seg_getNetSignal :: "NetSignal option"
  seg_getVias :: "BI_Via list"
  seg_getNetLines :: "BI_NetLine list"
  seg_getNetPoints :: "BI_NetPoint list"
  seg_isUsed :: bool

record BI_Plane =
  plane_getLayerName :: string
  plane_getMinWidth :: Length
  plane_getOutline :: Path
  plane_getNetSignal :: NetSignal
  plane_getFragments :: "Path list"

record Polygon =
  polygon_getLayerName :: string
  polygon_getPath :: Path

record BI_Polygon =
  bpoly_getPolygon :: Polygon

record Circle =
  circle_getLayerName :: string
  circle_getCenter :: Point
  circle_getDiameter :: Length

text \<open>
  Hole and PadHole offer the same getters to the check (its helpers are templates over
  the hole type), so one record stands for both.
\<close>

record Hole =
  hole_getDiameter :: Length
  hole_getPath :: Path
  hole_isSlot :: bool
  hole_isMultiSegmentSlot :: bool
  hole_isCurvedSlot :: bool

type_synonym PadHole = Hole

record BI_Hole =
  bhole_getHole :: Hole

record PadGeometry =
  geometry_containsOrigin :: bool

record FootprintPad =
  libpad_getPosition :: Point
  libpad_getRotation :: Angle
  libpad_getHoles :: "PadHole list"

record BI_FootprintPad =
  pad_getLibPad :: FootprintPad
  pad_getPosition :: Point
  pad_getRotation :: Angle
  pad_getMirrored :: bool
  pad_isOnLayer :: "string \<Rightarrow> bool"
  pad_getCompSigInstNetSignal :: "NetSignal option"
  pad_getNetLines :: "BI_NetLine list"
  pad_getGeometryOnLayer :: "string \<Rightarrow> PadGeometry list"

record Footprint =
  footprint_getPolygons :: "Polygon list"
  footprint_getCircles :: "Circle list"
  footprint_getHoles :: "Hole list"

text \<open>
  \<open>dev_address\<close> is the address of the device object: QMap<const BI_Device*, ...> keeps
  its keys in the order of the pointers.
\<close>

record BI_Device =
  dev_address :: nat
  dev_getComponentInstanceUuid :: string
  dev_getPosition :: Point
  dev_getRotation :: Angle
  dev_getMirrored :: bool
  dev_getPads :: "BI_FootprintPad list"
  dev_getLibFootprint :: Footprint
  dev_getStrokeTexts :: "BI_StrokeText list"

record BI_AirWire =
  airwire_getP1 :: Point
  airwire_getP2 :: Point
  airwire_getNetSignal :: NetSignal

record ComponentInstance =
  cmp_getUuid :: string
  cmp_isSchematicOnly :: bool

record Board =
  board_getAllLayers :: "GraphicsLayer list"
  board_getNetSegments :: "BI_NetSegment list"
  board_getPlanes :: "BI_Plane list"
  board_getPolygons :: "BI_Polygon list"
  board_getStrokeTexts :: "BI_StrokeText list"
  board_getHoles :: "BI_Hole list"
  board_getDeviceInstances :: "BI_Device list"
  board_getAirWires :: "BI_AirWire list"
  board_getComponentInstances :: "ComponentInstance list"

text \<open>
  Modelled from the spec: the layer stack's lookup \<open>layer(name) \<rightarrow> Layer?\<close> (BoardLayerStack
  is not among the sources): the first layer of that name, or the null pointer.
\<close>

definition getLayer :: "Board \<Rightarrow> string \<Rightarrow> GraphicsLayer option" where
  "getLayer board name = find (\<lambda>l. layer_getName l = name) (board_getAllLayers board)"

text \<open>
  Modelled from the spec: getLayers answers the layers of the given names that the stack
  has, in the order of the names.
\<close>

definition getLayers :: "Board \<Rightarrow> string list \<Rightarrow> GraphicsLayer list" where
  "getLayers board names = concat (map (\<lambda>n. case getLayer board n of None \<Rightarrow> [] | Some l \<Rightarrow> [l]) names)"

text \<open>
  Modelled from the spec: \<open>device_by_component_uuid(Uuid) \<rightarrow> Device?\<close> (Board is not among
  the sources).
\<close>

definition getDeviceInstanceByComponentUuid :: "Board \<Rightarrow> string \<Rightarrow> BI_Device option" where
  "getDeviceInstanceByComponentUuid board uuid =
     find (\<lambda>d. dev_getComponentInstanceUuid d = uuid) (board_getDeviceInstances board)"

definition sBoardOutlines :: string where "sBoardOutlines = ''brd_outlines''"
definition sTopCourtyard :: string where "sTopCourtyard = ''top_courtyard''"
definition sBotCourtyard :: string where "sBotCourtyard = ''bot_courtyard''"

text \<open>Transform(obj) takes the position, rotation and mirror flag of the object.\<close>

definition Transform_of_device :: "BI_Device \<Rightarrow> Transform" where
  "Transform_of_device d =
     \<lparr>tf_position = dev_getPosition d, tf_rotation = dev_getRotation d, tf_mirrored = dev_getMirrored d\<rparr>"

definition Transform_of_pad :: "BI_FootprintPad \<Rightarrow> Transform" where
  "Transform_of_pad p =
     \<lparr>tf_position = pad_getPosition p, tf_rotation = pad_getRotation p, tf_mirrored = pad_getMirrored p\<rparr>"

definition Transform_of_text :: "StrokeText \<Rightarrow> Transform" where
  "Transform_of_text t =
     \<lparr>tf_position = text_getPosition t, tf_rotation = text_getRotation t, tf_mirrored = text_getMirrored t\<rparr>"

definition Transform_of :: "Point \<Rightarrow> Angle \<Rightarrow> Transform" where
  "Transform_of pos rot = \<lparr>tf_position = pos, tf_rotation = rot, tf_mirrored = False\<rparr>"

section \<open>Settings\<close>

datatype AllowedSlots = NoSlots | SingleSegmentStraight | MultiSegmentStraight | Any

text \<open>The enumerators in the order of their values, for the comparisons of the check.\<close>

fun AllowedSlots_value :: "AllowedSlots \<Rightarrow> nat" where
  "AllowedSlots_value NoSlots = 0"
| "AllowedSlots_value SingleSegmentStraight = 1"
| "AllowedSlots_value MultiSegmentStraight = 2"
| "AllowedSlots_value Any = 3"

record BoardDesignRuleCheckSettings =
  getMinCopperWidth :: Length
  getMinCopperCopperClearance :: Length
  getMinCopperBoardClearance :: Length
  getMinCopperNpthClearance :: Length
  getMinPthAnnularRing :: Length
  getMinNpthDrillDiameter :: Length
  getMinNpthSlotWidth :: Length
  getMinPthDrillDiameter :: Length
  getMinPthSlotWidth :: Length
  getAllowedNpthSlots :: AllowedSlots
  getAllowedPthSlots :: AllowedSlots
  getMaxArcTolerance :: Length

text \<open>
  Modelled from the spec: \<open>max_arc_tolerance\<close> is an option of the settings (the header
  that declares maxArcTolerance() is not among the sources).
\<close>

definition maxArcTolerance :: "BoardDesignRuleCheckSettings \<Rightarrow> Length" where
  "maxArcTolerance settings = getMaxArcTolerance settings"

section \<open>Messages and signals\<close>

text \<open>BI_Base: the board items a copper/copper violation can point to.\<close>

datatype BI_Base =
    BaseVia BI_Via
  | BaseNetLine BI_NetLine
  | BasePlane BI_Plane
  | BasePolygon BI_Polygon
  | BaseStrokeText BI_StrokeText
  | BasePad BI_FootprintPad
  | BaseDevice BI_Device

text \<open>
  One constructor for every constructor of a message class that the check calls, with
  the arguments of the call in their order.
\<close>

datatype RuleCheckMessage =
    DrcMsgMinimumWidthViolation_Text BI_StrokeText Length "Path list"
  | DrcMsgMinimumWidthViolation_Plane BI_Plane Length "Path list"
  | DrcMsgMinimumWidthViolation_NetLine BI_NetLine Length "Path list"
  | DrcMsgCopperCopperClearanceViolation
      string "NetSignal option" BI_Base "Polygon option" "Circle option"
      string "NetSignal option" BI_Base "Polygon option" "Circle option"
      Length "Path list"
  | DrcMsgCopperBoardClearanceViolation_Via BI_Via Length "Path list"
  | DrcMsgCopperBoardClearanceViolation_NetLine BI_NetLine Length "Path list"
  | DrcMsgCopperBoardClearanceViolation_Plane BI_Plane Length "Path list"
  | DrcMsgCopperBoardClearanceViolation_Polygon "BI_Device option" Polygon Length "Path list"
  | DrcMsgCopperBoardClearanceViolation_StrokeText "BI_Device option" StrokeText Length "Path list"
  | DrcMsgCopperBoardClearanceViolation_Pad BI_FootprintPad Length "Path list"
  | DrcMsgCopperBoardClearanceViolation_Circle "BI_Device option" Circle Length "Path list"
  | DrcMsgCopperHoleClearanceViolation "BI_Device option" Hole Length "Path list"
  | DrcMsgMinimumAnnularRingViolation_Via BI_Via Length "Path list"
  | DrcMsgMinimumAnnularRingViolation_Pad BI_FootprintPad Length "Path list"
  | DrcMsgMinimumDrillDiameterViolation_Hole "BI_Device option" Hole Length "Path list"
  | DrcMsgMinimumDrillDiameterViolation_Via BI_Via Length "Path list"
  | DrcMsgMinimumDrillDiameterViolation_Pad BI_FootprintPad PadHole Length "Path list"
  | DrcMsgMinimumSlotWidthViolation_Hole "BI_Device option" Hole Length "Path list"
  | DrcMsgMinimumSlotWidthViolation_Pad BI_FootprintPad PadHole Length "Path list"
  | DrcMsgForbiddenSlot_BoardHole BI_Hole "Path list"
  | DrcMsgForbiddenSlot_DeviceHole BI_Device Hole "Path list"
  | DrcMsgForbiddenSlot_Pad BI_FootprintPad PadHole "Path list"
  | DrcMsgInvalidPadConnection BI_FootprintPad GraphicsLayer "Path list"
  | DrcMsgCourtyardOverlap BI_Device BI_Device "Path list"
  | DrcMsgMissingDevice ComponentInstance
  | DrcMsgMissingConnection Point Point NetSignal "Path list"
  | DrcMsgEmptyNetSegment BI_NetSegment
  | DrcMsgUnconnectedJunction BI_NetPoint "Path list"

text \<open>The Qt signals of the check, in the order in which they are emitted.\<close>

datatype Signal =
    started
  | progressPercent int
  | progressStatus string
  | progressMessage string
  | finished

section \<open>Collaborators\<close>

text \<open>
  The geometry kernel (Path, Transform), the polygon algebra (ClipperHelpers), the path
  generator (BoardClipperPathGenerator), the two refreshes of the board and the texts of
  the messages are not part of the check: they are parameters of the model. A generator
  is created, fed one object and read once, so each of its add functions is a function
  from the board, the arc tolerance and the object to the paths it then holds.
\<close>

record Collaborators =
  Path_toOutlineStrokes :: "Path \<Rightarrow> Length \<Rightarrow> Path list"
  Path_circle :: "Length \<Rightarrow> Path"
  Path_obround :: "Point \<Rightarrow> Point \<Rightarrow> Length \<Rightarrow> Path"
  Path_translated :: "Path \<Rightarrow> Point \<Rightarrow> Path"
  Path_toClosedPath :: "Path \<Rightarrow> Path"
  Transform_map_Path :: "Transform \<Rightarrow> Path \<Rightarrow> Path"
  Transform_map_Point :: "Transform \<Rightarrow> Point \<Rightarrow> Point"
  Transform_map_Layer :: "Transform \<Rightarrow> string \<Rightarrow> string"
  Clipper_intersect :: "Paths \<Rightarrow> Paths \<Rightarrow> PolyTree"
  Clipper_intersectList :: "Paths list \<Rightarrow> PolyTree"
  Clipper_unite :: "Paths \<Rightarrow> Paths \<Rightarrow> Paths"
  Clipper_uniteSelf :: "Paths \<Rightarrow> Paths"
  Clipper_subtractToTree :: "Paths \<Rightarrow> Paths \<Rightarrow> PolyTree"
  Clipper_flattenTree :: "PolyTree \<Rightarrow> Paths"
  Clipper_treeToPaths :: "PolyTree \<Rightarrow> Paths"
  Clipper_offset :: "Paths \<Rightarrow> Length \<Rightarrow> Length \<Rightarrow> Paths"
  Clipper_convert :: "Path \<Rightarrow> Length \<Rightarrow> ClipperPath"
  Clipper_convertAll :: "Path list \<Rightarrow> Length \<Rightarrow> Paths"
  Clipper_convertBack :: "Paths \<Rightarrow> Path list"
  gen_addVia :: "Board \<Rightarrow> Length \<Rightarrow> BI_Via \<Rightarrow> Length \<Rightarrow> Paths"
  gen_addNetLine :: "Board \<Rightarrow> Length \<Rightarrow> BI_NetLine \<Rightarrow> Length \<Rightarrow> Paths"
  gen_addPlane :: "Board \<Rightarrow> Length \<Rightarrow> BI_Plane \<Rightarrow> Paths"
  gen_addBoardPolygon :: "Board \<Rightarrow> Length \<Rightarrow> BI_Polygon \<Rightarrow> Paths"
  gen_addPolygon :: "Board \<Rightarrow> Length \<Rightarrow> Polygon \<Rightarrow> Transform \<Rightarrow> Paths"
  gen_addStrokeText :: "Board \<Rightarrow> Length \<Rightarrow> BI_StrokeText \<Rightarrow> Length \<Rightarrow> Paths"
  gen_addPad :: "Board \<Rightarrow> Length \<Rightarrow> BI_FootprintPad \<Rightarrow> Transform \<Rightarrow> string \<Rightarrow> Length \<Rightarrow> Paths"
  gen_addCircle :: "Board \<Rightarrow> Length \<Rightarrow> Circle \<Rightarrow> Transform \<Rightarrow> Length \<Rightarrow> Paths"
  gen_addHole :: "Board \<Rightarrow> Length \<Rightarrow> Hole \<Rightarrow> Transform \<Rightarrow> Length \<Rightarrow> Paths"
  gen_addCopper :: "Board \<Rightarrow> Length \<Rightarrow> string \<Rightarrow> NetSignal set \<Rightarrow> bool \<Rightarrow> Paths"
  StrokeText_generatePaths :: "BI_StrokeText \<Rightarrow> StrokeFont \<Rightarrow> Path list"
  Board_rebuildAllPlanes :: "Board \<Rightarrow> Board"
  Board_forceAirWiresRebuild :: "Board \<Rightarrow> Board"
  msg_getMessage :: "RuleCheckMessage \<Rightarrow> string"
  tr_Finished :: "nat \<Rightarrow> string"

section \<open>The state of the check\<close>

record BoardDesignRuleCheck =
  mBoard :: Board
  mIgnorePlanes :: bool
  mProgressPercent :: int
  mProgressStatus :: "string list"
  mMessages :: "RuleCheckMessage list"
  mCachedPaths :: "GraphicsLayer \<times> NetSignal set \<Rightarrow> Paths option"
  mSignals :: "Signal list"

text \<open>The state the constructor leaves: nothing cached, nothing emitted.\<close>

definition BoardDesignRuleCheck_new :: "Board \<Rightarrow> BoardDesignRuleCheck" where
  "BoardDesignRuleCheck_new board =
     \<lparr>mBoard = board, mIgnorePlanes = False, mProgressPercent = 0, mProgressStatus = [],
      mMessages = [], mCachedPaths = (\<lambda>k. None), mSignals = []\<rparr>"

definition emitSignal :: "Signal \<Rightarrow> BoardDesignRuleCheck \<Rightarrow> BoardDesignRuleCheck" where
  "emitSignal sig s = s\<lparr>mSignals := mSignals s @ [sig]\<rparr>"

definition emitProgress :: "int \<Rightarrow> BoardDesignRuleCheck \<Rightarrow> BoardDesignRuleCheck" where
  "emitProgress percent s = emitSignal (progressPercent percent) (s\<lparr>mProgressPercent := percent\<rparr>)"

definition emitStatus :: "string \<Rightarrow> BoardDesignRuleCheck \<Rightarrow> BoardDesignRuleCheck" where
  "emitStatus status s =
     emitSignal (progressStatus status) (s\<lparr>mProgressStatus := mProgressStatus s @ [status]\<rparr>)"

definition emitMessage ::
  "Collaborators \<Rightarrow> RuleCheckMessage \<Rightarrow> BoardDesignRuleCheck \<Rightarrow> BoardDesignRuleCheck" where
  "emitMessage ext msg s =
     emitSignal (progressMessage (msg_getMessage ext msg)) (s\<lparr>mMessages := mMessages s @ [msg]\<rparr>)"

text \<open>
  A method of the check that may throw returns the state it leaves (Inr), or the exception
  together with the state in which the check is when the exception leaves the method
  (Inl): what was emitted and stored before the throw stays.
\<close>

type_synonym Thrown = "error \<times> BoardDesignRuleCheck"

text \<open>An exception of a computation without state, thrown while the check is in state \<open>s\<close>.\<close>

definition thrownIn :: "BoardDesignRuleCheck \<Rightarrow> error + 'a \<Rightarrow> Thrown + 'a" where
  "thrownIn s m = (case m of Inl e \<Rightarrow> Inl (e, s) | Inr a \<Rightarrow> Inr a)"

text \<open>A loop whose body may throw: the first exception ends it.\<close>

fun foldE :: "('a \<Rightarrow> 's \<Rightarrow> 'e + 's) \<Rightarrow> 'a list \<Rightarrow> 's \<Rightarrow> 'e + 's" where
  "foldE f [] s = Inr s"
| "foldE f (x # xs) s = (case f x s of Inl e \<Rightarrow> Inl e | Inr s' \<Rightarrow> foldE f xs s')"

definition bindE :: "'e + 'a \<Rightarrow> ('a \<Rightarrow> 'e + 'b) \<Rightarrow> 'e + 'b" where
  "bindE m f = (case m of Inl e \<Rightarrow> Inl e | Inr a \<Rightarrow> f a)"

definition isEnabledCopper :: "GraphicsLayer \<Rightarrow> bool" where
  "isEnabledCopper l = (layer_isCopperLayer l \<and> layer_isEnabled l)"

text \<open>The test \<open>layer && layer->isCopperLayer() && layer->isEnabled()\<close> on a looked up layer.\<close>

definition onEnabledCopperLayer :: "Board \<Rightarrow> string \<Rightarrow> bool" where
  "onEnabledCopperLayer board name =
     (case getLayer board name of None \<Rightarrow> False | Some l \<Rightarrow> isEnabledCopper l)"

subsection \<open>getCopperPaths\<close>

definition getCopperPaths ::
  "Collaborators \<Rightarrow> BoardDesignRuleCheckSettings \<Rightarrow> GraphicsLayer \<Rightarrow> NetSignal set \<Rightarrow>
   BoardDesignRuleCheck \<Rightarrow> Paths \<times> BoardDesignRuleCheck" where
  "getCopperPaths ext settings l netsignals s =
     (let key = (l, netsignals) in
      case mCachedPaths s key of
        None \<Rightarrow>
          (let paths = gen_addCopper ext (mBoard s) (maxArcTolerance settings) (layer_getName l)
                         netsignals (mIgnorePlanes s)
           in (paths, s\<lparr>mCachedPaths := (mCachedPaths s)(key \<mapsto> paths)\<rparr>))
      | Some paths \<Rightarrow> (paths, s))"

section \<open>The checks\<close>

definition rebuildPlanes :: "Collaborators \<Rightarrow> int \<Rightarrow> BoardDesignRuleCheck \<Rightarrow> BoardDesignRuleCheck" where
  "rebuildPlanes ext progressEnd s =
     (let s1 = emitStatus ''Rebuild planes...'' s;
          s2 = s1\<lparr>mBoard := Board_rebuildAllPlanes ext (mBoard s1)\<rparr>
      in emitProgress progressEnd s2)"

subsection \<open>Minimum copper width\<close>

text \<open>
  BI_StrokeText::generatePaths: the text is substituted, the font is looked up, which can
  throw, and the paths are those of the stroke text in that font. The substitution and
  StrokeText::generatePaths are the collaborator's.
\<close>

definition BI_StrokeText_generatePaths :: "Collaborators \<Rightarrow> BI_StrokeText \<Rightarrow> error + Path list" where
  "BI_StrokeText_generatePaths ext text =
     (case bst_getFont text of
        None \<Rightarrow> Inl FontLookupFailed
      | Some font \<Rightarrow> Inr (StrokeText_generatePaths ext text font))"

text \<open>The locations of a stroke text that is too thin: its paths, each stroked.\<close>

definition strokeTextLocations :: "Collaborators \<Rightarrow> BI_StrokeText \<Rightarrow> error + Path list" where
  "strokeTextLocations ext text =
     bindE (BI_StrokeText_generatePaths ext text)
       (\<lambda>paths.
          foldE (\<lambda>path locations.
                   case PositiveLength (std_max (text_getStrokeWidth (bst_getText text)) 50000) of
                     Inl e \<Rightarrow> Inl e
                   | Inr width \<Rightarrow> Inr (locations @ Path_toOutlineStrokes ext path width))
            (map (Transform_map_Path ext (Transform_of_text (bst_getText text))) paths)
            [])"

definition checkStrokeTextWidth ::
  "Collaborators \<Rightarrow> Length \<Rightarrow> BI_StrokeText \<Rightarrow> BoardDesignRuleCheck \<Rightarrow> Thrown + BoardDesignRuleCheck" where
  "checkStrokeTextWidth ext minWidth text s =
     (if \<not> onEnabledCopperLayer (mBoard s) (text_getLayerName (bst_getText text)) then Inr s
      else if text_getStrokeWidth (bst_getText text) <s minWidth then
        bindE (thrownIn s (strokeTextLocations ext text))
          (\<lambda>locations. Inr (emitMessage ext (DrcMsgMinimumWidthViolation_Text text minWidth locations) s))
      else Inr s)"

definition checkPlaneWidth ::
  "Collaborators \<Rightarrow> Length \<Rightarrow> BI_Plane \<Rightarrow> BoardDesignRuleCheck \<Rightarrow> BoardDesignRuleCheck" where
  "checkPlaneWidth ext minWidth plane s =
     (if \<not> onEnabledCopperLayer (mBoard s) (plane_getLayerName plane) then s
      else if plane_getMinWidth plane <s minWidth then
        emitMessage ext
          (DrcMsgMinimumWidthViolation_Plane plane minWidth
             (Path_toOutlineStrokes ext (Path_toClosedPath ext (plane_getOutline plane)) 200000)) s
      else s)"

definition checkNetLineWidth ::
  "Collaborators \<Rightarrow> Length \<Rightarrow> BI_NetLine \<Rightarrow> BoardDesignRuleCheck \<Rightarrow> BoardDesignRuleCheck" where
  "checkNetLineWidth ext minWidth netline s =
     (if \<not> layer_isCopperLayer (netline_getLayer netline) \<or> \<not> layer_isEnabled (netline_getLayer netline)
      then s
      else if netline_getWidth netline <s minWidth then
        emitMessage ext
          (DrcMsgMinimumWidthViolation_NetLine netline minWidth
             [Path_obround ext (netline_getStartPosition netline) (netline_getEndPosition netline)
                (netline_getWidth netline)]) s
      else s)"

definition checkMinimumCopperWidth ::
  "Collaborators \<Rightarrow> BoardDesignRuleCheckSettings \<Rightarrow> int \<Rightarrow> BoardDesignRuleCheck \<Rightarrow>
   Thrown + BoardDesignRuleCheck" where
  "checkMinimumCopperWidth ext settings progressEnd s =
     (let minWidth = getMinCopperWidth settings in
      if minWidth = 0 then Inr s
      else
        bindE (foldE (checkStrokeTextWidth ext minWidth) (board_getStrokeTexts (mBoard s))
                 (emitStatus ''Check minimum copper width...'' s))
          (\<lambda>s1.
             let s2 = fold (checkPlaneWidth ext minWidth) (board_getPlanes (mBoard s1)) s1 in
             bindE (foldE (\<lambda>device. foldE (checkStrokeTextWidth ext minWidth) (dev_getStrokeTexts device))
                      (board_getDeviceInstances (mBoard s2)) s2)
               (\<lambda>s3.
                  Inr (emitProgress progressEnd
                         (fold (\<lambda>netsegment. fold (checkNetLineWidth ext minWidth) (seg_getNetLines netsegment))
                            (board_getNetSegments (mBoard s3)) s3)))))"

subsection \<open>Copper to copper clearance\<close>

record Item =
  itemRef :: BI_Base
  itemPolygon :: "Polygon option"
  itemCircle :: "Circle option"
  itemLayer :: string
  itemNetSignal :: "NetSignal option"
  itemAreas :: Paths

text \<open>The offset applied to each object.\<close>

definition copperCopperOffset :: "BoardDesignRuleCheckSettings \<Rightarrow> Length" where
  "copperCopperOffset settings =
     std_max (Length_div (getMinCopperCopperClearance settings - maxArcTolerance settings) 2 - 1) 0"

text \<open>
  The names of the enabled copper layers. The source holds them in a QSet, whose order of
  iteration is not fixed; here it is the order of the layer stack.
\<close>

definition copperLayerNames :: "Board \<Rightarrow> string list" where
  "copperLayerNames board = remdups (map layer_getName (filter isEnabledCopper (board_getAllLayers board)))"

definition netSegmentItems ::
  "Collaborators \<Rightarrow> Board \<Rightarrow> Length \<Rightarrow> Length \<Rightarrow> string list \<Rightarrow> BI_NetSegment \<Rightarrow> Item list" where
  "netSegmentItems ext board tol offset layers netSegment =
     map (\<lambda>via. \<lparr>itemRef = BaseVia via, itemPolygon = None, itemCircle = None, itemLayer = [],
                 itemNetSignal = seg_getNetSignal netSegment,
                 itemAreas = gen_addVia ext board tol via offset\<rparr>)
       (seg_getVias netSegment)
     @ map (\<lambda>netLine. \<lparr>itemRef = BaseNetLine netLine, itemPolygon = None, itemCircle = None,
                       itemLayer = layer_getName (netline_getLayer netLine),
                       itemNetSignal = seg_getNetSignal netSegment,
                       itemAreas = gen_addNetLine ext board tol netLine offset\<rparr>)
         (filter (\<lambda>netLine. layer_getName (netline_getLayer netLine) \<in> set layers)
            (seg_getNetLines netSegment))"

definition planeItems ::
  "Collaborators \<Rightarrow> Board \<Rightarrow> Length \<Rightarrow> Length \<Rightarrow> string list \<Rightarrow> Item list" where
  "planeItems ext board tol offset layers =
     map (\<lambda>plane. \<lparr>itemRef = BasePlane plane, itemPolygon = None, itemCircle = None,
                   itemLayer = plane_getLayerName plane,
                   itemNetSignal = Some (plane_getNetSignal plane),
                   itemAreas = Clipper_offset ext (gen_addPlane ext board tol plane) offset tol\<rparr>)
       (filter (\<lambda>plane. plane_getLayerName plane \<in> set layers) (board_getPlanes board))"

definition boardPolygonItems ::
  "Collaborators \<Rightarrow> Board \<Rightarrow> Length \<Rightarrow> Length \<Rightarrow> string list \<Rightarrow> Item list" where
  "boardPolygonItems ext board tol offset layers =
     map (\<lambda>polygon. \<lparr>itemRef = BasePolygon polygon, itemPolygon = None, itemCircle = None,
                     itemLayer = polygon_getLayerName (bpoly_getPolygon polygon),
                     itemNetSignal = None,
                     itemAreas = Clipper_offset ext (gen_addBoardPolygon ext board tol polygon) offset tol\<rparr>)
       (filter (\<lambda>polygon. polygon_getLayerName (bpoly_getPolygon polygon) \<in> set layers)
          (board_getPolygons board))"

definition strokeTextItems ::
  "Collaborators \<Rightarrow> Board \<Rightarrow> Length \<Rightarrow> Length \<Rightarrow> string list \<Rightarrow> BI_StrokeText list \<Rightarrow> Item list" where
  "strokeTextItems ext board tol offset layers texts =
     map (\<lambda>strokeText. \<lparr>itemRef = BaseStrokeText strokeText, itemPolygon = None, itemCircle = None,
                        itemLayer = text_getLayerName (bst_getText strokeText),
                        itemNetSignal = None,
                        itemAreas = gen_addStrokeText ext board tol strokeText offset\<rparr>)
       (filter (\<lambda>strokeText. text_getLayerName (bst_getText strokeText) \<in> set layers) texts)"

definition deviceItems ::
  "Collaborators \<Rightarrow> Board \<Rightarrow> Length \<Rightarrow> Length \<Rightarrow> string list \<Rightarrow> BI_Device \<Rightarrow> Item list" where
  "deviceItems ext board tol offset layers device =
     (let transform = Transform_of_device device in
      concat (map (\<lambda>pad.
                map (\<lambda>l. \<lparr>itemRef = BasePad pad, itemPolygon = None, itemCircle = None,
                          itemLayer = l, itemNetSignal = pad_getCompSigInstNetSignal pad,
                          itemAreas = gen_addPad ext board tol pad transform l offset\<rparr>)
                  (filter (pad_isOnLayer pad) layers))
              (dev_getPads device))
      @ map (\<lambda>polygon. \<lparr>itemRef = BaseDevice device, itemPolygon = Some polygon, itemCircle = None,
                        itemLayer = polygon_getLayerName polygon, itemNetSignal = None,
                        itemAreas = Clipper_offset ext (gen_addPolygon ext board tol polygon transform) offset tol\<rparr>)
          (filter (\<lambda>polygon. polygon_getLayerName polygon \<in> set layers)
             (footprint_getPolygons (dev_getLibFootprint device)))
      @ map (\<lambda>circle. \<lparr>itemRef = BaseDevice device, itemPolygon = None, itemCircle = Some circle,
                       itemLayer = circle_getLayerName circle, itemNetSignal = None,
                       itemAreas = gen_addCircle ext board tol circle transform offset\<rparr>)
          (filter (\<lambda>circle. circle_getLayerName circle \<in> set layers)
             (footprint_getCircles (dev_getLibFootprint device)))
      @ strokeTextItems ext board tol offset layers (dev_getStrokeTexts device))"

text \<open>The items in the order in which the source appends them.\<close>

definition copperItems ::
  "Collaborators \<Rightarrow> BoardDesignRuleCheckSettings \<Rightarrow> Board \<Rightarrow> bool \<Rightarrow> Item list" where
  "copperItems ext settings board ignorePlanes =
     (let tol = maxArcTolerance settings;
          offset = copperCopperOffset settings;
          layers = copperLayerNames board
      in concat (map (netSegmentItems ext board tol offset layers) (board_getNetSegments board))
         @ (if \<not> ignorePlanes then planeItems ext board tol offset layers else [])
         @ boardPolygonItems ext board tol offset layers
         @ strokeTextItems ext board tol offset layers (board_getStrokeTexts board)
         @ concat (map (deviceItems ext board tol offset layers) (board_getDeviceInstances board)))"

text \<open>The body of the inner loop: one pair of items.\<close>

definition checkItemPair ::
  "Collaborators \<Rightarrow> Length \<Rightarrow> Item \<Rightarrow> Item \<Rightarrow> BoardDesignRuleCheck \<Rightarrow> BoardDesignRuleCheck" where
  "checkItemPair ext clearance it1 it2 s =
     (if (itemNetSignal it1 \<noteq> itemNetSignal it2 \<or> itemNetSignal it1 = None \<or> itemNetSignal it2 = None)
         \<and> (itemLayer it1 = [] \<or> itemLayer it2 = [] \<or> itemLayer it1 = itemLayer it2)
      then
        (let paths = Clipper_flattenTree ext (Clipper_intersect ext (itemAreas it1) (itemAreas it2)) in
         if paths \<noteq> [] then
           emitMessage ext
             (DrcMsgCopperCopperClearanceViolation
                (itemLayer it1) (itemNetSignal it1) (itemRef it1) (itemPolygon it1) (itemCircle it1)
                (itemLayer it2) (itemNetSignal it2) (itemRef it2) (itemPolygon it2) (itemCircle it2)
                clearance (Clipper_convertBack ext paths)) s
         else s)
      else s)"

text \<open>
  The two loops: it1 runs from the first item up to, but not including, the last one,
  it2 from the item after it1 to the end.
\<close>

fun checkItemIntersections ::
  "Collaborators \<Rightarrow> Length \<Rightarrow> Item list \<Rightarrow> BoardDesignRuleCheck \<Rightarrow> BoardDesignRuleCheck" where
  "checkItemIntersections ext clearance [] s = s"
| "checkItemIntersections ext clearance (it1 # rest) s =
     (if rest = [] then s
      else checkItemIntersections ext clearance rest (fold (checkItemPair ext clearance it1) rest s))"

definition checkCopperCopperClearances ::
  "Collaborators \<Rightarrow> BoardDesignRuleCheckSettings \<Rightarrow> int \<Rightarrow> BoardDesignRuleCheck \<Rightarrow> BoardDesignRuleCheck" where
  "checkCopperCopperClearances ext settings progressEnd s =
     (let clearance = getMinCopperCopperClearance settings in
      if clearance = 0 then s
      else
        (let s1 = emitStatus ''Check copper clearances...'' s;
             items = copperItems ext settings (mBoard s1) (mIgnorePlanes s1)
         in emitProgress progressEnd (checkItemIntersections ext clearance items s1)))"

subsection \<open>Copper to board outline clearance\<close>

text \<open>The restricted area around the board outline, before it is united with itself.\<close>

definition outlineStrokes ::
  "Collaborators \<Rightarrow> Length \<Rightarrow> Length \<Rightarrow> Board \<Rightarrow> Paths" where
  "outlineStrokes ext tol clearanceWidth board =
     (let area1 =
            fold (\<lambda>polygon area.
                    if polygon_getLayerName (bpoly_getPolygon polygon) = sBoardOutlines then
                      area @ Clipper_convertAll ext
                               (Path_toOutlineStrokes ext (polygon_getPath (bpoly_getPolygon polygon)) clearanceWidth)
                               tol
                    else area)
              (board_getPolygons board) []
      in fold (\<lambda>device.
                 fold (\<lambda>polygon area.
                         if polygon_getLayerName polygon = sBoardOutlines then
                           area @ Clipper_convertAll ext
                                    (Path_toOutlineStrokes ext
                                       (Transform_map_Path ext (Transform_of_device device) (polygon_getPath polygon))
                                       clearanceWidth)
                                    tol
                         else area)
                   (footprint_getPolygons (dev_getLibFootprint device)))
           (board_getDeviceInstances board) area1)"

text \<open>
  The helper \<open>intersects\<close> and the emission that follows each of its calls: the locations
  are the intersection with the restricted area, and the message is emitted when there
  are any.
\<close>

definition reportBoardClearance ::
  "Collaborators \<Rightarrow> Paths \<Rightarrow> Paths \<Rightarrow> (Path list \<Rightarrow> RuleCheckMessage) \<Rightarrow>
   BoardDesignRuleCheck \<Rightarrow> BoardDesignRuleCheck" where
  "reportBoardClearance ext restrictedArea paths mk s =
     (let locations = Clipper_convertBack ext
                        (Clipper_flattenTree ext (Clipper_intersect ext restrictedArea paths))
      in if locations \<noteq> [] then emitMessage ext (mk locations) s else s)"

text \<open>The pads of the copper/board check: every layer of the stack is tried for each pad.\<close>

definition checkPadBoardClearance ::
  "Collaborators \<Rightarrow> Length \<Rightarrow> Length \<Rightarrow> Paths \<Rightarrow> Transform \<Rightarrow> BI_FootprintPad \<Rightarrow>
   BoardDesignRuleCheck \<Rightarrow> BoardDesignRuleCheck" where
  "checkPadBoardClearance ext tol clearance restrictedArea transform pad s =
     fold (\<lambda>l s'.
             if layer_isCopperLayer l \<and> layer_isEnabled l \<and> pad_isOnLayer pad (layer_getName l) then
               reportBoardClearance ext restrictedArea
                 (gen_addPad ext (mBoard s') tol pad transform (layer_getName l) 0)
                 (DrcMsgCopperBoardClearanceViolation_Pad pad clearance) s'
             else s')
       (board_getAllLayers (mBoard s)) s"

definition checkDeviceBoardClearance ::
  "Collaborators \<Rightarrow> Length \<Rightarrow> Length \<Rightarrow> Paths \<Rightarrow> BI_Device \<Rightarrow>
   BoardDesignRuleCheck \<Rightarrow> BoardDesignRuleCheck" where
  "checkDeviceBoardClearance ext tol clearance restrictedArea device s =
     (let transform = Transform_of_device device;
          s1 = fold (checkPadBoardClearance ext tol clearance restrictedArea transform) (dev_getPads device) s;
          s2 = fold (\<lambda>polygon s'.
                       if onEnabledCopperLayer (mBoard s') (polygon_getLayerName polygon) then
                         reportBoardClearance ext restrictedArea
                           (gen_addPolygon ext (mBoard s') tol polygon transform)
                           (DrcMsgCopperBoardClearanceViolation_Polygon (Some device) polygon clearance) s'
                       else s')
                 (footprint_getPolygons (dev_getLibFootprint device)) s1;
          s3 = fold (\<lambda>circle s'.
                       if onEnabledCopperLayer (mBoard s') (circle_getLayerName circle) then
                         reportBoardClearance ext restrictedArea
                           (gen_addCircle ext (mBoard s') tol circle transform 0)
                           (DrcMsgCopperBoardClearanceViolation_Circle (Some device) circle clearance) s'
                       else s')
                 (footprint_getCircles (dev_getLibFootprint device)) s2
      in fold (\<lambda>strokeText s'.
                 if onEnabledCopperLayer (mBoard s') (text_getLayerName (bst_getText strokeText)) then
                   reportBoardClearance ext restrictedArea
                     (gen_addStrokeText ext (mBoard s') tol strokeText 0)
                     (DrcMsgCopperBoardClearanceViolation_StrokeText (Some device) (bst_getText strokeText) clearance) s'
                 else s')
           (dev_getStrokeTexts device) s3)"

definition checkCopperBoardClearances ::
  "Collaborators \<Rightarrow> BoardDesignRuleCheckSettings \<Rightarrow> int \<Rightarrow> BoardDesignRuleCheck \<Rightarrow>
   Thrown + BoardDesignRuleCheck" where
  "checkCopperBoardClearances ext settings progressEnd s =
     (let clearance = getMinCopperBoardClearance settings;
          tol = maxArcTolerance settings
      in
      if clearance = 0 then Inr s
      else
        (let s0 = emitStatus ''Check board clearances...'' s in
         bindE (thrownIn s0 (PositiveLength (std_max (clearance + clearance - tol - 1) 1)))
           (\<lambda>clearanceWidth.
              let restrictedArea = Clipper_uniteSelf ext (outlineStrokes ext tol clearanceWidth (mBoard s0));
                  s1 = fold (\<lambda>netSegment s'.
                               fold (\<lambda>netLine s''.
                                       reportBoardClearance ext restrictedArea
                                         (gen_addNetLine ext (mBoard s'') tol netLine 0)
                                         (DrcMsgCopperBoardClearanceViolation_NetLine netLine clearance) s'')
                                 (seg_getNetLines netSegment)
                                 (fold (\<lambda>via s''.
                                          reportBoardClearance ext restrictedArea
                                            (gen_addVia ext (mBoard s'') tol via 0)
                                            (DrcMsgCopperBoardClearanceViolation_Via via clearance) s'')
                                    (seg_getVias netSegment) s'))
                         (board_getNetSegments (mBoard s0)) s0;
                  s2 = (if \<not> mIgnorePlanes s1 then
                          fold (\<lambda>plane s'.
                                  reportBoardClearance ext restrictedArea
                                    (gen_addPlane ext (mBoard s') tol plane)
                                    (DrcMsgCopperBoardClearanceViolation_Plane plane clearance) s')
                            (board_getPlanes (mBoard s1)) s1
                        else s1);
                  s3 = fold (\<lambda>polygon s'.
                               if onEnabledCopperLayer (mBoard s') (polygon_getLayerName (bpoly_getPolygon polygon)) then
                                 reportBoardClearance ext restrictedArea
                                   (gen_addBoardPolygon ext (mBoard s') tol polygon)
                                   (DrcMsgCopperBoardClearanceViolation_Polygon None (bpoly_getPolygon polygon) clearance) s'
                               else s')
                         (board_getPolygons (mBoard s2)) s2;
                  s4 = fold (\<lambda>strokeText s'.
                               if onEnabledCopperLayer (mBoard s') (text_getLayerName (bst_getText strokeText)) then
                                 reportBoardClearance ext restrictedArea
                                   (gen_addStrokeText ext (mBoard s') tol strokeText 0)
                                   (DrcMsgCopperBoardClearanceViolation_StrokeText None (bst_getText strokeText) clearance) s'
                               else s')
                         (board_getStrokeTexts (mBoard s3)) s3;
                  s5 = fold (checkDeviceBoardClearance ext tol clearance restrictedArea)
                         (board_getDeviceInstances (mBoard s4)) s4
              in Inr (emitProgress progressEnd s5))))"

subsection \<open>Copper to non-plated hole clearance\<close>

text \<open>The areas where copper is available on any layer: the united copper of the layers.\<close>

definition anyLayerCopper ::
  "Collaborators \<Rightarrow> BoardDesignRuleCheckSettings \<Rightarrow> BoardDesignRuleCheck \<Rightarrow>
   Paths \<times> BoardDesignRuleCheck" where
  "anyLayerCopper ext settings s =
     fold (\<lambda>l (copperAreas, s').
             if layer_isCopperLayer l \<and> layer_isEnabled l then
               (let (paths, s'') = getCopperPaths ext settings l {} s'
                in (Clipper_unite ext copperAreas paths, s''))
             else (copperAreas, s'))
       (board_getAllLayers (mBoard s)) ([], s)"

text \<open>The offset with which a hole is handed to the path generator.\<close>

definition holeClearanceOffset :: "BoardDesignRuleCheckSettings \<Rightarrow> Length" where
  "holeClearanceOffset settings = getMinCopperNpthClearance settings - maxArcTolerance settings - 1"

text \<open>The helper \<open>intersects\<close> of the hole check: the locations it leaves.\<close>

definition holeClearanceLocations ::
  "Collaborators \<Rightarrow> BoardDesignRuleCheckSettings \<Rightarrow> Board \<Rightarrow> Paths \<Rightarrow> Hole \<Rightarrow> Transform \<Rightarrow> Path list" where
  "holeClearanceLocations ext settings board copperAreas hole transform =
     Clipper_convertBack ext
       (Clipper_flattenTree ext
          (Clipper_intersect ext copperAreas
             (gen_addHole ext board (maxArcTolerance settings) hole transform
                (holeClearanceOffset settings))))"

definition checkHoleClearance ::
  "Collaborators \<Rightarrow> BoardDesignRuleCheckSettings \<Rightarrow> Paths \<Rightarrow> BI_Device option \<Rightarrow> Hole \<Rightarrow> Transform \<Rightarrow>
   BoardDesignRuleCheck \<Rightarrow> BoardDesignRuleCheck" where
  "checkHoleClearance ext settings copperAreas device hole transform s =
     (let locations = holeClearanceLocations ext settings (mBoard s) copperAreas hole transform in
      if locations \<noteq> [] then
        emitMessage ext
          (DrcMsgCopperHoleClearanceViolation device hole (getMinCopperNpthClearance settings) locations) s
      else s)"

definition checkCopperHoleClearances ::
  "Collaborators \<Rightarrow> BoardDesignRuleCheckSettings \<Rightarrow> int \<Rightarrow> BoardDesignRuleCheck \<Rightarrow> BoardDesignRuleCheck" where
  "checkCopperHoleClearances ext settings progressEnd s =
     (if getMinCopperNpthClearance settings = 0 then s
      else
        (let (copperAreas, s1) = anyLayerCopper ext settings (emitStatus ''Check hole clearances...'' s);
             s2 = fold (\<lambda>hole. checkHoleClearance ext settings copperAreas None (bhole_getHole hole) Transform_default)
                    (board_getHoles (mBoard s1)) s1;
             s3 = fold (\<lambda>device.
                          fold (\<lambda>hole. checkHoleClearance ext settings copperAreas (Some device) hole
                                          (Transform_of_device device))
                            (footprint_getHoles (dev_getLibFootprint device)))
                    (board_getDeviceInstances (mBoard s2)) s2
         in emitProgress progressEnd s3))"

subsection \<open>Minimum annular ring of plated holes\<close>

text \<open>The copper of every enabled copper layer, one entry for each layer.\<close>

definition allLayerCopper ::
  "Collaborators \<Rightarrow> BoardDesignRuleCheckSettings \<Rightarrow> BoardDesignRuleCheck \<Rightarrow>
   Paths list \<times> BoardDesignRuleCheck" where
  "allLayerCopper ext settings s =
     fold (\<lambda>l (thtCopperAreas, s').
             if layer_isCopperLayer l \<and> layer_isEnabled l then
               (let (paths, s'') = getCopperPaths ext settings l {} s'
                in (thtCopperAreas @ [paths], s''))
             else (thtCopperAreas, s'))
       (board_getAllLayers (mBoard s)) ([], s)"

definition annularDiameter :: "Length \<Rightarrow> Length \<Rightarrow> Length" where
  "annularDiameter drill annularWidth = drill + annularWidth * 2 - 1"

text \<open>What is left of the areas outside the copper, and the message if anything is.\<close>

definition reportRemaining ::
  "Collaborators \<Rightarrow> Paths \<Rightarrow> Paths \<Rightarrow> (Path list \<Rightarrow> RuleCheckMessage) \<Rightarrow>
   BoardDesignRuleCheck \<Rightarrow> BoardDesignRuleCheck" where
  "reportRemaining ext areas thtCopperAreaPaths mk s =
     (let remainingAreas = Clipper_flattenTree ext (Clipper_subtractToTree ext areas thtCopperAreaPaths) in
      if remainingAreas \<noteq> [] then emitMessage ext (mk (Clipper_convertBack ext remainingAreas)) s
      else s)"

definition checkViaAnnularRing ::
  "Collaborators \<Rightarrow> Length \<Rightarrow> Length \<Rightarrow> Paths \<Rightarrow> BI_Via \<Rightarrow> BoardDesignRuleCheck \<Rightarrow>
   Thrown + BoardDesignRuleCheck" where
  "checkViaAnnularRing ext tol annularWidth thtCopperAreaPaths via s =
     (let diameter = annularDiameter (via_getDrillDiameter via) annularWidth in
      if diameter \<le>s 0 then Inr s
      else
        bindE (thrownIn s (PositiveLength diameter))
          (\<lambda>d. let areas = [Clipper_convert ext
                               (Path_translated ext (Path_circle ext d) (via_getPosition via)) tol]
                in Inr (reportRemaining ext areas thtCopperAreaPaths
                          (DrcMsgMinimumAnnularRingViolation_Via via annularWidth) s)))"

text \<open>The areas of the holes of one pad, each stroked with the ring added.\<close>

definition padHoleAreas ::
  "Collaborators \<Rightarrow> Length \<Rightarrow> Length \<Rightarrow> BI_FootprintPad \<Rightarrow> error + Paths" where
  "padHoleAreas ext tol annularWidth pad =
     foldE (\<lambda>hole areas.
              let diameter = annularDiameter (hole_getDiameter hole) annularWidth in
              if diameter \<le>s 0 then Inr areas
              else
                bindE (PositiveLength diameter)
                  (\<lambda>d. Inr (fold (\<lambda>area areas'.
                                     Clipper_unite ext areas'
                                       [Clipper_convert ext (Transform_map_Path ext (Transform_of_pad pad) area) tol])
                               (Path_toOutlineStrokes ext (hole_getPath hole) d) areas)))
       (libpad_getHoles (pad_getLibPad pad)) []"

definition checkPadAnnularRing ::
  "Collaborators \<Rightarrow> Length \<Rightarrow> Length \<Rightarrow> Paths \<Rightarrow> BI_FootprintPad \<Rightarrow> BoardDesignRuleCheck \<Rightarrow>
   Thrown + BoardDesignRuleCheck" where
  "checkPadAnnularRing ext tol annularWidth thtCopperAreaPaths pad s =
     bindE (thrownIn s (padHoleAreas ext tol annularWidth pad))
       (\<lambda>areas. Inr (reportRemaining ext areas thtCopperAreaPaths
                       (DrcMsgMinimumAnnularRingViolation_Pad pad annularWidth) s))"

definition checkMinimumPthAnnularRing ::
  "Collaborators \<Rightarrow> BoardDesignRuleCheckSettings \<Rightarrow> int \<Rightarrow> BoardDesignRuleCheck \<Rightarrow>
   Thrown + BoardDesignRuleCheck" where
  "checkMinimumPthAnnularRing ext settings progressEnd s =
     (let annularWidth = getMinPthAnnularRing settings;
          tol = maxArcTolerance settings
      in
      if annularWidth = 0 then Inr s
      else
        (let (thtCopperAreas, s1) =
               allLayerCopper ext settings (emitStatus ''Check minimum PTH annular rings...'' s);
             thtCopperAreaPaths = Clipper_treeToPaths ext (Clipper_intersectList ext thtCopperAreas)
         in
         bindE (foldE (\<lambda>netsegment. foldE (checkViaAnnularRing ext tol annularWidth thtCopperAreaPaths)
                                      (seg_getVias netsegment))
                  (board_getNetSegments (mBoard s1)) s1)
           (\<lambda>s2.
              bindE (foldE (\<lambda>device. foldE (checkPadAnnularRing ext tol annularWidth thtCopperAreaPaths)
                                       (dev_getPads device))
                       (board_getDeviceInstances (mBoard s2)) s2)
                (\<lambda>s3. Inr (emitProgress progressEnd s3)))))"

subsection \<open>Drill diameters and slots\<close>

definition getHoleLocation :: "Collaborators \<Rightarrow> Hole \<Rightarrow> Transform \<Rightarrow> Transform \<Rightarrow> Path list" where
  "getHoleLocation ext hole transform1 transform2 =
     map (Transform_map_Path ext transform2)
       (Path_toOutlineStrokes ext (Transform_map_Path ext transform1 (hole_getPath hole))
          (hole_getDiameter hole))"

definition checkMinimumNpthDrillDiameter ::
  "Collaborators \<Rightarrow> BoardDesignRuleCheckSettings \<Rightarrow> int \<Rightarrow> BoardDesignRuleCheck \<Rightarrow> BoardDesignRuleCheck" where
  "checkMinimumNpthDrillDiameter ext settings progressEnd s =
     (let minDiameter = getMinNpthDrillDiameter settings in
      if minDiameter = 0 then s
      else
        (let s1 = emitStatus ''Check minimum NPTH drill diameters...'' s;
             s2 = fold (\<lambda>hole s'.
                          if \<not> hole_isSlot (bhole_getHole hole) \<and> hole_getDiameter (bhole_getHole hole) <s minDiameter
                          then emitMessage ext
                                 (DrcMsgMinimumDrillDiameterViolation_Hole None (bhole_getHole hole) minDiameter
                                    (getHoleLocation ext (bhole_getHole hole) Transform_default Transform_default)) s'
                          else s')
                    (board_getHoles (mBoard s1)) s1;
             s3 = fold (\<lambda>device.
                          fold (\<lambda>hole s'.
                                  if \<not> hole_isSlot hole \<and> hole_getDiameter hole <s minDiameter
                                  then emitMessage ext
                                         (DrcMsgMinimumDrillDiameterViolation_Hole (Some device) hole minDiameter
                                            (getHoleLocation ext hole (Transform_of_device device) Transform_default)) s'
                                  else s')
                            (footprint_getHoles (dev_getLibFootprint device)))
                    (board_getDeviceInstances (mBoard s2)) s2
         in emitProgress progressEnd s3))"

definition checkMinimumNpthSlotWidth ::
  "Collaborators \<Rightarrow> BoardDesignRuleCheckSettings \<Rightarrow> int \<Rightarrow> BoardDesignRuleCheck \<Rightarrow> BoardDesignRuleCheck" where
  "checkMinimumNpthSlotWidth ext settings progressEnd s =
     (let minWidth = getMinNpthSlotWidth settings in
      if minWidth = 0 then s
      else
        (let s1 = emitStatus ''Check minimum NPTH slot width...'' s;
             s2 = fold (\<lambda>hole s'.
                          if hole_isSlot (bhole_getHole hole) \<and> hole_getDiameter (bhole_getHole hole) <s minWidth
                          then emitMessage ext
                                 (DrcMsgMinimumSlotWidthViolation_Hole None (bhole_getHole hole) minWidth
                                    (getHoleLocation ext (bhole_getHole hole) Transform_default Transform_default)) s'
                          else s')
                    (board_getHoles (mBoard s1)) s1;
             s3 = fold (\<lambda>device.
                          fold (\<lambda>hole s'.
                                  if hole_isSlot hole \<and> hole_getDiameter hole <s minWidth
                                  then emitMessage ext
                                         (DrcMsgMinimumSlotWidthViolation_Hole (Some device) hole minWidth
                                            (getHoleLocation ext hole (Transform_of_device device) Transform_default)) s'
                                  else s')
                            (footprint_getHoles (dev_getLibFootprint device)))
                    (board_getDeviceInstances (mBoard s2)) s2
         in emitProgress progressEnd s3))"

definition checkPadHoleDrillDiameter ::
  "Collaborators \<Rightarrow> Length \<Rightarrow> BI_FootprintPad \<Rightarrow> PadHole \<Rightarrow> BoardDesignRuleCheck \<Rightarrow>
   Thrown + BoardDesignRuleCheck" where
  "checkPadHoleDrillDiameter ext minDiameter pad hole s =
     (if hole_getDiameter hole <s minDiameter then
        bindE (thrownIn s (PositiveLength (std_max (hole_getDiameter hole) 50000)))
          (\<lambda>diameter.
             Inr (emitMessage ext
                    (DrcMsgMinimumDrillDiameterViolation_Pad pad hole minDiameter
                       [Path_translated ext (Path_circle ext diameter) (pad_getPosition pad)]) s))
      else Inr s)"

definition checkMinimumPthDrillDiameter ::
  "Collaborators \<Rightarrow> BoardDesignRuleCheckSettings \<Rightarrow> int \<Rightarrow> BoardDesignRuleCheck \<Rightarrow>
   Thrown + BoardDesignRuleCheck" where
  "checkMinimumPthDrillDiameter ext settings progressEnd s =
     (let minDiameter = getMinPthDrillDiameter settings in
      if minDiameter = 0 then Inr s
      else
        (let s1 = emitStatus ''Check minimum PTH drill diameters...'' s;
             s2 = fold (\<lambda>netsegment.
                          fold (\<lambda>via s'.
                                  if via_getDrillDiameter via <s minDiameter
                                  then emitMessage ext
                                         (DrcMsgMinimumDrillDiameterViolation_Via via minDiameter
                                            [Path_translated ext (Path_circle ext (via_getDrillDiameter via))
                                               (via_getPosition via)]) s'
                                  else s')
                            (seg_getVias netsegment))
                    (board_getNetSegments (mBoard s1)) s1
         in bindE (foldE (\<lambda>device.
                            foldE (\<lambda>pad. foldE (checkPadHoleDrillDiameter ext minDiameter pad)
                                           (libpad_getHoles (pad_getLibPad pad)))
                              (dev_getPads device))
                     (board_getDeviceInstances (mBoard s2)) s2)
              (\<lambda>s3. Inr (emitProgress progressEnd s3))))"

definition checkMinimumPthSlotWidth ::
  "Collaborators \<Rightarrow> BoardDesignRuleCheckSettings \<Rightarrow> int \<Rightarrow> BoardDesignRuleCheck \<Rightarrow> BoardDesignRuleCheck" where
  "checkMinimumPthSlotWidth ext settings progressEnd s =
     (let minWidth = getMinPthSlotWidth settings in
      if minWidth = 0 then s
      else
        (let s1 = emitStatus ''Check minimum PTH slot width...'' s;
             s2 = fold (\<lambda>device.
                          fold (\<lambda>pad.
                                  fold (\<lambda>hole s'.
                                          if hole_isSlot hole \<and> hole_getDiameter hole <s minWidth
                                          then emitMessage ext
                                                 (DrcMsgMinimumSlotWidthViolation_Pad pad hole minWidth
                                                    (getHoleLocation ext hole
                                                       (Transform_of (libpad_getPosition (pad_getLibPad pad))
                                                          (libpad_getRotation (pad_getLibPad pad)))
                                                       (Transform_of_device device))) s'
                                          else s')
                                    (libpad_getHoles (pad_getLibPad pad)))
                            (dev_getPads device))
                    (board_getDeviceInstances (mBoard s1)) s1
         in emitProgress progressEnd s2))"

definition requiresHoleSlotWarning :: "Hole \<Rightarrow> AllowedSlots \<Rightarrow> bool" where
  "requiresHoleSlotWarning hole allowed =
     (if hole_isCurvedSlot hole \<and> AllowedSlots_value allowed < AllowedSlots_value Any then True
      else if hole_isMultiSegmentSlot hole
              \<and> AllowedSlots_value allowed < AllowedSlots_value MultiSegmentStraight then True
      else if hole_isSlot hole
              \<and> AllowedSlots_value allowed < AllowedSlots_value SingleSegmentStraight then True
      else False)"

definition checkAllowedNpthSlots ::
  "Collaborators \<Rightarrow> BoardDesignRuleCheckSettings \<Rightarrow> int \<Rightarrow> BoardDesignRuleCheck \<Rightarrow> BoardDesignRuleCheck" where
  "checkAllowedNpthSlots ext settings progressEnd s =
     (let allowed = getAllowedNpthSlots settings in
      if allowed = Any then s
      else
        (let s1 = emitStatus ''Check for disallowed NPTH slots...'' s;
             s2 = fold (\<lambda>hole s'.
                          if requiresHoleSlotWarning (bhole_getHole hole) allowed
                          then emitMessage ext
                                 (DrcMsgForbiddenSlot_BoardHole hole
                                    (getHoleLocation ext (bhole_getHole hole) Transform_default Transform_default)) s'
                          else s')
                    (board_getHoles (mBoard s1)) s1;
             s3 = fold (\<lambda>device.
                          fold (\<lambda>hole s'.
                                  if requiresHoleSlotWarning hole allowed
                                  then emitMessage ext
                                         (DrcMsgForbiddenSlot_DeviceHole device hole
                                            (getHoleLocation ext hole (Transform_of_device device) Transform_default)) s'
                                  else s')
                            (footprint_getHoles (dev_getLibFootprint device)))
                    (board_getDeviceInstances (mBoard s2)) s2
         in emitProgress progressEnd s3))"

definition checkAllowedPthSlots ::
  "Collaborators \<Rightarrow> BoardDesignRuleCheckSettings \<Rightarrow> int \<Rightarrow> BoardDesignRuleCheck \<Rightarrow> BoardDesignRuleCheck" where
  "checkAllowedPthSlots ext settings progressEnd s =
     (let allowed = getAllowedPthSlots settings in
      if allowed = Any then s
      else
        (let s1 = emitStatus ''Check for disallowed PTH slots...'' s;
             s2 = fold (\<lambda>device.
                          fold (\<lambda>pad.
                                  fold (\<lambda>hole s'.
                                          if requiresHoleSlotWarning hole allowed
                                          then emitMessage ext
                                                 (DrcMsgForbiddenSlot_Pad pad hole
                                                    (getHoleLocation ext hole
                                                       (Transform_of (libpad_getPosition (pad_getLibPad pad))
                                                          (libpad_getRotation (pad_getLibPad pad)))
                                                       (Transform_of_device device))) s'
                                          else s')
                                    (libpad_getHoles (pad_getLibPad pad)))
                            (dev_getPads device))
                    (board_getDeviceInstances (mBoard s1)) s1
         in emitProgress progressEnd s2))"

subsection \<open>Pad connections\<close>

text \<open>
  The layers of the net lines attached to a pad. The source holds them in a QSet of layer
  pointers; here they are in the order of the net lines.
\<close>

definition checkInvalidPadConnections ::
  "Collaborators \<Rightarrow> int \<Rightarrow> BoardDesignRuleCheck \<Rightarrow> BoardDesignRuleCheck" where
  "checkInvalidPadConnections ext progressEnd s =
     (let s1 = emitStatus ''Check pad connections...'' s;
          s2 = fold (\<lambda>device.
                       fold (\<lambda>pad.
                               fold (\<lambda>l s'.
                                       if \<not> list_ex geometry_containsOrigin
                                              (pad_getGeometryOnLayer pad (layer_getName l))
                                       then emitMessage ext
                                              (DrcMsgInvalidPadConnection pad l
                                                 [Path_translated ext (Path_circle ext 500000) (pad_getPosition pad)]) s'
                                       else s')
                                 (remdups (map netline_getLayer (pad_getNetLines pad))))
                         (dev_getPads device))
                 (board_getDeviceInstances (mBoard s1)) s1
      in emitProgress progressEnd s2)"

subsection \<open>Courtyards\<close>

definition getDeviceCourtyardPaths ::
  "Collaborators \<Rightarrow> BoardDesignRuleCheckSettings \<Rightarrow> BI_Device \<Rightarrow> GraphicsLayer \<Rightarrow> Paths" where
  "getDeviceCourtyardPaths ext settings device l =
     (let transform = Transform_of_device device;
          paths1 = fold (\<lambda>polygon paths.
                           let polygonLayer = Transform_map_Layer ext transform (polygon_getLayerName polygon) in
                           if polygonLayer \<noteq> layer_getName l then paths
                           else
                             (let path = Transform_map_Path ext transform (polygon_getPath polygon) in
                              Clipper_unite ext paths [Clipper_convert ext path (maxArcTolerance settings)]))
                     (footprint_getPolygons (dev_getLibFootprint device)) []
      in fold (\<lambda>circle paths.
                 let circleLayer = Transform_map_Layer ext transform (circle_getLayerName circle) in
                 if circleLayer \<noteq> layer_getName l then paths
                 else
                   (let absolutePos = Transform_map_Point ext transform (circle_getCenter circle) in
                    Clipper_unite ext paths
                      [Clipper_convert ext (Path_circle ext (circle_getDiameter circle))
                         (maxArcTolerance settings)]))
           (footprint_getCircles (dev_getLibFootprint device)) paths1)"

text \<open>QMap::insert with a device pointer as key: the entries stay in the order of the keys.\<close>

fun QMap_insert :: "BI_Device \<Rightarrow> Paths \<Rightarrow> (BI_Device \<times> Paths) list \<Rightarrow> (BI_Device \<times> Paths) list" where
  "QMap_insert k v [] = [(k, v)]"
| "QMap_insert k v ((k', v') # m) =
     (if dev_address k < dev_address k' then (k, v) # (k', v') # m
      else if dev_address k = dev_address k' then (k, v) # m
      else (k', v') # QMap_insert k v m)"

fun checkCourtyardPairs ::
  "Collaborators \<Rightarrow> (BI_Device \<times> Paths) list \<Rightarrow> BoardDesignRuleCheck \<Rightarrow> BoardDesignRuleCheck" where
  "checkCourtyardPairs ext [] s = s"
| "checkCourtyardPairs ext ((dev1, paths1) # rest) s =
     checkCourtyardPairs ext rest
       (fold (\<lambda>(dev2, paths2) s'.
                let locations = Clipper_convertBack ext
                                  (Clipper_flattenTree ext (Clipper_intersect ext paths1 paths2))
                in if locations \<noteq> [] then emitMessage ext (DrcMsgCourtyardOverlap dev1 dev2 locations) s'
                   else s')
          rest s)"

definition checkCourtyardClearances ::
  "Collaborators \<Rightarrow> BoardDesignRuleCheckSettings \<Rightarrow> int \<Rightarrow> BoardDesignRuleCheck \<Rightarrow> BoardDesignRuleCheck" where
  "checkCourtyardClearances ext settings progressEnd s =
     (let s1 = emitStatus ''Check courtyard clearances...'' s;
          s2 = fold (\<lambda>l s'.
                       let deviceCourtyards =
                             fold (\<lambda>device. QMap_insert device (getDeviceCourtyardPaths ext settings device l))
                               (board_getDeviceInstances (mBoard s')) []
                       in checkCourtyardPairs ext deviceCourtyards s')
                 (getLayers (mBoard s1) [sTopCourtyard, sBotCourtyard]) s1
      in emitProgress progressEnd s2)"

subsection \<open>Unplaced components, missing connections, stale objects\<close>

definition checkForUnplacedComponents ::
  "Collaborators \<Rightarrow> int \<Rightarrow> BoardDesignRuleCheck \<Rightarrow> BoardDesignRuleCheck" where
  "checkForUnplacedComponents ext progressEnd s =
     (let s1 = fold (\<lambda>cmp s'.
                       if getDeviceInstanceByComponentUuid (mBoard s') (cmp_getUuid cmp) = None
                          \<and> \<not> cmp_isSchematicOnly cmp
                       then emitMessage ext (DrcMsgMissingDevice cmp) s'
                       else s')
                 (board_getComponentInstances (mBoard s))
                 (emitStatus ''Check for unplaced components...'' s)
      in emitProgress progressEnd s1)"

definition checkForMissingConnections ::
  "Collaborators \<Rightarrow> int \<Rightarrow> BoardDesignRuleCheck \<Rightarrow> BoardDesignRuleCheck" where
  "checkForMissingConnections ext progressEnd s =
     (let s1 = emitStatus ''Check for missing connections...'' s;
          s2 = s1\<lparr>mBoard := Board_forceAirWiresRebuild ext (mBoard s1)\<rparr>;
          s3 = fold (\<lambda>airWire.
                       emitMessage ext
                         (DrcMsgMissingConnection (airwire_getP1 airWire) (airwire_getP2 airWire)
                            (airwire_getNetSignal airWire)
                            [Path_obround ext (airwire_getP1 airWire) (airwire_getP2 airWire) 50000]))
                 (board_getAirWires (mBoard s2)) s2
      in emitProgress progressEnd s3)"

definition checkForStaleObjects ::
  "Collaborators \<Rightarrow> int \<Rightarrow> BoardDesignRuleCheck \<Rightarrow> BoardDesignRuleCheck" where
  "checkForStaleObjects ext progressEnd s =
     (let s1 = emitStatus ''Check for stale objects...'' s;
          s2 = fold (\<lambda>netSegment s'.
                       fold (\<lambda>netPoint s''.
                               if \<not> netpoint_isUsed netPoint
                               then emitMessage ext
                                      (DrcMsgUnconnectedJunction netPoint
                                         [Path_translated ext (Path_circle ext 300000)
                                            (netpoint_getPosition netPoint)]) s''
                               else s'')
                         (seg_getNetPoints netSegment)
                         (if \<not> seg_isUsed netSegment then emitMessage ext (DrcMsgEmptyNetSegment netSegment) s'
                          else s'))
                 (board_getNetSegments (mBoard s1)) s1
      in emitProgress progressEnd s2)"

subsection \<open>execute\<close>

text \<open>The passes that run only when the check is not quick, from the annular rings on.\<close>

definition fullChecks ::
  "Collaborators \<Rightarrow> BoardDesignRuleCheckSettings \<Rightarrow> BoardDesignRuleCheck \<Rightarrow> Thrown + BoardDesignRuleCheck" where
  "fullChecks ext settings s =
     bindE (checkMinimumPthAnnularRing ext settings 64 s)
       (\<lambda>s1.
          let s2 = checkMinimumNpthDrillDiameter ext settings 66 s1;
              s3 = checkMinimumNpthSlotWidth ext settings 68 s2
          in bindE (checkMinimumPthDrillDiameter ext settings 70 s3)
               (\<lambda>s4.
                  let s5 = checkMinimumPthSlotWidth ext settings 72 s4;
                      s6 = checkAllowedNpthSlots ext settings 74 s5;
                      s7 = checkAllowedPthSlots ext settings 76 s6;
                      s8 = checkInvalidPadConnections ext 78 s7;
                      s9 = checkCourtyardClearances ext settings 91 s8;
                      s10 = checkForUnplacedComponents ext 93 s9;
                      s11 = checkForMissingConnections ext 95 s10
                  in Inr (checkForStaleObjects ext 97 s11)))"

definition execute ::
  "Collaborators \<Rightarrow> BoardDesignRuleCheckSettings \<Rightarrow> bool \<Rightarrow> BoardDesignRuleCheck \<Rightarrow>
   Thrown + BoardDesignRuleCheck" where
  "execute ext settings quick s =
     (let s1 = emitProgress 2 (emitSignal started s);
          s2 = s1\<lparr>mIgnorePlanes := quick, mProgressStatus := [], mMessages := []\<rparr>;
          s3 = (if \<not> quick then rebuildPlanes ext 12 s2 else s2)
      in
      bindE (checkMinimumCopperWidth ext settings 14 s3)
        (\<lambda>s4.
           let s5 = checkCopperCopperClearances ext settings 34 s4 in
           bindE (checkCopperBoardClearances ext settings 44 s5)
             (\<lambda>s6.
                let s7 = checkCopperHoleClearances ext settings 54 s6 in
                bindE (if \<not> quick then fullChecks ext settings s7 else Inr s7)
                  (\<lambda>s8.
                     Inr (emitSignal finished
                            (emitProgress 100
                               (emitStatus (tr_Finished ext (length (mMessages s8))) s8)))))))"

section \<open>Notions used in the statements\<close>

text \<open>Emitting a list of messages, one after the other.\<close>

definition emitMessages ::
  "Collaborators \<Rightarrow> RuleCheckMessage list \<Rightarrow> BoardDesignRuleCheck \<Rightarrow> BoardDesignRuleCheck" where
  "emitMessages ext ms s = fold (emitMessage ext) ms s"

subsection \<open>Pairs of copper items\<close>

text \<open>
  The two reasons for which a pair of items is left out, and what is emitted for a pair
  that is not: both items carry the same net signal and it is not null; both items have
  a layer and the layers differ.
\<close>

definition sameNonNullNet :: "Item \<Rightarrow> Item \<Rightarrow> bool" where
  "sameNonNullNet a b = (itemNetSignal a \<noteq> None \<and> itemNetSignal a = itemNetSignal b)"

definition bothLayersDiffer :: "Item \<Rightarrow> Item \<Rightarrow> bool" where
  "bothLayersDiffer a b = (itemLayer a \<noteq> [] \<and> itemLayer b \<noteq> [] \<and> itemLayer a \<noteq> itemLayer b)"

definition itemIntersection :: "Collaborators \<Rightarrow> Item \<Rightarrow> Item \<Rightarrow> Paths" where
  "itemIntersection ext a b = Clipper_flattenTree ext (Clipper_intersect ext (itemAreas a) (itemAreas b))"

definition clearanceViolation :: "Collaborators \<Rightarrow> Length \<Rightarrow> Item \<Rightarrow> Item \<Rightarrow> RuleCheckMessage" where
  "clearanceViolation ext clearance a b =
     DrcMsgCopperCopperClearanceViolation
       (itemLayer a) (itemNetSignal a) (itemRef a) (itemPolygon a) (itemCircle a)
       (itemLayer b) (itemNetSignal b) (itemRef b) (itemPolygon b) (itemCircle b)
       clearance (Clipper_convertBack ext (itemIntersection ext a b))"

definition pairViolates :: "Collaborators \<Rightarrow> Item \<Rightarrow> Item \<Rightarrow> bool" where
  "pairViolates ext a b =
     (\<not> sameNonNullNet a b \<and> \<not> bothLayersDiffer a b \<and> itemIntersection ext a b \<noteq> [])"

text \<open>All pairs of a list, each element with the elements after it.\<close>

fun itemPairs :: "'a list \<Rightarrow> ('a \<times> 'a) list" where
  "itemPairs [] = []"
| "itemPairs (x # xs) = map (Pair x) xs @ itemPairs xs"

subsection \<open>What a pass leaves behind\<close>

definition messageSignals :: "Collaborators \<Rightarrow> RuleCheckMessage list \<Rightarrow> Signal list" where
  "messageSignals ext ms = map (\<lambda>m. progressMessage (msg_getMessage ext m)) ms"

text \<open>
  The messages of the four passes that every run makes: those of the minimum copper width
  and of the three copper clearances. With planes ignored none of them is about the
  clearance of a plane; the minimum width of a plane is among them either way.
\<close>

fun isPlane :: "BI_Base \<Rightarrow> bool" where
  "isPlane (BasePlane plane) = True"
| "isPlane item = False"

definition copperKind :: "bool \<Rightarrow> RuleCheckMessage \<Rightarrow> bool" where
  "copperKind ignorePlanes m =
     (case m of
        DrcMsgMinimumWidthViolation_Text _ _ _ \<Rightarrow> True
      | DrcMsgMinimumWidthViolation_Plane _ _ _ \<Rightarrow> True
      | DrcMsgMinimumWidthViolation_NetLine _ _ _ \<Rightarrow> True
      | DrcMsgCopperCopperClearanceViolation _ _ item1 _ _ _ _ item2 _ _ _ _ \<Rightarrow>
          \<not> (ignorePlanes \<and> (isPlane item1 \<or> isPlane item2))
      | DrcMsgCopperBoardClearanceViolation_Via _ _ _ \<Rightarrow> True
      | DrcMsgCopperBoardClearanceViolation_NetLine _ _ _ \<Rightarrow> True
      | DrcMsgCopperBoardClearanceViolation_Plane _ _ _ \<Rightarrow> \<not> ignorePlanes
      | DrcMsgCopperBoardClearanceViolation_Polygon _ _ _ _ \<Rightarrow> True
      | DrcMsgCopperBoardClearanceViolation_StrokeText _ _ _ _ \<Rightarrow> True
      | DrcMsgCopperBoardClearanceViolation_Pad _ _ _ \<Rightarrow> True
      | DrcMsgCopperBoardClearanceViolation_Circle _ _ _ _ \<Rightarrow> True
      | DrcMsgCopperHoleClearanceViolation _ _ _ _ \<Rightarrow> True
      | _ \<Rightarrow> False)"

text \<open>
  A step that only emits messages of kind \<open>K\<close>: it appends them to the messages and
  their texts to the signals, and leaves the progress, the status texts, the plane flag
  and the board as they are. The cache of copper paths may change.
\<close>

definition quiet ::
  "Collaborators \<Rightarrow> (RuleCheckMessage \<Rightarrow> bool) \<Rightarrow> BoardDesignRuleCheck \<Rightarrow> BoardDesignRuleCheck \<Rightarrow> bool" where
  "quiet ext K s s' =
     (\<exists>ms. list_all K ms \<and> mMessages s' = mMessages s @ ms
        \<and> mSignals s' = mSignals s @ messageSignals ext ms
        \<and> mProgressStatus s' = mProgressStatus s \<and> mProgressPercent s' = mProgressPercent s
        \<and> mIgnorePlanes s' = mIgnorePlanes s \<and> mBoard s' = mBoard s)"

definition quietE ::
  "Collaborators \<Rightarrow> (RuleCheckMessage \<Rightarrow> bool) \<Rightarrow> BoardDesignRuleCheck \<Rightarrow>
   Thrown + BoardDesignRuleCheck \<Rightarrow> bool" where
  "quietE ext K s r = (\<exists>s'. r = Inr s' \<and> quiet ext K s s')"

text \<open>
  A pass that is enabled emits its status, messages of kind \<open>K\<close> and its progress, and
  leaves the board as \<open>f\<close> makes it; a pass that is disabled leaves the state as it is.
\<close>

definition passResult ::
  "Collaborators \<Rightarrow> (RuleCheckMessage \<Rightarrow> bool) \<Rightarrow> bool \<Rightarrow> string \<Rightarrow> int \<Rightarrow> (Board \<Rightarrow> Board) \<Rightarrow>
   BoardDesignRuleCheck \<Rightarrow> BoardDesignRuleCheck \<Rightarrow> bool" where
  "passResult ext K enabled status percent f s s' =
     (if enabled then
        (\<exists>ms. list_all K ms \<and> mMessages s' = mMessages s @ ms
           \<and> mSignals s' = mSignals s @ [progressStatus status] @ messageSignals ext ms @ [progressPercent percent]
           \<and> mProgressStatus s' = mProgressStatus s @ [status] \<and> mProgressPercent s' = percent
           \<and> mIgnorePlanes s' = mIgnorePlanes s \<and> mBoard s' = f (mBoard s))
      else s' = s)"

definition passResultE ::
  "Collaborators \<Rightarrow> (RuleCheckMessage \<Rightarrow> bool) \<Rightarrow> bool \<Rightarrow> string \<Rightarrow> int \<Rightarrow> (Board \<Rightarrow> Board) \<Rightarrow>
   BoardDesignRuleCheck \<Rightarrow> Thrown + BoardDesignRuleCheck \<Rightarrow> bool" where
  "passResultE ext K enabled status percent f s r =
     (\<exists>s'. r = Inr s' \<and> passResult ext K enabled status percent f s s')"

named_theorems quiet_intros

section \<open>A small board and simple collaborators for evaluation\<close>

text \<open>
  The simple collaborators work on grid points: a polygon set is a list of point lists,
  and the area it covers is the set of all its points.
\<close>

definition gridCells :: "Paths \<Rightarrow> IntPoint list" where
  "gridCells paths = remdups (concat paths)"

definition gridTree :: "IntPoint list \<Rightarrow> PolyTree" where
  "gridTree cells = (if cells = [] then [] else [PolyNode cells []])"

definition gridIntersect :: "Paths \<Rightarrow> Paths \<Rightarrow> PolyTree" where
  "gridIntersect a b = gridTree (filter (\<lambda>p. p \<in> set (concat b)) (gridCells a))"

definition gridSubtract :: "Paths \<Rightarrow> Paths \<Rightarrow> PolyTree" where
  "gridSubtract a b = gridTree (filter (\<lambda>p. p \<notin> set (concat b)) (gridCells a))"

definition gridIntersectList :: "Paths list \<Rightarrow> PolyTree" where
  "gridIntersectList ps =
     (case ps of [] \<Rightarrow> []
      | a # rest \<Rightarrow> gridTree (filter (\<lambda>p. list_all (\<lambda>b. p \<in> set (concat b)) rest) (gridCells a)))"

definition gridUnite :: "Paths \<Rightarrow> Paths \<Rightarrow> Paths" where
  "gridUnite a b = (if gridCells (a @ b) = [] then [] else [gridCells (a @ b)])"

definition movePoint :: "Transform \<Rightarrow> Point \<Rightarrow> Point" where
  "movePoint t p =
     ((if tf_mirrored t then - fst p else fst p) + fst (tf_position t), snd p + snd (tf_position t))"

definition mirrorLayer :: "Transform \<Rightarrow> string \<Rightarrow> string" where
  "mirrorLayer t name =
     (if \<not> tf_mirrored t then name
      else if name = sTopCourtyard then sBotCourtyard
      else if name = sBotCourtyard then sTopCourtyard
      else name)"

definition layerCopper :: "Board \<Rightarrow> string \<Rightarrow> bool \<Rightarrow> Paths" where
  "layerCopper board name ignorePlanes =
     concat (map (\<lambda>seg.
               map (\<lambda>via. [via_getPosition via]) (seg_getVias seg)
               @ map (\<lambda>netLine. [netline_getStartPosition netLine, netline_getEndPosition netLine])
                   (filter (\<lambda>netLine. layer_getName (netline_getLayer netLine) = name) (seg_getNetLines seg)))
             (board_getNetSegments board))
     @ (if ignorePlanes then []
        else map (\<lambda>plane. map fst (concat (plane_getFragments plane)))
               (filter (\<lambda>plane. plane_getLayerName plane = name) (board_getPlanes board)))"

definition simpleCollaborators :: Collaborators where
  "simpleCollaborators =
     \<lparr>Path_toOutlineStrokes = (\<lambda>path width. [path]),
      Path_circle = (\<lambda>d. [((Length_div d 2, 0), - 180000), ((- Length_div d 2, 0), - 180000),
                          ((Length_div d 2, 0), 0)]),
      Path_obround = (\<lambda>p1 p2 width. [(p1, 0), (p2, 0)]),
      Path_translated = (\<lambda>path offset. map (\<lambda>(p, a). ((fst p + fst offset, snd p + snd offset), a)) path),
      Path_toClosedPath = (\<lambda>path. path),
      Transform_map_Path = (\<lambda>t path. map (\<lambda>(p, a). (movePoint t p, a)) path),
      Transform_map_Point = movePoint,
      Transform_map_Layer = mirrorLayer,
      Clipper_intersect = gridIntersect,
      Clipper_intersectList = gridIntersectList,
      Clipper_unite = gridUnite,
      Clipper_uniteSelf = (\<lambda>paths. gridUnite paths []),
      Clipper_subtractToTree = gridSubtract,
      Clipper_flattenTree = map Contour,
      Clipper_treeToPaths = map Contour,
      Clipper_offset = (\<lambda>paths offset tol. paths),
      Clipper_convert = (\<lambda>path tol. map fst path),
      Clipper_convertAll = (\<lambda>paths tol. map (map fst) paths),
      Clipper_convertBack = map (map (\<lambda>p. (p, 0))),
      gen_addVia = (\<lambda>board tol via offset. [[via_getPosition via]]),
      gen_addNetLine = (\<lambda>board tol netLine offset.
                          [[netline_getStartPosition netLine, netline_getEndPosition netLine]]),
      gen_addPlane = (\<lambda>board tol plane. [map fst (concat (plane_getFragments plane))]),
      gen_addBoardPolygon = (\<lambda>board tol polygon. [map fst (polygon_getPath (bpoly_getPolygon polygon))]),
      gen_addPolygon = (\<lambda>board tol polygon t. [map (\<lambda>(p, a). movePoint t p) (polygon_getPath polygon)]),
      gen_addStrokeText = (\<lambda>board tol text offset. [[text_getPosition (bst_getText text)]]),
      gen_addPad = (\<lambda>board tol pad t l offset. [[pad_getPosition pad]]),
      gen_addCircle = (\<lambda>board tol circle t offset. [[movePoint t (circle_getCenter circle)]]),
      gen_addHole = (\<lambda>board tol hole t offset. [map (\<lambda>(p, a). movePoint t p) (hole_getPath hole)]),
      gen_addCopper = (\<lambda>board tol name netsignals ignorePlanes. layerCopper board name ignorePlanes),
      StrokeText_generatePaths = (\<lambda>text font. [[(text_getPosition (bst_getText text), 0)]]),
      Board_rebuildAllPlanes =
        (\<lambda>board. board\<lparr>board_getPlanes :=
                          map (\<lambda>plane. plane\<lparr>plane_getFragments := [plane_getOutline plane]\<rparr>)
                            (board_getPlanes board)\<rparr>),
      Board_forceAirWiresRebuild = (\<lambda>board. board),
      msg_getMessage = (\<lambda>msg. ''violation''),
      tr_Finished = (\<lambda>n. ''Finished with '' @ replicate n CHR ''I'' @ '' message(s)!'')\<rparr>"

definition topCopper :: GraphicsLayer where
  "topCopper = \<lparr>layer_getName = ''top_cu'', layer_isCopperLayer = True, layer_isEnabled = True\<rparr>"

definition botCopper :: GraphicsLayer where
  "botCopper = \<lparr>layer_getName = ''bot_cu'', layer_isCopperLayer = True, layer_isEnabled = True\<rparr>"

definition topCourtyard :: GraphicsLayer where
  "topCourtyard = \<lparr>layer_getName = sTopCourtyard, layer_isCopperLayer = False, layer_isEnabled = True\<rparr>"

definition boardOutlines :: GraphicsLayer where
  "boardOutlines = \<lparr>layer_getName = sBoardOutlines, layer_isCopperLayer = False, layer_isEnabled = True\<rparr>"

definition examplePad :: BI_FootprintPad where
  "examplePad =
     \<lparr>pad_getLibPad = \<lparr>libpad_getPosition = (0, 0), libpad_getRotation = 0,
                       libpad_getHoles = [\<lparr>hole_getDiameter = 800000, hole_getPath = [((0, 0), 0)],
                                           hole_isSlot = False, hole_isMultiSegmentSlot = False,
                                           hole_isCurvedSlot = False\<rparr>]\<rparr>,
      pad_getPosition = (0, 0), pad_getRotation = 0, pad_getMirrored = False,
      pad_isOnLayer = (\<lambda>name. name = ''top_cu'' \<or> name = ''bot_cu''),
      pad_getCompSigInstNetSignal = Some ''GND'',
      pad_getNetLines = [],
      pad_getGeometryOnLayer = (\<lambda>name. [\<lparr>geometry_containsOrigin = True\<rparr>])\<rparr>"

definition exampleDevice :: BI_Device where
  "exampleDevice =
     \<lparr>dev_address = 1, dev_getComponentInstanceUuid = ''c1'',
      dev_getPosition = (0, 0), dev_getRotation = 0, dev_getMirrored = False,
      dev_getPads = [examplePad],
      dev_getLibFootprint =
        \<lparr>footprint_getPolygons = [],
         footprint_getCircles = [\<lparr>circle_getLayerName = sTopCourtyard, circle_getCenter = (10000000, 0),
                                   circle_getDiameter = 1000000\<rparr>],
         footprint_getHoles = []\<rparr>,
      dev_getStrokeTexts = []\<rparr>"

definition exampleVia :: BI_Via where
  "exampleVia = \<lparr>via_getPosition = (5000000, 5000000), via_getDrillDiameter = 300000, via_getSize = 700000\<rparr>"

definition exampleNetLine :: BI_NetLine where
  "exampleNetLine =
     \<lparr>netline_getLayer = topCopper, netline_getWidth = 150000,
      netline_getStartPosition = (5000000, 5000000), netline_getEndPosition = (7000000, 5000000)\<rparr>"

definition examplePlane :: BI_Plane where
  "examplePlane =
     \<lparr>plane_getLayerName = ''top_cu'', plane_getMinWidth = 200000,
      plane_getOutline = [((7000000, 5000000), 0), ((9000000, 5000000), 0), ((9000000, 9000000), 0)],
      plane_getNetSignal = ''VCC'',
      plane_getFragments = [[((7000000, 5000000), 0), ((9000000, 5000000), 0), ((9000000, 9000000), 0)]]\<rparr>"

definition exampleBoard :: Board where
  "exampleBoard =
     \<lparr>board_getAllLayers = [topCopper, botCopper, topCourtyard, boardOutlines],
      board_getNetSegments =
        [\<lparr>seg_getNetSignal = Some ''GND'', seg_getVias = [exampleVia], seg_getNetLines = [exampleNetLine],
          seg_getNetPoints = [\<lparr>netpoint_getPosition = (7000000, 5000000), netpoint_isUsed = True\<rparr>],
          seg_isUsed = True\<rparr>],
      board_getPlanes = [examplePlane],
      board_getPolygons =
        [\<lparr>bpoly_getPolygon = \<lparr>polygon_getLayerName = sBoardOutlines,
                              polygon_getPath = [((0, 0), 0), ((20000000, 0), 0), ((20000000, 20000000), 0),
                                                 ((0, 20000000), 0), ((0, 0), 0)]\<rparr>\<rparr>],
      board_getStrokeTexts = [],
      board_getHoles =
        [\<lparr>bhole_getHole = \<lparr>hole_getDiameter = 1000000, hole_getPath = [((9000000, 9000000), 0)],
                           hole_isSlot = False, hole_isMultiSegmentSlot = False, hole_isCurvedSlot = False\<rparr>\<rparr>],
      board_getDeviceInstances = [exampleDevice],
      board_getAirWires = [],
      board_getComponentInstances = [\<lparr>cmp_getUuid = ''c1'', cmp_isSchematicOnly = False\<rparr>]\<rparr>"

definition exampleSettings :: BoardDesignRuleCheckSettings where
  "exampleSettings =
     \<lparr>getMinCopperWidth = 200000, getMinCopperCopperClearance = 200000,
      getMinCopperBoardClearance = 300000, getMinCopperNpthClearance = 250000,
      getMinPthAnnularRing = 100000, getMinNpthDrillDiameter = 300000,
      getMinNpthSlotWidth = 1000000, getMinPthDrillDiameter = 300000,
      getMinPthSlotWidth = 700000, getAllowedNpthSlots = SingleSegmentStraight,
      getAllowedPthSlots = SingleSegmentStraight, getMaxArcTolerance = 5000\<rparr>"

text \<open>The progress percentages among a list of signals, in order.\<close>

definition progressValues :: "Signal list \<Rightarrow> int list" where
  "progressValues sigs = concat (map (\<lambda>sig. case sig of progressPercent p \<Rightarrow> [p] | _ \<Rightarrow> []) sigs)"

text \<open>
  The run sequence of the specification: the passes in their order, each with the status
  it announces and the progress it ends with. A quick run leaves out the rebuild of the
  planes and every pass from the annular rings on; a pass whose setting is zero (or Any)
  returns at once and announces nothing.
\<close>

definition commonSequence :: "BoardDesignRuleCheckSettings \<Rightarrow> (string \<times> int) list" where
  "commonSequence settings =
     map snd (filter fst
       [(getMinCopperWidth settings \<noteq> 0, ''Check minimum copper width...'', 14),
        (getMinCopperCopperClearance settings \<noteq> 0, ''Check copper clearances...'', 34),
        (getMinCopperBoardClearance settings \<noteq> 0, ''Check board clearances...'', 44),
        (getMinCopperNpthClearance settings \<noteq> 0, ''Check hole clearances...'', 54)])"

definition starredSequence :: "BoardDesignRuleCheckSettings \<Rightarrow> (string \<times> int) list" where
  "starredSequence settings =
     map snd (filter fst
       [(getMinPthAnnularRing settings \<noteq> 0, ''Check minimum PTH annular rings...'', 64),
        (getMinNpthDrillDiameter settings \<noteq> 0, ''Check minimum NPTH drill diameters...'', 66),
        (getMinNpthSlotWidth settings \<noteq> 0, ''Check minimum NPTH slot width...'', 68),
        (getMinPthDrillDiameter settings \<noteq> 0, ''Check minimum PTH drill diameters...'', 70),
        (getMinPthSlotWidth settings \<noteq> 0, ''Check minimum PTH slot width...'', 72),
        (getAllowedNpthSlots settings \<noteq> Any, ''Check for disallowed NPTH slots...'', 74),
        (getAllowedPthSlots settings \<noteq> Any, ''Check for disallowed PTH slots...'', 76),
        (True, ''Check pad connections...'', 78),
        (True, ''Check courtyard clearances...'', 91),
        (True, ''Check for unplaced components...'', 93),
        (True, ''Check for missing connections...'', 95),
        (True, ''Check for stale objects...'', 97)])"

definition runSequence :: "BoardDesignRuleCheckSettings \<Rightarrow> bool \<Rightarrow> (string \<times> int) list" where
  "runSequence settings quick =
     (if quick then [] else [(''Rebuild planes...'', 12)])
     @ commonSequence settings
     @ (if quick then [] else starredSequence settings)"

text \<open>
  What a stretch of passes leaves behind: the statuses and the progress values it has
  added (\<open>tr\<close>, in order), messages of kind \<open>K\<close> only, the plane flag unchanged.
\<close>

definition tracks ::
  "(RuleCheckMessage \<Rightarrow> bool) \<Rightarrow> BoardDesignRuleCheck \<Rightarrow> BoardDesignRuleCheck \<Rightarrow> (string \<times> int) list \<Rightarrow> bool" where
  "tracks K s t tr =
     (mProgressStatus t = mProgressStatus s @ map fst tr
      \<and> (\<exists>sigs. mSignals t = mSignals s @ sigs \<and> progressValues sigs = map snd tr)
      \<and> (\<exists>ms. mMessages t = mMessages s @ ms \<and> list_all K ms)
      \<and> mIgnorePlanes t = mIgnorePlanes s)"

text \<open>The first and the last steps of execute.\<close>

definition startRun :: "bool \<Rightarrow> BoardDesignRuleCheck \<Rightarrow> BoardDesignRuleCheck" where
  "startRun quick s =
     (emitProgress 2 (emitSignal started s))\<lparr>mIgnorePlanes := quick, mProgressStatus := [], mMessages := []\<rparr>"

definition finishRun :: "Collaborators \<Rightarrow> BoardDesignRuleCheck \<Rightarrow> BoardDesignRuleCheck" where
  "finishRun ext s =
     emitSignal finished (emitProgress 100 (emitStatus (tr_Finished ext (length (mMessages s))) s))"

text \<open>Further boards and settings for evaluation.\<close>

definition emptyBoard :: Board where
  "emptyBoard =
     \<lparr>board_getAllLayers = [topCopper, botCopper, topCourtyard, boardOutlines],
      board_getNetSegments = [], board_getPlanes = [], board_getPolygons = [],
      board_getStrokeTexts = [], board_getHoles = [], board_getDeviceInstances = [],
      board_getAirWires = [], board_getComponentInstances = []\<rparr>"

definition outlineAtOrigin :: BI_Polygon where
  "outlineAtOrigin =
     \<lparr>bpoly_getPolygon = \<lparr>polygon_getLayerName = sBoardOutlines,
                          polygon_getPath = [((0, 0), 0), ((20000000, 0), 0)]\<rparr>\<rparr>"

definition padBoard :: Board where
  "padBoard = emptyBoard\<lparr>board_getPolygons := [outlineAtOrigin],
                          board_getDeviceInstances := [exampleDevice]\<rparr>"

definition noSettings :: BoardDesignRuleCheckSettings where
  "noSettings =
     \<lparr>getMinCopperWidth = 0, getMinCopperCopperClearance = 0,
      getMinCopperBoardClearance = 0, getMinCopperNpthClearance = 0,
      getMinPthAnnularRing = 0, getMinNpthDrillDiameter = 0,
      getMinNpthSlotWidth = 0, getMinPthDrillDiameter = 0,
      getMinPthSlotWidth = 0, getAllowedNpthSlots = Any,
      getAllowedPthSlots = Any, getMaxArcTolerance = 5000\<rparr>"

definition boardClearanceSettings :: BoardDesignRuleCheckSettings where
  "boardClearanceSettings = noSettings\<lparr>getMinCopperBoardClearance := 300000\<rparr>"

text \<open>
  The cache agrees with the board and the plane flag of the state: every entry is what
  the generator yields now for its layer and its net signals.
\<close>

definition cacheCoherent :: "Collaborators \<Rightarrow> BoardDesignRuleCheckSettings \<Rightarrow> BoardDesignRuleCheck \<Rightarrow> bool" where
  "cacheCoherent ext settings s =
     (\<forall>l netsignals paths.
        mCachedPaths s (l, netsignals) = Some paths \<longrightarrow>
        paths = gen_addCopper ext (mBoard s) (maxArcTolerance settings) (layer_getName l) netsignals
                  (mIgnorePlanes s))"

text \<open>The copper of the enabled copper layers, one polygon set for each layer, freshly generated.\<close>

definition layerCopperSets ::
  "Collaborators \<Rightarrow> BoardDesignRuleCheckSettings \<Rightarrow> Board \<Rightarrow> bool \<Rightarrow> Paths list" where
  "layerCopperSets ext settings board ignorePlanes =
     map (\<lambda>l. gen_addCopper ext board (maxArcTolerance settings) (layer_getName l) {} ignorePlanes)
       (filter (\<lambda>l. layer_isCopperLayer l \<and> layer_isEnabled l) (board_getAllLayers board))"

text \<open>
  What getCopperPaths returns in state \<open>s\<close> for a layer and no net signals: the entry of
  the cache if the cache has one for the layer, and otherwise the copper that the
  generator yields for the board and the plane flag of \<open>s\<close>. An entry may have been
  stored by an earlier run, for another board state or another plane flag.
\<close>

definition copperOf ::
  "Collaborators \<Rightarrow> BoardDesignRuleCheckSettings \<Rightarrow> BoardDesignRuleCheck \<Rightarrow> GraphicsLayer \<Rightarrow> Paths" where
  "copperOf ext settings s l =
     (case mCachedPaths s (l, {}) of
        Some paths \<Rightarrow> paths
      | None \<Rightarrow> gen_addCopper ext (mBoard s) (maxArcTolerance settings) (layer_getName l) {}
                 (mIgnorePlanes s))"

text \<open>The copper that getCopperPaths returns for the enabled copper layers, one set for each layer.\<close>

definition returnedCopperSets ::
  "Collaborators \<Rightarrow> BoardDesignRuleCheckSettings \<Rightarrow> BoardDesignRuleCheck \<Rightarrow> Paths list" where
  "returnedCopperSets ext settings s =
     map (copperOf ext settings s)
       (filter (\<lambda>l. layer_isCopperLayer l \<and> layer_isEnabled l) (board_getAllLayers (mBoard s)))"

text \<open>Two states that differ at most in the cache of copper paths.\<close>

definition sameButCache :: "BoardDesignRuleCheck \<Rightarrow> BoardDesignRuleCheck \<Rightarrow> bool" where
  "sameButCache s t = (t = s\<lparr>mCachedPaths := mCachedPaths t\<rparr>)"

text \<open>
  A positive length within the range that the specification permits for coordinates
  (at most \<open>2 ^ 52\<close> nm).
\<close>

definition permittedPositive :: "Length \<Rightarrow> bool" where
  "permittedPositive x = (0 <s x \<and> x \<le>s 2 ^ 52)"

text \<open>
  The area \<open>T\<close> where copper is available on all layers: the intersection of the copper
  that getCopperPaths returns for every enabled copper layer.
\<close>

definition thtCopperArea ::
  "Collaborators \<Rightarrow> BoardDesignRuleCheckSettings \<Rightarrow> BoardDesignRuleCheck \<Rightarrow> Paths" where
  "thtCopperArea ext settings s =
     Clipper_treeToPaths ext (Clipper_intersectList ext (returnedCopperSets ext settings s))"

text \<open>The set difference \<open>areas - T\<close>, as a list of paths.\<close>

definition uncovered :: "Collaborators \<Rightarrow> Paths \<Rightarrow> Paths \<Rightarrow> Paths" where
  "uncovered ext areas T = Clipper_flattenTree ext (Clipper_subtractToTree ext areas T)"

text \<open>The disc of a via: diameter \<open>drill + 2 * annular - 1\<close>, centred at the position of the via.\<close>

definition viaDisc :: "Collaborators \<Rightarrow> Length \<Rightarrow> Length \<Rightarrow> BI_Via \<Rightarrow> Paths" where
  "viaDisc ext tol annularWidth via =
     [Clipper_convert ext
        (Path_translated ext (Path_circle ext (via_getDrillDiameter via + annularWidth * 2 - 1))
           (via_getPosition via))
        tol]"

text \<open>
  The holes of a pad, each stroked along its path at \<open>diameter + 2 * annular - 1\<close> (a disc
  for a round hole), moved to the pad and united.
\<close>

definition padHoleDiscs :: "Collaborators \<Rightarrow> Length \<Rightarrow> Length \<Rightarrow> BI_FootprintPad \<Rightarrow> Paths" where
  "padHoleDiscs ext tol annularWidth pad =
     fold (\<lambda>hole areas.
             fold (\<lambda>area areas'.
                     Clipper_unite ext areas'
                       [Clipper_convert ext (Transform_map_Path ext (Transform_of_pad pad) area) tol])
               (Path_toOutlineStrokes ext (hole_getPath hole) (hole_getDiameter hole + annularWidth * 2 - 1))
               areas)
       (libpad_getHoles (pad_getLibPad pad)) []"

text \<open>A pad without the holes whose ring diameter is not positive.\<close>

definition withoutSkippedHoles :: "Length \<Rightarrow> BI_FootprintPad \<Rightarrow> BI_FootprintPad" where
  "withoutSkippedHoles annularWidth pad =
     pad\<lparr>pad_getLibPad :=
           (pad_getLibPad pad)\<lparr>libpad_getHoles :=
                                  filter (\<lambda>hole. \<not> annularDiameter (hole_getDiameter hole) annularWidth \<le>s 0)
                                    (libpad_getHoles (pad_getLibPad pad))\<rparr>\<rparr>"



text \<open>A round hole of 1 mm.\<close>

definition exampleHole :: Hole where
  "exampleHole =
     \<lparr>hole_getDiameter = 1000000, hole_getPath = [((9000000, 9000000), 0)],
      hole_isSlot = False, hole_isMultiSegmentSlot = False, hole_isCurvedSlot = False\<rparr>"

text \<open>The part of the copper of a pad on a layer that lies in the restricted area.\<close>

definition padOutlineOverlap ::
  "Collaborators \<Rightarrow> Length \<Rightarrow> Paths \<Rightarrow> Transform \<Rightarrow> Board \<Rightarrow> BI_FootprintPad \<Rightarrow> GraphicsLayer \<Rightarrow> Path list" where
  "padOutlineOverlap ext tol restrictedArea transform board pad l =
     Clipper_convertBack ext
       (Clipper_flattenTree ext
          (Clipper_intersect ext restrictedArea
             (gen_addPad ext board tol pad transform (layer_getName l) 0)))"

text \<open>
  A board with a plane on the top copper layer and a hole of 1 mm that lies on a corner of
  the plane, and settings that enable the hole clearance only.
\<close>

definition planeBoard :: Board where
  "planeBoard =
     emptyBoard\<lparr>board_getPlanes := [examplePlane],
                 board_getHoles := [\<lparr>bhole_getHole = exampleHole\<rparr>]\<rparr>"

definition holeClearanceSettings :: BoardDesignRuleCheckSettings where
  "holeClearanceSettings = noSettings\<lparr>getMinCopperNpthClearance := 250000\<rparr>"

text \<open>The state in which a quick run over the board with the plane leaves the check.\<close>

definition afterQuickRun :: BoardDesignRuleCheck where
  "afterQuickRun =
     \<lparr>mBoard = planeBoard, mIgnorePlanes = True, mProgressPercent = 100,
      mProgressStatus = [''Check hole clearances...'', ''Finished with  message(s)!''],
      mMessages = [],
      mCachedPaths = ((\<lambda>k. None)((topCopper, {}) \<mapsto> [], (botCopper, {}) \<mapsto> [])),
      mSignals = [started, progressPercent 2, progressStatus ''Check hole clearances...'',
                  progressPercent 54, progressStatus ''Finished with  message(s)!'',
                  progressPercent 100, finished]\<rparr>"

text \<open>A board without devices, net segments, air wires and component instances.\<close>

definition bareBoard :: "Board \<Rightarrow> bool" where
  "bareBoard board =
     (board_getDeviceInstances board = [] \<and> board_getNetSegments board = []
      \<and> board_getAirWires board = [] \<and> board_getComponentInstances board = [])"

text \<open>Settings that switch off every pass that has a switch, the hole clearance apart.\<close>

definition onlyHoleClearance :: "BoardDesignRuleCheckSettings \<Rightarrow> bool" where
  "onlyHoleClearance settings =
     (getMinCopperWidth settings = 0 \<and> getMinCopperCopperClearance settings = 0
      \<and> getMinCopperBoardClearance settings = 0 \<and> getMinPthAnnularRing settings = 0
      \<and> getMinNpthDrillDiameter settings = 0 \<and> getMinNpthSlotWidth settings = 0
      \<and> getMinPthDrillDiameter settings = 0 \<and> getMinPthSlotWidth settings = 0
      \<and> getAllowedNpthSlots settings = Any \<and> getAllowedPthSlots settings = Any)"

text \<open>
  The contribution of a footprint circle to the courtyard of its device as the
  specification words it: the circle of the diameter of the footprint circle, translated
  to the centre of the footprint circle as the transform of the device maps it.
\<close>

definition translatedCourtyardCircle ::
  "Collaborators \<Rightarrow> BoardDesignRuleCheckSettings \<Rightarrow> Transform \<Rightarrow> Circle \<Rightarrow> ClipperPath" where
  "translatedCourtyardCircle ext settings transform circle =
     Clipper_convert ext
       (Path_translated ext (Path_circle ext (circle_getDiameter circle))
          (Transform_map_Point ext transform (circle_getCenter circle)))
       (maxArcTolerance settings)"

text \<open>The device with the centres of the circles of its footprint replaced.\<close>

definition withCircleCentres :: "(Circle \<Rightarrow> Point) \<Rightarrow> BI_Device \<Rightarrow> BI_Device" where
  "withCircleCentres f device =
     device\<lparr>dev_getLibFootprint :=
       (dev_getLibFootprint device)\<lparr>footprint_getCircles :=
          map (\<lambda>circle. circle\<lparr>circle_getCenter := f circle\<rparr>)
            (footprint_getCircles (dev_getLibFootprint device))\<rparr>\<rparr>"

text \<open>
  The stroke texts that the minimum copper width pass reports: those on an enabled copper
  layer whose stroke width is below the minimum. The pass looks at the stroke texts of the
  board and then at those of the devices.
\<close>

definition tooThin :: "Board \<Rightarrow> Length \<Rightarrow> BI_StrokeText \<Rightarrow> bool" where
  "tooThin board minWidth text =
     (onEnabledCopperLayer board (text_getLayerName (bst_getText text))
      \<and> text_getStrokeWidth (bst_getText text) <s minWidth)"

definition checkedStrokeTexts :: "Board \<Rightarrow> BI_StrokeText list" where
  "checkedStrokeTexts board =
     board_getStrokeTexts board @ concat (map dev_getStrokeTexts (board_getDeviceInstances board))"

text \<open>
  The minimum copper width pass is enabled and a stroke text that it reports has no font:
  generatePaths throws for it.
\<close>

definition fontLookupFails :: "BoardDesignRuleCheckSettings \<Rightarrow> Board \<Rightarrow> bool" where
  "fontLookupFails settings board =
     (getMinCopperWidth settings \<noteq> 0
      \<and> list_ex (\<lambda>text. tooThin board (getMinCopperWidth settings) text \<and> bst_getFont text = None)
          (checkedStrokeTexts board))"

text \<open>The state in which the first pass of a run is entered.\<close>

definition enterRun :: "Collaborators \<Rightarrow> bool \<Rightarrow> BoardDesignRuleCheck \<Rightarrow> BoardDesignRuleCheck" where
  "enterRun ext quick s = (if quick then startRun True s else rebuildPlanes ext 12 (startRun False s))"

text \<open>
  A step that leaves the cache of copper paths as it is; for a step that may throw, in
  the state it returns and in the state in which the exception leaves it.
\<close>

definition keepsCache :: "BoardDesignRuleCheck \<Rightarrow> BoardDesignRuleCheck \<Rightarrow> bool" where
  "keepsCache s t = (mCachedPaths t = mCachedPaths s)"

definition keepsCacheE :: "BoardDesignRuleCheck \<Rightarrow> Thrown + BoardDesignRuleCheck \<Rightarrow> bool" where
  "keepsCacheE s r = (case r of Inr t \<Rightarrow> keepsCache s t | Inl (e, t) \<Rightarrow> keepsCache s t)"

named_theorems cache_intros

text \<open>
  A pad with two round holes of 0.8 mm, 2 mm apart, on a board without copper, and
  settings that enable only the annular ring, at 0.1 mm.
\<close>

definition leftHole :: PadHole where
  "leftHole = \<lparr>hole_getDiameter = 800000, hole_getPath = [((0, 0), 0)],
               hole_isSlot = False, hole_isMultiSegmentSlot = False, hole_isCurvedSlot = False\<rparr>"

definition rightHole :: PadHole where
  "rightHole = \<lparr>hole_getDiameter = 800000, hole_getPath = [((2000000, 0), 0)],
                hole_isSlot = False, hole_isMultiSegmentSlot = False, hole_isCurvedSlot = False\<rparr>"

definition padWithHoles :: "PadHole list \<Rightarrow> BI_FootprintPad" where
  "padWithHoles holes =
     examplePad\<lparr>pad_getLibPad := (pad_getLibPad examplePad)\<lparr>libpad_getHoles := holes\<rparr>\<rparr>"

definition twoHoleBoard :: Board where
  "twoHoleBoard =
     emptyBoard\<lparr>board_getDeviceInstances :=
                   [exampleDevice\<lparr>dev_getPads := [padWithHoles [leftHole, rightHole]]\<rparr>]\<rparr>"

definition ringSettings :: BoardDesignRuleCheckSettings where
  "ringSettings = noSettings\<lparr>getMinPthAnnularRing := 100000\<rparr>"

text \<open>The state in which a full run on a new check for a board enters its first pass.\<close>

definition enteredFullRun :: "Board \<Rightarrow> BoardDesignRuleCheck" where
  "enteredFullRun board = enterRun simpleCollaborators False (BoardDesignRuleCheck_new board)"











section \<open>Basic facts\<close>

lemmas example_defs =
  simpleCollaborators_def exampleBoard_def exampleSettings_def exampleDevice_def examplePad_def
  exampleVia_def exampleNetLine_def examplePlane_def topCopper_def botCopper_def topCourtyard_def
  boardOutlines_def sBoardOutlines_def sTopCourtyard_def sBotCourtyard_def
  gridCells_def gridTree_def gridIntersect_def gridSubtract_def gridIntersectList_def gridUnite_def
  movePoint_def mirrorLayer_def layerCopper_def

subsection \<open>Signed arithmetic on Lengths\<close>

lemma sint_Length_sub:
  fixes c t :: Length
  assumes "0 \<le>s c" "0 <s t"
  shows "sint (c - t) = sint c - sint t"
proof -
  have a: "0 \<le> sint c" "0 < sint t" using assms by (simp_all add: word_sle_eq word_sless_alt)
  have b: "sint c < 2^63" "sint t < 2^63" using sint_lt[of c] sint_lt[of t] by simp_all
  have "signed_take_bit 63 (sint c - sint t) = sint c - sint t"
    by (rule signed_take_bit_int_eq_self) (use a b in simp_all)
  then show ?thesis by (simp add: sint_word_ariths)
qed

lemma sdiv_2_cases: "(d::int) sdiv 2 = (if 0 \<le> d then d div 2 else - ((- d) div 2))"
  by (auto simp: signed_divide_int_def sgn_if)

lemma sint_Length_of_int:
  "- (2^63) \<le> k \<Longrightarrow> k < 2^63 \<Longrightarrow> sint (word_of_int k :: Length) = k"
  by (simp add: sint_sbintrunc' signed_take_bit_int_eq_self)

subsection \<open>Messages of the pair loops\<close>

lemma emitMessages_Nil [simp]: "emitMessages ext [] s = s"
  by (simp add: emitMessages_def)

lemma emitMessages_Cons [simp]: "emitMessages ext (m # ms) s = emitMessages ext ms (emitMessage ext m s)"
  by (simp add: emitMessages_def)

lemma emitMessages_append: "emitMessages ext (ms @ ns) s = emitMessages ext ns (emitMessages ext ms s)"
  by (simp add: emitMessages_def)

lemma mMessages_emitMessage [simp]: "mMessages (emitMessage ext m s) = mMessages s @ [m]"
  by (simp add: emitMessage_def emitSignal_def)

lemma mMessages_emitMessages [simp]: "mMessages (emitMessages ext ms s) = mMessages s @ ms"
  by (induction ms arbitrary: s) simp_all

lemma checkItemPair_eq:
  "checkItemPair ext clearance a b s =
     emitMessages ext (if pairViolates ext a b then [clearanceViolation ext clearance a b] else []) s"
  by (auto simp: checkItemPair_def pairViolates_def sameNonNullNet_def bothLayersDiffer_def
      itemIntersection_def clearanceViolation_def Let_def)

lemma fold_checkItemPair:
  "fold (checkItemPair ext clearance a) bs s =
     emitMessages ext (map (clearanceViolation ext clearance a) (filter (pairViolates ext a) bs)) s"
  by (induction bs arbitrary: s) (simp_all add: checkItemPair_eq)

lemma checkItemIntersections_pairs:
  "checkItemIntersections ext clearance items s =
     emitMessages ext
       (map (\<lambda>(a, b). clearanceViolation ext clearance a b)
          (filter (\<lambda>(a, b). pairViolates ext a b) (itemPairs items))) s"
proof (induction items arbitrary: s)
  case Nil
  then show ?case by simp
next
  case (Cons a items)
  show ?case
  proof (cases "items = []")
    case True
    then show ?thesis by simp
  next
    case False
    then show ?thesis
      by (simp add: Cons.IH fold_checkItemPair emitMessages_append filter_map comp_def)
  qed
qed

lemma upt_pairs_Cons:
  "map (\<lambda>j. (a, (x # xs) ! j)) [Suc m..<Suc n] = map (\<lambda>j. (a, xs ! j)) [m..<n]"
proof -
  have "[Suc m..<Suc n] = map Suc [m..<n]" by (simp only: map_Suc_upt)
  then show ?thesis by (simp only: list.map_comp comp_def nth_Cons_Suc)
qed

lemma itemPairs_index:
  "itemPairs xs = concat (map (\<lambda>i. map (\<lambda>j. (xs ! i, xs ! j)) [Suc i..<length xs]) [0..<length xs])"
proof (induction xs)
  case Nil
  then show ?case by simp
next
  case (Cons x xs)
  let ?n = "length xs"
  let ?F = "\<lambda>i. map (\<lambda>j. ((x # xs) ! i, (x # xs) ! j)) [Suc i..<Suc ?n]"
  have upt: "[0..<Suc ?n] = 0 # map Suc [0..<?n]"
    by (simp only: map_Suc_upt upt_conv_Cons[OF zero_less_Suc])
  have head: "?F 0 = map (Pair x) xs"
  proof -
    have "?F 0 = map (\<lambda>j. (x, xs ! j)) [0..<?n]"
      using upt_pairs_Cons[of x x xs 0 ?n] by simp
    also have "\<dots> = map (Pair x) (map (nth xs) [0..<?n])" by (simp add: comp_def)
    finally show ?thesis by (simp only: map_nth)
  qed
  have tail: "?F (Suc i) = map (\<lambda>j. (xs ! i, xs ! j)) [Suc i..<?n]" for i
    using upt_pairs_Cons[of "xs ! i" x xs "Suc i" ?n] by simp
  have "concat (map ?F [0..<Suc ?n]) = ?F 0 @ concat (map (\<lambda>i. ?F (Suc i)) [0..<?n])"
    by (simp only: upt list.map concat.simps list.map_comp comp_def)
  also have "\<dots> = map (Pair x) xs @ itemPairs xs"
    by (simp only: head tail Cons.IH)
  finally show ?case by simp
qed

lemma map_filter_map_concat:
  "map f (filter P (map g ys)) = concat (map (\<lambda>j. if P (g j) then [f (g j)] else []) ys)"
  by (induction ys) simp_all

lemma map_filter_concat_map:
  "map f (filter P (concat (map (\<lambda>i. map (g i) (ys i)) xs))) =
     concat (map (\<lambda>i. concat (map (\<lambda>j. if P (g i j) then [f (g i j)] else []) (ys i))) xs)"
  by (induction xs) (simp_all add: map_filter_map_concat)

lemma mMessages_emitStatus [simp]: "mMessages (emitStatus st s) = mMessages s"
  by (simp add: emitStatus_def emitSignal_def)

lemma mMessages_emitProgress [simp]: "mMessages (emitProgress p s) = mMessages s"
  by (simp add: emitProgress_def emitSignal_def)

lemma mBoard_emitStatus [simp]: "mBoard (emitStatus st s) = mBoard s"
  by (simp add: emitStatus_def emitSignal_def)

lemma mIgnorePlanes_emitStatus [simp]: "mIgnorePlanes (emitStatus st s) = mIgnorePlanes s"
  by (simp add: emitStatus_def emitSignal_def)

subsection \<open>Passes\<close>

lemma quiet_refl [quiet_intros]: "quiet ext K s s"
  unfolding quiet_def by (rule exI[of _ "[]"]) (simp add: messageSignals_def)

lemma quiet_trans: "quiet ext K s s' \<Longrightarrow> quiet ext K s' s'' \<Longrightarrow> quiet ext K s s''"
  unfolding quiet_def
  apply (elim exE conjE)
  subgoal for ms ns
    by (rule exI[of _ "ms @ ns"]) (simp add: messageSignals_def)
  done

lemma quiet_emitMessage [quiet_intros]:
  "K m \<Longrightarrow> quiet ext K s s' \<Longrightarrow> quiet ext K s (emitMessage ext m s')"
proof -
  assume k: "K m" and q: "quiet ext K s s'"
  have "quiet ext K s' (emitMessage ext m s')"
    unfolding quiet_def using k
    by (intro exI[of _ "[m]"]) (simp add: messageSignals_def emitMessage_def emitSignal_def)
  with q show ?thesis by (rule quiet_trans)
qed

lemma quiet_if [quiet_intros]:
  "(c \<Longrightarrow> quiet ext K s a) \<Longrightarrow> (\<not> c \<Longrightarrow> quiet ext K s b) \<Longrightarrow> quiet ext K s (if c then a else b)"
  by simp

lemma quiet_fold [quiet_intros]:
  assumes "\<And>x t. quiet ext K t (f x t)" and "quiet ext K s s'"
  shows "quiet ext K s (fold f xs s')"
  using assms(2)
proof (induction xs arbitrary: s')
  case Nil
  then show ?case by simp
next
  case (Cons x xs)
  have "quiet ext K s (f x s')" using Cons.prems assms(1) quiet_trans by blast
  then show ?case using Cons.IH by simp
qed

lemma quietE_Inr [quiet_intros]: "quiet ext K s s' \<Longrightarrow> quietE ext K s (Inr s')"
  by (simp add: quietE_def)

lemma quietE_if [quiet_intros]:
  "(c \<Longrightarrow> quietE ext K s a) \<Longrightarrow> (\<not> c \<Longrightarrow> quietE ext K s b) \<Longrightarrow> quietE ext K s (if c then a else b)"
  by simp

lemma quietE_foldE [quiet_intros]:
  assumes "\<And>x t. quietE ext K t (f x t)" and "quiet ext K s s'"
  shows "quietE ext K s (foldE f xs s')"
  using assms(2)
proof (induction xs arbitrary: s')
  case Nil
  then show ?case by (simp add: quietE_def)
next
  case (Cons x xs)
  obtain s1 where s1: "f x s' = Inr s1" "quiet ext K s' s1"
    using assms(1)[of s' x] by (auto simp: quietE_def)
  have "quiet ext K s s1" using Cons.prems s1(2) by (rule quiet_trans)
  then show ?case using Cons.IH s1(1) by simp
qed

lemma quietE_bindE [quiet_intros]:
  assumes "quietE ext K s m" and "\<And>t. quiet ext K s t \<Longrightarrow> quietE ext K s (f t)"
  shows "quietE ext K s (bindE m f)"
proof -
  obtain s1 where s1: "m = Inr s1" "quiet ext K s s1" using assms(1) by (auto simp: quietE_def)
  show ?thesis using assms(2)[OF s1(2)] s1(1) by (simp add: bindE_def)
qed

lemma PositiveLength_max:
  "0 <s b \<Longrightarrow> PositiveLength (std_max a b) = Inr (std_max a b)"
  by (auto simp: PositiveLength_def std_max_def word_sless_alt)

lemma thrownIn_Inr [simp]: "thrownIn s (Inr a) = Inr a"
  by (simp add: thrownIn_def)

lemma thrownIn_Inl [simp]: "thrownIn s (Inl e) = Inl (e, s)"
  by (simp add: thrownIn_def)

lemma strokeTextLocations_font:
  assumes "bst_getFont t = Some font"
  shows "\<exists>locations. strokeTextLocations ext t = Inr locations"
proof -
  have "\<exists>l'. foldE (\<lambda>path locations.
              case PositiveLength (std_max w 50000) of
                Inl e \<Rightarrow> Inl e
              | Inr width \<Rightarrow> Inr (locations @ Path_toOutlineStrokes ext path width)) ps l = Inr l'"
    for w ps and l :: "Path list"
    by (induction ps arbitrary: l) (simp_all add: PositiveLength_max word_sless_alt)
  then show ?thesis
    unfolding strokeTextLocations_def BI_StrokeText_generatePaths_def using assms
    by (simp add: bindE_def)
qed

lemma strokeTextLocations_no_font:
  "bst_getFont t = None \<Longrightarrow> strokeTextLocations ext t = Inl FontLookupFailed"
  by (simp add: strokeTextLocations_def BI_StrokeText_generatePaths_def bindE_def)

lemma quiet_board: "quiet ext K s t \<Longrightarrow> mBoard t = mBoard s"
  by (auto simp: quiet_def)

text \<open>
  The loop over stroke texts of the minimum copper width pass: it is ended by the
  exception of the font lookup exactly when a text that it reports has no font.
\<close>

lemma checkStrokeTextWidth_cases:
  "\<exists>t. quiet ext (copperKind F) s t
       \<and> checkStrokeTextWidth ext w text s =
           (if tooThin (mBoard s) w text \<and> bst_getFont text = None
            then Inl (FontLookupFailed, t) else Inr t)"
proof (cases "tooThin (mBoard s) w text")
  case False
  then show ?thesis
    by (intro exI[of _ s]) (auto simp: checkStrokeTextWidth_def tooThin_def quiet_refl)
next
  case True
  show ?thesis
  proof (cases "bst_getFont text")
    case None
    then show ?thesis using True
      by (intro exI[of _ s])
         (auto simp: checkStrokeTextWidth_def tooThin_def quiet_refl strokeTextLocations_no_font bindE_def)
  next
    case (Some font)
    obtain l where l: "strokeTextLocations ext text = Inr l"
      using strokeTextLocations_font[OF Some] by blast
    have "quiet ext (copperKind F) s (emitMessage ext (DrcMsgMinimumWidthViolation_Text text w l) s)"
      by (intro quiet_intros) (simp add: copperKind_def)
    then show ?thesis using True Some l
      by (intro exI[of _ "emitMessage ext (DrcMsgMinimumWidthViolation_Text text w l) s"])
         (auto simp: checkStrokeTextWidth_def tooThin_def bindE_def)
  qed
qed

lemma foldE_checkStrokeTextWidth:
  "\<exists>t. quiet ext (copperKind F) s t
       \<and> foldE (checkStrokeTextWidth ext w) ts s =
           (if list_ex (\<lambda>text. tooThin (mBoard s) w text \<and> bst_getFont text = None) ts
            then Inl (FontLookupFailed, t) else Inr t)"
proof (induction ts arbitrary: s)
  case Nil
  then show ?case by (intro exI[of _ s]) (simp add: quiet_refl)
next
  case (Cons x ts)
  obtain t where t: "quiet ext (copperKind F) s t"
    "checkStrokeTextWidth ext w x s =
       (if tooThin (mBoard s) w x \<and> bst_getFont x = None
        then Inl (FontLookupFailed, t) else Inr t)"
    using checkStrokeTextWidth_cases[of ext F s w x] by blast
  show ?case
  proof (cases "tooThin (mBoard s) w x \<and> bst_getFont x = None")
    case True
    then show ?thesis using t by (intro exI[of _ t]) simp
  next
    case False
    obtain u where u: "quiet ext (copperKind F) t u"
      "foldE (checkStrokeTextWidth ext w) ts t =
         (if list_ex (\<lambda>text. tooThin (mBoard t) w text \<and> bst_getFont text = None) ts
          then Inl (FontLookupFailed, u) else Inr u)"
      using Cons.IH[of t] by blast
    have "quiet ext (copperKind F) s u" using t(1) u(1) by (rule quiet_trans)
    then show ?thesis using False t(2) u(2) quiet_board[OF t(1)]
      by (intro exI[of _ u]) auto
  qed
qed

lemma foldE_append:
  "foldE f (xs @ ys) s = bindE (foldE f xs s) (foldE f ys)"
  by (induction xs arbitrary: s) (simp_all add: bindE_def split: sum.split)

lemma foldE_concat:
  "foldE (\<lambda>x. foldE f (h x)) xs s = foldE f (concat (map h xs)) s"
  by (induction xs arbitrary: s) (simp_all add: foldE_append bindE_def split: sum.split)

lemma pass_emitProgress [quiet_intros]:
  "quiet ext K (emitStatus status s) s' \<Longrightarrow> passResult ext K True status percent (\<lambda>b. b) s (emitProgress percent s')"
  unfolding quiet_def passResult_def
  by (auto simp: emitStatus_def emitProgress_def emitSignal_def)

lemma passE_Inr [quiet_intros]:
  "passResult ext K enabled status percent f s s' \<Longrightarrow> passResultE ext K enabled status percent f s (Inr s')"
  by (simp add: passResultE_def)

lemma passE_bindE [quiet_intros]:
  assumes "quietE ext K (emitStatus status s) m"
    and "\<And>t. quiet ext K (emitStatus status s) t \<Longrightarrow> passResultE ext K True status percent f s (g t)"
  shows "passResultE ext K True status percent f s (bindE m g)"
proof -
  obtain t where t: "m = Inr t" "quiet ext K (emitStatus status s) t"
    using assms(1) by (auto simp: quietE_def)
  show ?thesis using assms(2)[OF t(2)] t(1) by (simp add: bindE_def)
qed

lemma pass_disabled: "passResult ext K False status percent f s s"
  by (simp add: passResult_def)

lemma passE_disabled: "passResultE ext K False status percent f s (Inr s)"
  by (simp add: passResultE_def passResult_def)

lemma checkMinimumCopperWidth_thrown:
  assumes "fontLookupFails settings (mBoard s)"
  shows "\<exists>t. checkMinimumCopperWidth ext settings percent s = Inl (FontLookupFailed, t)
           \<and> quiet ext (copperKind F) (emitStatus ''Check minimum copper width...'' s) t"
proof -
  let ?w = "getMinCopperWidth settings"
  let ?s0 = "emitStatus ''Check minimum copper width...'' s"
  let ?fails = "\<lambda>text. tooThin (mBoard s) ?w text \<and> bst_getFont text = None"
  have w: "?w \<noteq> 0" using assms by (simp add: fontLookupFails_def)
  obtain t1 where t1: "quiet ext (copperKind F) ?s0 t1"
    "foldE (checkStrokeTextWidth ext ?w) (board_getStrokeTexts (mBoard s)) ?s0 =
       (if list_ex ?fails (board_getStrokeTexts (mBoard s)) then Inl (FontLookupFailed, t1) else Inr t1)"
    using foldE_checkStrokeTextWidth[of ext F ?s0 ?w "board_getStrokeTexts (mBoard s)"] by auto
  show ?thesis
  proof (cases "list_ex ?fails (board_getStrokeTexts (mBoard s))")
    case True
    then show ?thesis using w t1
      by (intro exI[of _ t1]) (simp add: checkMinimumCopperWidth_def bindE_def)
  next
    case False
    then have dev: "list_ex ?fails (concat (map dev_getStrokeTexts (board_getDeviceInstances (mBoard s))))"
      using assms by (simp add: fontLookupFails_def checkedStrokeTexts_def)
    define s2 where "s2 = fold (checkPlaneWidth ext ?w) (board_getPlanes (mBoard t1)) t1"
    have q2: "quiet ext (copperKind F) ?s0 s2"
      unfolding s2_def checkPlaneWidth_def
      by (intro quiet_intros t1(1); simp add: copperKind_def)
    have b2: "mBoard s2 = mBoard s" using quiet_board[OF q2] by simp
    obtain t3 where t3: "quiet ext (copperKind F) s2 t3"
      "foldE (checkStrokeTextWidth ext ?w) (concat (map dev_getStrokeTexts (board_getDeviceInstances (mBoard s)))) s2 =
         Inl (FontLookupFailed, t3)"
      using foldE_checkStrokeTextWidth[of ext F s2 ?w
          "concat (map dev_getStrokeTexts (board_getDeviceInstances (mBoard s)))"] dev b2
      by auto
    have "checkMinimumCopperWidth ext settings percent s = Inl (FontLookupFailed, t3)"
      using w False t1(2) t3(2) b2
      by (simp add: checkMinimumCopperWidth_def bindE_def Let_def s2_def[symmetric] foldE_concat)
    moreover have "quiet ext (copperKind F) ?s0 t3" using q2 t3(1) by (rule quiet_trans)
    ultimately show ?thesis by blast
  qed
qed

lemma checkMinimumCopperWidth_pass:
  assumes "\<not> fontLookupFails settings (mBoard s)"
  shows "passResultE ext (copperKind F) (getMinCopperWidth settings \<noteq> 0) ''Check minimum copper width...'' percent
     (\<lambda>b. b) s (checkMinimumCopperWidth ext settings percent s)"
proof (cases "getMinCopperWidth settings = 0")
  case True
  then show ?thesis by (simp add: checkMinimumCopperWidth_def passE_disabled)
next
  case w: False
  let ?w = "getMinCopperWidth settings"
  let ?s0 = "emitStatus ''Check minimum copper width...'' s"
  let ?fails = "\<lambda>text. tooThin (mBoard s) ?w text \<and> bst_getFont text = None"
  have none: "\<not> list_ex ?fails (board_getStrokeTexts (mBoard s))"
    "\<not> list_ex ?fails (concat (map dev_getStrokeTexts (board_getDeviceInstances (mBoard s))))"
    using assms w by (simp_all add: fontLookupFails_def checkedStrokeTexts_def)
  obtain t1 where t1: "quiet ext (copperKind F) ?s0 t1"
    "foldE (checkStrokeTextWidth ext ?w) (board_getStrokeTexts (mBoard s)) ?s0 = Inr t1"
    using foldE_checkStrokeTextWidth[of ext F ?s0 ?w "board_getStrokeTexts (mBoard s)"] none(1) by auto
  define s2 where "s2 = fold (checkPlaneWidth ext ?w) (board_getPlanes (mBoard t1)) t1"
  have q2: "quiet ext (copperKind F) ?s0 s2"
    unfolding s2_def checkPlaneWidth_def
    by (intro quiet_intros t1(1); simp add: copperKind_def)
  have b2: "mBoard s2 = mBoard s" using quiet_board[OF q2] by simp
  obtain t3 where t3: "quiet ext (copperKind F) s2 t3"
    "foldE (checkStrokeTextWidth ext ?w) (concat (map dev_getStrokeTexts (board_getDeviceInstances (mBoard s)))) s2 =
       Inr t3"
    using foldE_checkStrokeTextWidth[of ext F s2 ?w
        "concat (map dev_getStrokeTexts (board_getDeviceInstances (mBoard s)))"] none(2) b2
    by auto
  have q3: "quiet ext (copperKind F) ?s0 t3" using q2 t3(1) by (rule quiet_trans)
  define s4 where "s4 = fold (\<lambda>netsegment. fold (checkNetLineWidth ext ?w) (seg_getNetLines netsegment))
                            (board_getNetSegments (mBoard t3)) t3"
  have q4: "quiet ext (copperKind F) ?s0 s4"
    unfolding s4_def checkNetLineWidth_def
    by (intro quiet_intros q3; simp add: copperKind_def)
  have "checkMinimumCopperWidth ext settings percent s = Inr (emitProgress percent s4)"
    using w t1(2) t3(2) b2
    by (simp add: checkMinimumCopperWidth_def bindE_def Let_def s2_def[symmetric] s4_def[symmetric]
        foldE_concat)
  moreover have "passResult ext (copperKind F) True ''Check minimum copper width...'' percent (\<lambda>b. b) s
                   (emitProgress percent s4)"
    using q4 by (rule pass_emitProgress)
  ultimately show ?thesis using w by (simp add: passResultE_def)
qed

lemma quiet_emitMessages:
  "list_all K ms \<Longrightarrow> quiet ext K s s' \<Longrightarrow> quiet ext K s (emitMessages ext ms s')"
proof (induction ms arbitrary: s')
  case Nil
  then show ?case by simp
next
  case (Cons m ms)
  have "quiet ext K s (emitMessage ext m s')" using Cons.prems by (intro quiet_intros) simp_all
  then show ?case using Cons by simp
qed

lemma itemPairs_set: "(a, b) \<in> set (itemPairs xs) \<Longrightarrow> a \<in> set xs \<and> b \<in> set xs"
  by (induction xs) auto

lemma copperItems_no_planes:
  "it \<in> set (copperItems ext settings board True) \<Longrightarrow> \<not> isPlane (itemRef it)"
  by (auto simp: copperItems_def netSegmentItems_def boardPolygonItems_def strokeTextItems_def
      deviceItems_def Let_def)

lemma quiet_checkItemIntersections:
  assumes "F \<longrightarrow> (\<forall>it\<in>set items. \<not> isPlane (itemRef it))" and "quiet ext (copperKind F) s s'"
  shows "quiet ext (copperKind F) s (checkItemIntersections ext clearance items s')"
proof -
  have "list_all (copperKind F)
          (map (\<lambda>(a, b). clearanceViolation ext clearance a b)
             (filter (\<lambda>(a, b). pairViolates ext a b) (itemPairs items)))"
    using assms(1) itemPairs_set[of _ _ items]
    by (auto simp: list_all_iff copperKind_def clearanceViolation_def)
  then show ?thesis
    unfolding checkItemIntersections_pairs using assms(2) by (rule quiet_emitMessages)
qed

lemma quiet_flag: "quiet ext K s t \<Longrightarrow> mIgnorePlanes t = mIgnorePlanes s"
  by (auto simp: quiet_def)

lemma checkCopperCopperClearances_pass:
  assumes "F \<longrightarrow> mIgnorePlanes s"
  shows "passResult ext (copperKind F) (getMinCopperCopperClearance settings \<noteq> 0) ''Check copper clearances...''
     percent (\<lambda>b. b) s (checkCopperCopperClearances ext settings percent s)"
proof (cases "getMinCopperCopperClearance settings = 0")
  case True
  then show ?thesis by (simp add: checkCopperCopperClearances_def pass_disabled)
next
  case False
  let ?s1 = "emitStatus ''Check copper clearances...'' s"
  have "F \<longrightarrow> (\<forall>it\<in>set (copperItems ext settings (mBoard ?s1) (mIgnorePlanes ?s1)). \<not> isPlane (itemRef it))"
    using assms copperItems_no_planes by auto
  then have "quiet ext (copperKind F) ?s1
               (checkItemIntersections ext (getMinCopperCopperClearance settings)
                  (copperItems ext settings (mBoard ?s1) (mIgnorePlanes ?s1)) ?s1)"
    by (rule quiet_checkItemIntersections) (rule quiet_refl)
  then have "passResult ext (copperKind F) True ''Check copper clearances...''
     percent (\<lambda>b. b) s (checkCopperCopperClearances ext settings percent s)"
    unfolding checkCopperCopperClearances_def Let_def using False
    by (simp only: if_False) (rule pass_emitProgress)
  then show ?thesis using False by simp
qed

lemma quiet_reportBoardClearance [quiet_intros]:
  "(\<And>l. K (mk l)) \<Longrightarrow> quiet ext K s s' \<Longrightarrow> quiet ext K s (reportBoardClearance ext area paths mk s')"
  unfolding reportBoardClearance_def Let_def by (intro quiet_intros; simp)

lemma quiet_checkDeviceBoardClearance [quiet_intros]:
  "quiet ext (copperKind F) s s' \<Longrightarrow>
   quiet ext (copperKind F) s (checkDeviceBoardClearance ext tol clearance area device s')"
  unfolding checkDeviceBoardClearance_def checkPadBoardClearance_def Let_def
  by (intro quiet_intros; simp add: copperKind_def)

lemma quiet_if_planes:
  assumes "quiet ext K s t" and "\<not> mIgnorePlanes s \<Longrightarrow> quiet ext K s a"
  shows "quiet ext K s (if \<not> mIgnorePlanes t then a else t)"
  using assms quiet_flag[OF assms(1)] by simp

lemma checkCopperBoardClearances_pass:
  assumes "F \<longrightarrow> mIgnorePlanes s"
  shows "passResultE ext (copperKind F) (getMinCopperBoardClearance settings \<noteq> 0) ''Check board clearances...''
          percent (\<lambda>b. b) s (checkCopperBoardClearances ext settings percent s)"
proof (cases "getMinCopperBoardClearance settings = 0")
  case True
  then show ?thesis by (simp add: checkCopperBoardClearances_def passE_disabled)
next
  case False
  have pw: "PositiveLength (std_max w 1) = Inr (std_max w 1)" for w
    by (rule PositiveLength_max) (simp add: word_sless_alt)
  have "passResultE ext (copperKind F) True ''Check board clearances...''
          percent (\<lambda>b. b) s (checkCopperBoardClearances ext settings percent s)"
    unfolding checkCopperBoardClearances_def Let_def pw bindE_def thrownIn_Inr using False assms
    apply (simp only: if_False sum.case)
    apply (intro quiet_if_planes quiet_intros; simp add: copperKind_def)
    done
  then show ?thesis using False by simp
qed

lemma quiet_getCopperPaths [quiet_intros]:
  "quiet ext K s s' \<Longrightarrow> quiet ext K s (snd (getCopperPaths ext settings l nets s'))"
proof -
  assume q: "quiet ext K s s'"
  have "quiet ext K s' (snd (getCopperPaths ext settings l nets s'))"
    unfolding quiet_def getCopperPaths_def Let_def
    by (intro exI[of _ "[]"]) (simp add: messageSignals_def split: option.split)
  with q show ?thesis by (rule quiet_trans)
qed

lemma quiet_anyLayerCopper [quiet_intros]:
  assumes q: "quiet ext K s s'"
  shows "quiet ext K s (snd (anyLayerCopper ext settings s'))"
proof -
  define step where "step = (\<lambda>l (copperAreas, t).
             if layer_isCopperLayer l \<and> layer_isEnabled l then
               (let (paths, t') = getCopperPaths ext settings l {} t
                in (Clipper_unite ext copperAreas paths, t'))
             else (copperAreas, t))"
  have "quiet ext K s (snd (fold step ls (a, t)))" if "quiet ext K s t" for ls a t
    using that
  proof (induction ls arbitrary: a t)
    case Nil
    then show ?case by simp
  next
    case (Cons l ls)
    obtain a' t' where st: "step l (a, t) = (a', t')" by fastforce
    have "t' = t \<or> t' = snd (getCopperPaths ext settings l {} t)"
      using st by (auto simp: step_def split_def Let_def split: if_splits)
    then have "quiet ext K s t'" using Cons.prems quiet_getCopperPaths by auto
    from Cons.IH[OF this] show ?case by (simp add: st)
  qed
  from this[OF q] show ?thesis unfolding anyLayerCopper_def step_def .
qed

lemma quiet_allLayerCopper [quiet_intros]:
  assumes q: "quiet ext K s s'"
  shows "quiet ext K s (snd (allLayerCopper ext settings s'))"
proof -
  define step where "step = (\<lambda>l (thtCopperAreas, t).
             if layer_isCopperLayer l \<and> layer_isEnabled l then
               (let (paths, t') = getCopperPaths ext settings l {} t
                in (thtCopperAreas @ [paths], t'))
             else (thtCopperAreas, t))"
  have "quiet ext K s (snd (fold step ls (a, t)))" if "quiet ext K s t" for ls a t
    using that
  proof (induction ls arbitrary: a t)
    case Nil
    then show ?case by simp
  next
    case (Cons l ls)
    obtain a' t' where st: "step l (a, t) = (a', t')" by fastforce
    have "t' = t \<or> t' = snd (getCopperPaths ext settings l {} t)"
      using st by (auto simp: step_def split_def Let_def split: if_splits)
    then have "quiet ext K s t'" using Cons.prems quiet_getCopperPaths by auto
    from Cons.IH[OF this] show ?case by (simp add: st)
  qed
  from this[OF q] show ?thesis unfolding allLayerCopper_def step_def .
qed

lemma checkCopperHoleClearances_pass:
  "passResult ext (copperKind F) (getMinCopperNpthClearance settings \<noteq> 0) ''Check hole clearances...''
     percent (\<lambda>b. b) s (checkCopperHoleClearances ext settings percent s)"
proof (cases "getMinCopperNpthClearance settings = 0")
  case True
  then show ?thesis by (simp add: checkCopperHoleClearances_def pass_disabled)
next
  case False
  have "passResult ext (copperKind F) True ''Check hole clearances...''
     percent (\<lambda>b. b) s (checkCopperHoleClearances ext settings percent s)"
    unfolding checkCopperHoleClearances_def checkHoleClearance_def Let_def split_def using False
    apply (simp only: if_False)
    apply (intro quiet_intros; simp add: copperKind_def)
    done
  then show ?thesis using False by simp
qed

lemma PositiveLength_positive: "\<not> d \<le>s 0 \<Longrightarrow> PositiveLength d = Inr d"
  by (simp add: PositiveLength_def word_sle_eq word_sless_alt)

lemma quiet_reportRemaining [quiet_intros]:
  "(\<And>l. K (mk l)) \<Longrightarrow> quiet ext K s s' \<Longrightarrow> quiet ext K s (reportRemaining ext areas t mk s')"
  unfolding reportRemaining_def Let_def by (intro quiet_intros; simp)

lemma quietE_checkViaAnnularRing [quiet_intros]:
  "quiet ext (\<lambda>m. True) s s' \<Longrightarrow>
   quietE ext (\<lambda>m. True) s (checkViaAnnularRing ext tol annularWidth t via s')"
  unfolding checkViaAnnularRing_def Let_def
  by (auto simp: PositiveLength_positive bindE_def intro!: quiet_intros)

lemma padHoleAreas_Inr: "\<exists>areas. padHoleAreas ext tol annularWidth pad = Inr areas"
proof -
  have "\<exists>areas. foldE (\<lambda>hole areas.
              let diameter = annularDiameter (hole_getDiameter hole) annularWidth in
              if diameter \<le>s 0 then Inr areas
              else
                bindE (PositiveLength diameter)
                  (\<lambda>d. Inr (fold (\<lambda>area areas'.
                                     Clipper_unite ext areas'
                                       [Clipper_convert ext (Transform_map_Path ext (Transform_of_pad pad) area) tol])
                               (Path_toOutlineStrokes ext (hole_getPath hole) d) areas))) hs a = Inr areas" for hs a
    by (induction hs arbitrary: a) (simp_all add: Let_def PositiveLength_positive bindE_def)
  then show ?thesis unfolding padHoleAreas_def by blast
qed

lemma quietE_checkPadAnnularRing [quiet_intros]:
  assumes "quiet ext (\<lambda>m. True) s s'"
  shows "quietE ext (\<lambda>m. True) s (checkPadAnnularRing ext tol annularWidth t pad s')"
proof -
  obtain a where a: "padHoleAreas ext tol annularWidth pad = Inr a" using padHoleAreas_Inr by blast
  show ?thesis unfolding checkPadAnnularRing_def a bindE_def
    by (auto intro!: quiet_intros assms)
qed

lemma checkMinimumPthAnnularRing_pass:
  "passResultE ext (\<lambda>m. True) (getMinPthAnnularRing settings \<noteq> 0) ''Check minimum PTH annular rings...''
     percent (\<lambda>b. b) s (checkMinimumPthAnnularRing ext settings percent s)"
proof (cases "getMinPthAnnularRing settings = 0")
  case True
  then show ?thesis by (simp add: checkMinimumPthAnnularRing_def passE_disabled)
next
  case False
  have "passResultE ext (\<lambda>m. True) True ''Check minimum PTH annular rings...''
     percent (\<lambda>b. b) s (checkMinimumPthAnnularRing ext settings percent s)"
    unfolding checkMinimumPthAnnularRing_def Let_def split_def using False
    apply (simp only: if_False)
    apply (intro quiet_intros; simp)
    done
  then show ?thesis using False by simp
qed

lemma checkMinimumNpthDrillDiameter_pass:
  "passResult ext (\<lambda>m. True) (getMinNpthDrillDiameter settings \<noteq> 0) ''Check minimum NPTH drill diameters...''
     percent (\<lambda>b. b) s (checkMinimumNpthDrillDiameter ext settings percent s)"
proof (cases "getMinNpthDrillDiameter settings = 0")
  case True
  then show ?thesis by (simp add: checkMinimumNpthDrillDiameter_def pass_disabled)
next
  case False
  have "passResult ext (\<lambda>m. True) True ''Check minimum NPTH drill diameters...''
     percent (\<lambda>b. b) s (checkMinimumNpthDrillDiameter ext settings percent s)"
    unfolding checkMinimumNpthDrillDiameter_def Let_def  using False
    apply (simp only: if_False)
    apply (intro quiet_intros; simp)
    done
  then show ?thesis using False by simp
qed

lemma checkMinimumNpthSlotWidth_pass:
  "passResult ext (\<lambda>m. True) (getMinNpthSlotWidth settings \<noteq> 0) ''Check minimum NPTH slot width...''
     percent (\<lambda>b. b) s (checkMinimumNpthSlotWidth ext settings percent s)"
proof (cases "getMinNpthSlotWidth settings = 0")
  case True
  then show ?thesis by (simp add: checkMinimumNpthSlotWidth_def pass_disabled)
next
  case False
  have "passResult ext (\<lambda>m. True) True ''Check minimum NPTH slot width...''
     percent (\<lambda>b. b) s (checkMinimumNpthSlotWidth ext settings percent s)"
    unfolding checkMinimumNpthSlotWidth_def Let_def  using False
    apply (simp only: if_False)
    apply (intro quiet_intros; simp)
    done
  then show ?thesis using False by simp
qed

lemma quietE_checkPadHoleDrillDiameter [quiet_intros]:
  "quiet ext (\<lambda>m. True) s s' \<Longrightarrow>
   quietE ext (\<lambda>m. True) s (checkPadHoleDrillDiameter ext minDiameter pad hole s')"
  unfolding checkPadHoleDrillDiameter_def
  by (auto simp: PositiveLength_max word_sless_alt bindE_def intro!: quiet_intros)

lemma checkMinimumPthDrillDiameter_pass:
  "passResultE ext (\<lambda>m. True) (getMinPthDrillDiameter settings \<noteq> 0) ''Check minimum PTH drill diameters...''
     percent (\<lambda>b. b) s (checkMinimumPthDrillDiameter ext settings percent s)"
proof (cases "getMinPthDrillDiameter settings = 0")
  case True
  then show ?thesis by (simp add: checkMinimumPthDrillDiameter_def passE_disabled)
next
  case False
  have "passResultE ext (\<lambda>m. True) True ''Check minimum PTH drill diameters...''
     percent (\<lambda>b. b) s (checkMinimumPthDrillDiameter ext settings percent s)"
    unfolding checkMinimumPthDrillDiameter_def Let_def using False
    apply (simp only: if_False)
    apply (intro quiet_intros; simp)
    done
  then show ?thesis using False by simp
qed

lemma checkMinimumPthSlotWidth_pass:
  "passResult ext (\<lambda>m. True) (getMinPthSlotWidth settings \<noteq> 0) ''Check minimum PTH slot width...''
     percent (\<lambda>b. b) s (checkMinimumPthSlotWidth ext settings percent s)"
proof (cases "getMinPthSlotWidth settings = 0")
  case True
  then show ?thesis by (simp add: checkMinimumPthSlotWidth_def pass_disabled)
next
  case False
  have "passResult ext (\<lambda>m. True) True ''Check minimum PTH slot width...''
     percent (\<lambda>b. b) s (checkMinimumPthSlotWidth ext settings percent s)"
    unfolding checkMinimumPthSlotWidth_def Let_def  using False
    apply (simp only: if_False)
    apply (intro quiet_intros; simp)
    done
  then show ?thesis using False by simp
qed

lemma checkAllowedNpthSlots_pass:
  "passResult ext (\<lambda>m. True) (getAllowedNpthSlots settings \<noteq> Any) ''Check for disallowed NPTH slots...''
     percent (\<lambda>b. b) s (checkAllowedNpthSlots ext settings percent s)"
proof (cases "getAllowedNpthSlots settings = Any")
  case True
  then show ?thesis by (simp add: checkAllowedNpthSlots_def pass_disabled)
next
  case False
  have "passResult ext (\<lambda>m. True) True ''Check for disallowed NPTH slots...''
     percent (\<lambda>b. b) s (checkAllowedNpthSlots ext settings percent s)"
    unfolding checkAllowedNpthSlots_def Let_def  using False
    apply (simp only: if_False)
    apply (intro quiet_intros; simp)
    done
  then show ?thesis using False by simp
qed

lemma checkAllowedPthSlots_pass:
  "passResult ext (\<lambda>m. True) (getAllowedPthSlots settings \<noteq> Any) ''Check for disallowed PTH slots...''
     percent (\<lambda>b. b) s (checkAllowedPthSlots ext settings percent s)"
proof (cases "getAllowedPthSlots settings = Any")
  case True
  then show ?thesis by (simp add: checkAllowedPthSlots_def pass_disabled)
next
  case False
  have "passResult ext (\<lambda>m. True) True ''Check for disallowed PTH slots...''
     percent (\<lambda>b. b) s (checkAllowedPthSlots ext settings percent s)"
    unfolding checkAllowedPthSlots_def Let_def  using False
    apply (simp only: if_False)
    apply (intro quiet_intros; simp)
    done
  then show ?thesis using False by simp
qed

lemma checkInvalidPadConnections_pass:
  "passResult ext (\<lambda>m. True) True ''Check pad connections...'' percent (\<lambda>b. b) s
     (checkInvalidPadConnections ext percent s)"
  unfolding checkInvalidPadConnections_def Let_def
  by (intro quiet_intros; simp)

lemma quiet_checkCourtyardPairs [quiet_intros]:
  "quiet ext (\<lambda>m. True) s s' \<Longrightarrow> quiet ext (\<lambda>m. True) s (checkCourtyardPairs ext entries s')"
proof (induction entries arbitrary: s')
  case Nil
  then show ?case by simp
next
  case (Cons e entries)
  obtain dev1 paths1 where e: "e = (dev1, paths1)" by fastforce
  have "quiet ext (\<lambda>m. True) s
          (fold (\<lambda>(dev2, paths2) t.
                let locations = Clipper_convertBack ext
                                  (Clipper_flattenTree ext (Clipper_intersect ext paths1 paths2))
                in if locations \<noteq> [] then emitMessage ext (DrcMsgCourtyardOverlap dev1 dev2 locations) t
                   else t) entries s')"
    unfolding Let_def split_def by (intro quiet_intros Cons.prems; simp)
  then show ?case using Cons.IH by (simp add: e)
qed

lemma checkCourtyardClearances_pass:
  "passResult ext (\<lambda>m. True) True ''Check courtyard clearances...'' percent (\<lambda>b. b) s
     (checkCourtyardClearances ext settings percent s)"
  unfolding checkCourtyardClearances_def Let_def
  by (intro quiet_intros; simp)

lemma checkForUnplacedComponents_pass:
  "passResult ext (\<lambda>m. True) True ''Check for unplaced components...'' percent (\<lambda>b. b) s
     (checkForUnplacedComponents ext percent s)"
  unfolding checkForUnplacedComponents_def Let_def
  by (intro quiet_intros; simp)

lemma checkForStaleObjects_pass:
  "passResult ext (\<lambda>m. True) True ''Check for stale objects...'' percent (\<lambda>b. b) s
     (checkForStaleObjects ext percent s)"
  unfolding checkForStaleObjects_def Let_def
  by (intro quiet_intros; simp)

lemma rebuildPlanes_pass:
  "passResult ext K True ''Rebuild planes...'' percent (Board_rebuildAllPlanes ext) s
     (rebuildPlanes ext percent s)"
  unfolding rebuildPlanes_def Let_def passResult_def if_True
  by (intro exI[of _ "[]"]) (simp add: messageSignals_def emitStatus_def emitProgress_def emitSignal_def)

lemma checkForMissingConnections_pass:
  "passResult ext (\<lambda>m. True) True ''Check for missing connections...'' percent
     (Board_forceAirWiresRebuild ext) s (checkForMissingConnections ext percent s)"
proof -
  let ?s1 = "emitStatus ''Check for missing connections...'' s"
  let ?s2 = "?s1\<lparr>mBoard := Board_forceAirWiresRebuild ext (mBoard ?s1)\<rparr>"
  define s3 where "s3 = fold (\<lambda>airWire.
                       emitMessage ext
                         (DrcMsgMissingConnection (airwire_getP1 airWire) (airwire_getP2 airWire)
                            (airwire_getNetSignal airWire)
                            [Path_obround ext (airwire_getP1 airWire) (airwire_getP2 airWire) 50000]))
                 (board_getAirWires (mBoard ?s2)) ?s2"
  have "quiet ext (\<lambda>m. True) ?s2 s3" unfolding s3_def by (intro quiet_intros; simp)
  then have "passResult ext (\<lambda>m. True) True ''Check for missing connections...'' percent
     (Board_forceAirWiresRebuild ext) s (emitProgress percent s3)"
    unfolding quiet_def passResult_def
    by (auto simp: emitStatus_def emitProgress_def emitSignal_def)
  then show ?thesis unfolding checkForMissingConnections_def Let_def s3_def .
qed

section \<open>The claims\<close>

text \<open>
  C1. In the copper to copper clearance check, the items are taken in the order in which
  they were appended, and every pair of positions \<open>i < j\<close> is looked at once, in the order
  of \<open>i\<close> and then of \<open>j\<close>. The pair is skipped when both items carry the same non-null
  net signal, and when both have a non-empty layer and the layers differ. Otherwise the
  areas of the two items are intersected, and exactly when the intersection is not empty
  one DrcMsgCopperCopperClearanceViolation is emitted, with both items and with the
  intersection as its locations.
\<close>

theorem copper_copper_pairs:
  assumes "getMinCopperCopperClearance settings \<noteq> 0"
  shows "mMessages (checkCopperCopperClearances ext settings progressEnd s) =
           mMessages s @
           (let items = copperItems ext settings (mBoard s) (mIgnorePlanes s) in
            [clearanceViolation ext (getMinCopperCopperClearance settings) (items ! i) (items ! j).
               i \<leftarrow> [0..<length items], j \<leftarrow> [Suc i..<length items],
               \<not> sameNonNullNet (items ! i) (items ! j),
               \<not> bothLayersDiffer (items ! i) (items ! j),
               itemIntersection ext (items ! i) (items ! j) \<noteq> []])"
proof -
  define items where "items = copperItems ext settings (mBoard s) (mIgnorePlanes s)"
  define c where "c = getMinCopperCopperClearance settings"
  have "mMessages (checkCopperCopperClearances ext settings progressEnd s) =
          mMessages s @ map (\<lambda>(a, b). clearanceViolation ext c a b)
                          (filter (\<lambda>(a, b). pairViolates ext a b) (itemPairs items))"
    using assms
    by (simp add: checkCopperCopperClearances_def Let_def checkItemIntersections_pairs items_def c_def)
  also have "map (\<lambda>(a, b). clearanceViolation ext c a b)
               (filter (\<lambda>(a, b). pairViolates ext a b) (itemPairs items)) =
             concat (map (\<lambda>i. concat (map (\<lambda>j. if pairViolates ext (items ! i) (items ! j)
                                                 then [clearanceViolation ext c (items ! i) (items ! j)] else [])
                                         [Suc i..<length items])) [0..<length items])"
    unfolding itemPairs_index[of items]
    by (simp only: map_filter_concat_map prod.case)
  also have "\<dots> =
             [clearanceViolation ext c (items ! i) (items ! j).
               i \<leftarrow> [0..<length items], j \<leftarrow> [Suc i..<length items],
               \<not> sameNonNullNet (items ! i) (items ! j),
               \<not> bothLayersDiffer (items ! i) (items ! j),
               itemIntersection ext (items ! i) (items ! j) \<noteq> []]"
    by (intro arg_cong[where f = concat] map_cong refl) (simp add: pairViolates_def)
  finally show ?thesis
    by (simp only: items_def c_def Let_def)
qed

theorem copper_copper_pairs_witness:
  "getMinCopperCopperClearance exampleSettings \<noteq> 0
   \<and> mMessages (checkCopperCopperClearances simpleCollaborators exampleSettings 34
                  (BoardDesignRuleCheck_new exampleBoard)) =
       [DrcMsgCopperCopperClearanceViolation
          ''top_cu'' (Some ''GND'') (BaseNetLine exampleNetLine) None None
          ''top_cu'' (Some ''VCC'') (BasePlane examplePlane) None None
          200000 [[((7000000, 5000000), 0)]]]"
proof -
  have h: "getMinCopperCopperClearance exampleSettings \<noteq> 0"
    by (simp add: exampleSettings_def)
  have items: "copperItems simpleCollaborators exampleSettings exampleBoard False =
      [\<lparr>itemRef = BaseVia exampleVia, itemPolygon = None, itemCircle = None, itemLayer = [],
        itemNetSignal = Some ''GND'', itemAreas = [[(5000000, 5000000)]]\<rparr>,
       \<lparr>itemRef = BaseNetLine exampleNetLine, itemPolygon = None, itemCircle = None, itemLayer = ''top_cu'',
        itemNetSignal = Some ''GND'', itemAreas = [[(5000000, 5000000), (7000000, 5000000)]]\<rparr>,
       \<lparr>itemRef = BasePlane examplePlane, itemPolygon = None, itemCircle = None, itemLayer = ''top_cu'',
        itemNetSignal = Some ''VCC'',
        itemAreas = [[(7000000, 5000000), (9000000, 5000000), (9000000, 9000000)]]\<rparr>,
       \<lparr>itemRef = BasePad examplePad, itemPolygon = None, itemCircle = None, itemLayer = ''top_cu'',
        itemNetSignal = Some ''GND'', itemAreas = [[(0, 0)]]\<rparr>,
       \<lparr>itemRef = BasePad examplePad, itemPolygon = None, itemCircle = None, itemLayer = ''bot_cu'',
        itemNetSignal = Some ''GND'', itemAreas = [[(0, 0)]]\<rparr>]"
    by (simp add: copperItems_def Let_def copperLayerNames_def isEnabledCopper_def netSegmentItems_def
        planeItems_def boardPolygonItems_def strokeTextItems_def deviceItems_def example_defs
        maxArcTolerance_def Transform_of_device_def)
  show ?thesis
    using h copper_copper_pairs [OF h, of simpleCollaborators 34 "BoardDesignRuleCheck_new exampleBoard"]
    apply (simp only: BoardDesignRuleCheck_new_def BoardDesignRuleCheck.simps items Let_def)
    apply (simp add: upt_rec sameNonNullNet_def bothLayersDiffer_def itemIntersection_def
        clearanceViolation_def simpleCollaborators_def gridIntersect_def gridTree_def gridCells_def
        exampleSettings_def)
    done
qed

text \<open>
  C2. The offset applied to each item of the copper to copper clearance check is
  \<open>floor((clearance - max_arc_tolerance) / 2) - 1\<close>, and 0 when that is negative, for
  every clearance (an UnsignedLength) and every arc tolerance (a PositiveLength). The
  division of the source truncates; after the clamp the result is that of the floor, and
  no step of the computation leaves the range of 64 bits.
\<close>

theorem copperCopperOffset_floor:
  assumes "0 \<le>s getMinCopperCopperClearance settings" and "0 <s maxArcTolerance settings"
  shows "sint (copperCopperOffset settings) =
           max ((sint (getMinCopperCopperClearance settings) - sint (maxArcTolerance settings)) div 2 - 1) 0"
proof -
  define c where "c = getMinCopperCopperClearance settings"
  define t where "t = maxArcTolerance settings"
  define d where "d = sint c - sint t"
  define q where "q = d sdiv 2"
  have ct: "0 \<le>s c" "0 <s t" using assms by (simp_all add: c_def t_def)
  have a: "0 \<le> sint c" "0 < sint t" using ct by (simp_all add: word_sle_eq word_sless_alt)
  have b: "sint c < 2^63" "sint t < 2^63" using sint_lt[of c] sint_lt[of t] by simp_all
  have dr: "- (2^63) < d" "d < 2^63" using a b by (simp_all add: d_def)
  have qr: "- (2^62) \<le> q" "q < 2^62" using dr by (auto simp: q_def sdiv_2_cases)
  have s1: "sint (Length_div (c - t) 2) = q"
    unfolding Length_div_def sint_Length_sub[OF ct] using qr by (simp add: sint_Length_of_int q_def d_def)
  have "signed_take_bit 63 (q - 1) = q - 1"
    by (rule signed_take_bit_int_eq_self) (use qr in simp_all)
  then have s2: "sint (Length_div (c - t) 2 - 1) = q - 1"
    by (simp add: sint_word_ariths s1)
  have s3: "sint (copperCopperOffset settings) = max (q - 1) 0"
    by (simp add: copperCopperOffset_def std_max_def word_sless_alt s2 max_def c_def[symmetric] t_def[symmetric])
  have "max (q - 1) 0 = max (d div 2 - 1) 0"
    by (auto simp: q_def sdiv_2_cases max_def)
  then show ?thesis using s3 by (simp add: d_def c_def t_def)
qed

theorem copperCopperOffset_floor_witness:
  "0 \<le>s getMinCopperCopperClearance exampleSettings \<and> 0 <s maxArcTolerance exampleSettings
   \<and> sint (copperCopperOffset exampleSettings) = 97499
   \<and> copperCopperOffset (exampleSettings\<lparr>getMinCopperCopperClearance := 2\<rparr>) = 0"
proof -
  have h1: "0 \<le>s getMinCopperCopperClearance exampleSettings"
    by (simp add: exampleSettings_def word_sle_eq)
  have h2: "0 <s maxArcTolerance exampleSettings"
    by (simp add: exampleSettings_def maxArcTolerance_def word_sless_alt)
  have "sint (copperCopperOffset exampleSettings) = 97499"
    using copperCopperOffset_floor [OF h1 h2]
    by (simp add: exampleSettings_def maxArcTolerance_def)
  moreover have "copperCopperOffset (exampleSettings\<lparr>getMinCopperCopperClearance := 2\<rparr>) = 0"
    by (simp add: copperCopperOffset_def exampleSettings_def maxArcTolerance_def Length_div_def
        std_max_def signed_divide_int_def word_sless_alt)
  ultimately show ?thesis using h1 h2 by simp
qed

lemma progressValues_append [simp]: "progressValues (a @ b) = progressValues a @ progressValues b"
  by (simp add: progressValues_def)

lemma progressValues_messageSignals [simp]: "progressValues (messageSignals ext ms) = []"
  by (induction ms) (simp_all add: progressValues_def messageSignals_def)

lemma progressValues_simps [simp]:
  "progressValues [] = []"
  "progressValues (progressPercent p # sigs) = p # progressValues sigs"
  "progressValues (progressStatus st # sigs) = progressValues sigs"
  "progressValues (started # sigs) = progressValues sigs"
  "progressValues (finished # sigs) = progressValues sigs"
  by (simp_all add: progressValues_def)

lemma stage_Cons:
  "map snd (filter fst ((enabled, e) # r)) = (if enabled then [e] else []) @ map snd (filter fst r)"
  by simp

lemma stage_Nil: "map snd (filter fst []) = []"
  by simp

lemma tracks_refl: "tracks K s s []"
  by (simp add: tracks_def)

lemma tracks_trans: "tracks K s t a \<Longrightarrow> tracks K t u b \<Longrightarrow> tracks K s u (a @ b)"
  unfolding tracks_def by (elim conjE exE) (auto simp: progressValues_append)

lemma tracks_pass:
  "passResult ext K enabled status percent f s t \<Longrightarrow>
   tracks K s t (if enabled then [(status, percent)] else [])"
  unfolding passResult_def tracks_def by (auto split: if_splits)

lemma tracks_passE:
  "passResultE ext K enabled status percent f s r \<Longrightarrow>
   \<exists>t. r = Inr t \<and> tracks K s t (if enabled then [(status, percent)] else [])"
  unfolding passResultE_def using tracks_pass by blast

lemma passResult_board:
  "passResult ext K enabled status percent (\<lambda>b. b) s t \<Longrightarrow> mBoard t = mBoard s"
  unfolding passResult_def by (auto split: if_splits)

lemma passResult_flag:
  "passResult ext K enabled status percent f s t \<Longrightarrow> mIgnorePlanes t = mIgnorePlanes s"
  unfolding passResult_def by (auto split: if_splits)

lemma passResult_weaken:
  "passResult ext K enabled status percent f s t \<Longrightarrow> passResult ext (\<lambda>m. True) enabled status percent f s t"
  unfolding passResult_def by (auto split: if_splits simp: list_all_iff)

lemma tracks_weaken: "tracks K s t tr \<Longrightarrow> tracks (\<lambda>m. True) s t tr"
  unfolding tracks_def by (auto simp: list_all_iff)

text \<open>The four passes that every run makes.\<close>

lemma commonChecks_tracks:
  assumes "\<not> fontLookupFails settings (mBoard s)" and "F \<longrightarrow> mIgnorePlanes s"
  shows "\<exists>s4 s5 s6.
     checkMinimumCopperWidth ext settings 14 s = Inr s4
     \<and> s5 = checkCopperCopperClearances ext settings 34 s4
     \<and> checkCopperBoardClearances ext settings 44 s5 = Inr s6
     \<and> tracks (copperKind F) s (checkCopperHoleClearances ext settings 54 s6) (commonSequence settings)
     \<and> mBoard (checkCopperHoleClearances ext settings 54 s6) = mBoard s"
proof -
  obtain s4 where s4: "checkMinimumCopperWidth ext settings 14 s = Inr s4"
    and p4: "passResult ext (copperKind F) (getMinCopperWidth settings \<noteq> 0) ''Check minimum copper width...'' 14 (\<lambda>b. b) s s4"
    using checkMinimumCopperWidth_pass[OF assms(1), of ext F 14] by (auto simp: passResultE_def)
  have f4: "F \<longrightarrow> mIgnorePlanes s4" using assms(2) passResult_flag[OF p4] by simp
  define s5 where "s5 = checkCopperCopperClearances ext settings 34 s4"
  have p5: "passResult ext (copperKind F) (getMinCopperCopperClearance settings \<noteq> 0) ''Check copper clearances...'' 34 (\<lambda>b. b) s4 s5"
    unfolding s5_def using f4 by (rule checkCopperCopperClearances_pass)
  have f5: "F \<longrightarrow> mIgnorePlanes s5" using f4 passResult_flag[OF p5] by simp
  obtain s6 where s6: "checkCopperBoardClearances ext settings 44 s5 = Inr s6"
    and p6: "passResult ext (copperKind F) (getMinCopperBoardClearance settings \<noteq> 0) ''Check board clearances...'' 44 (\<lambda>b. b) s5 s6"
    using checkCopperBoardClearances_pass[OF f5, of ext settings 44] by (auto simp: passResultE_def)
  define s7 where "s7 = checkCopperHoleClearances ext settings 54 s6"
  have p7: "passResult ext (copperKind F) (getMinCopperNpthClearance settings \<noteq> 0) ''Check hole clearances...'' 54 (\<lambda>b. b) s6 s7"
    unfolding s7_def by (rule checkCopperHoleClearances_pass)
  have "tracks (copperKind F) s s7 (commonSequence settings)"
    using tracks_trans[OF tracks_trans[OF tracks_trans[OF tracks_pass[OF p4] tracks_pass[OF p5]] tracks_pass[OF p6]] tracks_pass[OF p7]]
    unfolding commonSequence_def by (simp only: stage_Cons stage_Nil append_Nil2 append_assoc)
  moreover have "mBoard s7 = mBoard s"
    using passResult_board[OF p4] passResult_board[OF p5] passResult_board[OF p6] passResult_board[OF p7] by simp
  ultimately show ?thesis using s4 s6 s5_def s7_def by blast
qed

lemma fullChecks_tracks:
  "\<exists>t. fullChecks ext settings s = Inr t \<and> tracks (\<lambda>m. True) s t (starredSequence settings)"
proof -
  obtain s1 where s1: "checkMinimumPthAnnularRing ext settings 64 s = Inr s1"
    and t1: "tracks (\<lambda>m. True) s s1 (if getMinPthAnnularRing settings \<noteq> 0 then [(''Check minimum PTH annular rings...'', 64)] else [])"
    using tracks_passE[OF checkMinimumPthAnnularRing_pass[of ext settings 64 s]] by blast
  define s2 where "s2 = checkMinimumNpthDrillDiameter ext settings 66 s1"
  define s3 where "s3 = checkMinimumNpthSlotWidth ext settings 68 s2"
  obtain s4 where s4: "checkMinimumPthDrillDiameter ext settings 70 s3 = Inr s4"
    and t4: "tracks (\<lambda>m. True) s3 s4 (if getMinPthDrillDiameter settings \<noteq> 0 then [(''Check minimum PTH drill diameters...'', 70)] else [])"
    using tracks_passE[OF checkMinimumPthDrillDiameter_pass[of ext settings 70 s3]] by blast
  define s5 where "s5 = checkMinimumPthSlotWidth ext settings 72 s4"
  define s6 where "s6 = checkAllowedNpthSlots ext settings 74 s5"
  define s7 where "s7 = checkAllowedPthSlots ext settings 76 s6"
  define s8 where "s8 = checkInvalidPadConnections ext 78 s7"
  define s9 where "s9 = checkCourtyardClearances ext settings 91 s8"
  define s10 where "s10 = checkForUnplacedComponents ext 93 s9"
  define s11 where "s11 = checkForMissingConnections ext 95 s10"
  define s12 where "s12 = checkForStaleObjects ext 97 s11"
  note t2 = tracks_pass[OF checkMinimumNpthDrillDiameter_pass[of ext settings 66 s1], folded s2_def]
  note t3 = tracks_pass[OF checkMinimumNpthSlotWidth_pass[of ext settings 68 s2], folded s3_def]
  note t5 = tracks_pass[OF checkMinimumPthSlotWidth_pass[of ext settings 72 s4], folded s5_def]
  note t6 = tracks_pass[OF checkAllowedNpthSlots_pass[of ext settings 74 s5], folded s6_def]
  note t7 = tracks_pass[OF checkAllowedPthSlots_pass[of ext settings 76 s6], folded s7_def]
  note t8 = tracks_pass[OF checkInvalidPadConnections_pass[of ext 78 s7], folded s8_def]
  note t9 = tracks_pass[OF checkCourtyardClearances_pass[of ext 91 s8 settings], folded s9_def]
  note t10 = tracks_pass[OF checkForUnplacedComponents_pass[of ext 93 s9], folded s10_def]
  note t11 = tracks_pass[OF checkForMissingConnections_pass[of ext 95 s10], folded s11_def]
  note t12 = tracks_pass[OF checkForStaleObjects_pass[of ext 97 s11], folded s12_def]
  have a: "tracks (\<lambda>m. True) s s4
             ((if getMinPthAnnularRing settings \<noteq> 0 then [(''Check minimum PTH annular rings...'', 64)] else [])
              @ (if getMinNpthDrillDiameter settings \<noteq> 0 then [(''Check minimum NPTH drill diameters...'', 66)] else [])
              @ (if getMinNpthSlotWidth settings \<noteq> 0 then [(''Check minimum NPTH slot width...'', 68)] else [])
              @ (if getMinPthDrillDiameter settings \<noteq> 0 then [(''Check minimum PTH drill diameters...'', 70)] else []))"
    using tracks_trans[OF t1 tracks_trans[OF t2 tracks_trans[OF t3 t4]]] by simp
  have b: "tracks (\<lambda>m. True) s4 s7
             ((if getMinPthSlotWidth settings \<noteq> 0 then [(''Check minimum PTH slot width...'', 72)] else [])
              @ (if getAllowedNpthSlots settings \<noteq> Any then [(''Check for disallowed NPTH slots...'', 74)] else [])
              @ (if getAllowedPthSlots settings \<noteq> Any then [(''Check for disallowed PTH slots...'', 76)] else []))"
    using tracks_trans[OF t5 tracks_trans[OF t6 t7]] by simp
  have c: "tracks (\<lambda>m. True) s7 s12
             [(''Check pad connections...'', 78), (''Check courtyard clearances...'', 91),
              (''Check for unplaced components...'', 93), (''Check for missing connections...'', 95),
              (''Check for stale objects...'', 97)]"
    using tracks_trans[OF t8 tracks_trans[OF t9 tracks_trans[OF t10 tracks_trans[OF t11 t12]]]] by simp
  have "tracks (\<lambda>m. True) s s12 (starredSequence settings)"
    using tracks_trans[OF a tracks_trans[OF b c]] unfolding starredSequence_def
    by (simp only: stage_Cons stage_Nil append_Nil2 append_assoc if_True append_Cons append_Nil)
  moreover have "fullChecks ext settings s = Inr s12"
    unfolding fullChecks_def Let_def bindE_def
    by (simp add: s1 s2_def[symmetric] s3_def[symmetric] s4 s5_def s6_def s7_def s8_def s9_def s10_def s11_def s12_def)
  ultimately show ?thesis by blast
qed


lemma mBoard_startRun [simp]: "mBoard (startRun quick s) = mBoard s"
  by (simp add: startRun_def emitProgress_def emitSignal_def)

lemma mBoard_enterRun:
  "mBoard (enterRun ext quick s) = (if quick then mBoard s else Board_rebuildAllPlanes ext (mBoard s))"
  by (simp add: enterRun_def rebuildPlanes_def emitStatus_def emitProgress_def emitSignal_def Let_def)

lemma execute_quick_tracks:
  assumes "\<not> fontLookupFails settings (mBoard s)"
  shows "\<exists>t. execute ext settings True s = Inr (finishRun ext t)
       \<and> tracks (copperKind True) (startRun True s) t (runSequence settings True)
       \<and> mBoard t = mBoard s"
proof -
  have nf: "\<not> fontLookupFails settings (mBoard (startRun True s))" using assms by simp
  obtain s4 s6 where
    s4: "checkMinimumCopperWidth ext settings 14 (startRun True s) = Inr s4" and
    s6: "checkCopperBoardClearances ext settings 44 (checkCopperCopperClearances ext settings 34 s4) = Inr s6" and
    tr: "tracks (copperKind True) (startRun True s) (checkCopperHoleClearances ext settings 54 s6) (commonSequence settings)" and
    b: "mBoard (checkCopperHoleClearances ext settings 54 s6) = mBoard (startRun True s)"
    using commonChecks_tracks[OF nf, of True ext] by (auto simp: startRun_def)
  have "execute ext settings True s = Inr (finishRun ext (checkCopperHoleClearances ext settings 54 s6))"
    unfolding execute_def Let_def bindE_def startRun_def[symmetric] finishRun_def[symmetric]
    by (simp add: s4 s6)
  then show ?thesis using tr b by (auto simp: runSequence_def)
qed

lemma execute_full_tracks:
  assumes "\<not> fontLookupFails settings (Board_rebuildAllPlanes ext (mBoard s))"
  shows "\<exists>t. execute ext settings False s = Inr (finishRun ext t)
       \<and> tracks (\<lambda>m. True) (startRun False s) t (runSequence settings False)"
proof -
  let ?s3 = "rebuildPlanes ext 12 (startRun False s)"
  have nf: "\<not> fontLookupFails settings (mBoard ?s3)"
    using assms mBoard_enterRun[of ext False s] by (simp add: enterRun_def)
  have t3: "tracks (\<lambda>m. True) (startRun False s) ?s3 [(''Rebuild planes...'', 12)]"
    using tracks_pass[OF rebuildPlanes_pass[of ext "\<lambda>m. True" 12 "startRun False s"]] by simp
  obtain s4 s6 where
    s4: "checkMinimumCopperWidth ext settings 14 ?s3 = Inr s4" and
    s6: "checkCopperBoardClearances ext settings 44 (checkCopperCopperClearances ext settings 34 s4) = Inr s6" and
    tr: "tracks (copperKind False) ?s3 (checkCopperHoleClearances ext settings 54 s6) (commonSequence settings)"
    using commonChecks_tracks[OF nf, of False ext] by blast
  obtain t where t: "fullChecks ext settings (checkCopperHoleClearances ext settings 54 s6) = Inr t"
    and tt: "tracks (\<lambda>m. True) (checkCopperHoleClearances ext settings 54 s6) t (starredSequence settings)"
    using fullChecks_tracks by blast
  have "execute ext settings False s = Inr (finishRun ext t)"
    unfolding execute_def Let_def bindE_def startRun_def[symmetric] finishRun_def[symmetric]
    by (simp add: s4 s6 t)
  moreover have "tracks (\<lambda>m. True) (startRun False s) t (runSequence settings False)"
    using tracks_trans[OF t3 tracks_trans[OF tracks_weaken[OF tr] tt]] by (simp add: runSequence_def)
  ultimately show ?thesis by blast
qed

text \<open>A run that is not ended by an exception, and a run that is.\<close>

lemma execute_returns:
  assumes "\<not> fontLookupFails settings (mBoard (enterRun ext quick s))"
  shows "\<exists>t. execute ext settings quick s = Inr (finishRun ext t)
           \<and> tracks (if quick then copperKind True else (\<lambda>m. True)) (startRun quick s) t (runSequence settings quick)
           \<and> (quick \<longrightarrow> mBoard t = mBoard s)"
proof (cases quick)
  case True
  then show ?thesis
    using execute_quick_tracks[of settings s ext] assms by (simp add: mBoard_enterRun)
next
  case False
  then show ?thesis
    using execute_full_tracks[of settings ext s] assms by (simp add: mBoard_enterRun)
qed

lemma execute_thrown:
  assumes "fontLookupFails settings (mBoard (enterRun ext quick s))"
  shows "\<exists>t. execute ext settings quick s = Inl (FontLookupFailed, t)
           \<and> quiet ext (copperKind True) (emitStatus ''Check minimum copper width...'' (enterRun ext quick s)) t"
proof -
  obtain t where t: "checkMinimumCopperWidth ext settings 14 (enterRun ext quick s) = Inl (FontLookupFailed, t)"
    "quiet ext (copperKind True) (emitStatus ''Check minimum copper width...'' (enterRun ext quick s)) t"
    using checkMinimumCopperWidth_thrown[OF assms, of ext 14 True] by blast
  have "execute ext settings quick s = Inl (FontLookupFailed, t)"
    using t(1) unfolding execute_def Let_def startRun_def[symmetric] enterRun_def
    by (cases quick) (simp_all add: bindE_def)
  then show ?thesis using t(2) by blast
qed




















lemma sameButCache_refl: "sameButCache s s"
  by (simp add: sameButCache_def)

lemma sameButCache_trans: "sameButCache s t \<Longrightarrow> sameButCache t u \<Longrightarrow> sameButCache s u"
  unfolding sameButCache_def by (metis BoardDesignRuleCheck.update_convs(6) BoardDesignRuleCheck.surjective)

lemma sameButCache_fields:
  assumes "sameButCache s t"
  shows "mBoard t = mBoard s" "mIgnorePlanes t = mIgnorePlanes s" "mMessages t = mMessages s"
    "mSignals t = mSignals s" "mProgressStatus t = mProgressStatus s" "mProgressPercent t = mProgressPercent s"
  using assms unfolding sameButCache_def
  by (metis BoardDesignRuleCheck.select_convs BoardDesignRuleCheck.surjective BoardDesignRuleCheck.update_convs(6))+

text \<open>
  The loops over the layers that collect the copper: every call of getCopperPaths returns
  what it would have returned at the start of the loop, and only the cache changes.
\<close>

lemma getCopperPaths_returns:
  "fst (getCopperPaths ext settings l {} s) = copperOf ext settings s l"
  by (simp add: getCopperPaths_def copperOf_def Let_def split: option.splits)

lemma getCopperPaths_stable:
  "sameButCache s (snd (getCopperPaths ext settings l {} s))"
  "copperOf ext settings (snd (getCopperPaths ext settings l {} s)) l' = copperOf ext settings s l'"
  by (auto simp: getCopperPaths_def copperOf_def Let_def sameButCache_def split: option.splits)

lemma copperOf_coherent:
  assumes "cacheCoherent ext settings s"
  shows "copperOf ext settings s l =
           gen_addCopper ext (mBoard s) (maxArcTolerance settings) (layer_getName l) {} (mIgnorePlanes s)"
  using assms by (auto simp: copperOf_def cacheCoherent_def split: option.splits)

lemma returnedCopperSets_coherent:
  assumes "cacheCoherent ext settings s"
  shows "returnedCopperSets ext settings s = layerCopperSets ext settings (mBoard s) (mIgnorePlanes s)"
  by (simp add: returnedCopperSets_def layerCopperSets_def copperOf_coherent[OF assms])

lemma allLayerCopper_returns:
  "fst (allLayerCopper ext settings s) = returnedCopperSets ext settings s"
  "sameButCache s (snd (allLayerCopper ext settings s))"
proof -
  define step where "step = (\<lambda>l (thtCopperAreas, t).
             if layer_isCopperLayer l \<and> layer_isEnabled l then
               (let (paths, t') = getCopperPaths ext settings l {} t
                in (thtCopperAreas @ [paths], t'))
             else (thtCopperAreas, t))"
  have main: "fst (fold step ls (a, t)) =
                a @ map (copperOf ext settings s) (filter (\<lambda>l. layer_isCopperLayer l \<and> layer_isEnabled l) ls)
              \<and> sameButCache s (snd (fold step ls (a, t)))"
    if "sameButCache s t" "\<And>l. copperOf ext settings t l = copperOf ext settings s l" for ls a t
    using that
  proof (induction ls arbitrary: a t)
    case Nil
    then show ?case by simp
  next
    case (Cons l ls)
    show ?case
    proof (cases "layer_isCopperLayer l \<and> layer_isEnabled l")
      case True
      let ?g = "getCopperPaths ext settings l {} t"
      have st: "step l (a, t) = (a @ [fst ?g], snd ?g)"
        using True by (simp add: step_def split_def Let_def)
      have f: "fst ?g = copperOf ext settings s l"
        using getCopperPaths_returns[of ext settings l t] Cons.prems(2) by simp
      have b: "sameButCache s (snd ?g)"
        using sameButCache_trans[OF Cons.prems(1) getCopperPaths_stable(1)] .
      have c: "copperOf ext settings (snd ?g) l' = copperOf ext settings s l'" for l'
        using getCopperPaths_stable(2)[of ext settings l t l'] Cons.prems(2) by simp
      show ?thesis using Cons.IH[OF b c, of "a @ [fst ?g]"] True by (simp add: st f)
    next
      case False
      have st: "step l (a, t) = (a, t)" using False by (auto simp: step_def)
      show ?thesis using Cons.IH[OF Cons.prems, of a] False by (auto simp: st)
    qed
  qed
  have eq: "allLayerCopper ext settings s = fold step (board_getAllLayers (mBoard s)) ([], s)"
    unfolding allLayerCopper_def step_def ..
  show "fst (allLayerCopper ext settings s) = returnedCopperSets ext settings s"
    using main[OF sameButCache_refl refl, of "board_getAllLayers (mBoard s)" "[]"]
    by (simp add: eq returnedCopperSets_def)
  show "sameButCache s (snd (allLayerCopper ext settings s))"
    using main[OF sameButCache_refl refl, of "board_getAllLayers (mBoard s)" "[]"] by (simp add: eq)
qed


lemma cacheCoherent_new: "cacheCoherent ext settings (BoardDesignRuleCheck_new board)"
  by (simp add: cacheCoherent_def BoardDesignRuleCheck_new_def)

lemma copperOf_emitStatus [simp]:
  "copperOf ext settings (emitStatus st s) = copperOf ext settings s"
  by (rule ext) (simp add: copperOf_def emitStatus_def emitSignal_def split: option.splits)

lemma returnedCopperSets_emitStatus [simp]:
  "returnedCopperSets ext settings (emitStatus st s) = returnedCopperSets ext settings s"
  by (simp add: returnedCopperSets_def)

lemma mBoard_emitMessage [simp]: "mBoard (emitMessage ext m s) = mBoard s"
  by (simp add: emitMessage_def emitSignal_def)

lemma mBoard_emitMessages [simp]: "mBoard (emitMessages ext ms s) = mBoard s"
  by (induction ms arbitrary: s) simp_all

lemma fold_emits:
  assumes "\<And>x t. x \<in> set xs \<Longrightarrow> mBoard t = b \<Longrightarrow> f x t = emitMessages ext (g x) t"
    and "mBoard s = b"
  shows "fold f xs s = emitMessages ext (concat (map g xs)) s"
  using assms
proof (induction xs arbitrary: s)
  case Nil
  then show ?case by simp
next
  case (Cons x xs)
  have b: "mBoard (emitMessages ext (g x) s) = b" using Cons.prems(2) by simp
  have "fold f xs (emitMessages ext (g x) s) = emitMessages ext (concat (map g xs)) (emitMessages ext (g x) s)"
    by (rule Cons.IH[OF _ b]) (use Cons.prems(1) in auto)
  then show ?case
    using Cons.prems(1)[OF _ Cons.prems(2), of x] by (simp add: emitMessages_append)
qed

lemma foldE_emits:
  assumes "\<And>x t. x \<in> set xs \<Longrightarrow> mBoard t = b \<Longrightarrow> f x t = Inr (emitMessages ext (g x) t)"
    and "mBoard s = b"
  shows "foldE f xs s = Inr (emitMessages ext (concat (map g xs)) s)"
  using assms
proof (induction xs arbitrary: s)
  case Nil
  then show ?case by simp
next
  case (Cons x xs)
  have b: "mBoard (emitMessages ext (g x) s) = b" using Cons.prems(2) by simp
  have "foldE f xs (emitMessages ext (g x) s) =
          Inr (emitMessages ext (concat (map g xs)) (emitMessages ext (g x) s))"
    by (rule Cons.IH[OF _ b]) (use Cons.prems(1) in auto)
  then show ?case
    using Cons.prems(1)[OF _ Cons.prems(2), of x] by (simp add: emitMessages_append)
qed

lemma reportRemaining_emits:
  "reportRemaining ext areas T mk s =
     emitMessages ext (if uncovered ext areas T \<noteq> [] then [mk (Clipper_convertBack ext (uncovered ext areas T))] else []) s"
  by (simp add: reportRemaining_def uncovered_def Let_def)

lemma annularDiameter_positive:
  assumes "permittedPositive d" and "permittedPositive a"
  shows "\<not> annularDiameter d a \<le>s 0"
proof -
  have d: "0 < sint d" "sint d \<le> 2 ^ 52" and a: "0 < sint a" "sint a \<le> 2 ^ 52"
    using assms by (simp_all add: permittedPositive_def word_sless_alt word_sle_eq)
  have h1: "signed_take_bit 63 (sint a * 2) = sint a * 2"
    by (rule signed_take_bit_int_eq_self) (use a in simp_all)
  have h2: "signed_take_bit 63 (sint d + sint a * 2) = sint d + sint a * 2"
    by (rule signed_take_bit_int_eq_self) (use a d in simp_all)
  have h3: "signed_take_bit 63 (sint d + sint a * 2 - 1) = sint d + sint a * 2 - 1"
    by (rule signed_take_bit_int_eq_self) (use a d in simp_all)
  have "sint (d + a * 2 - 1) = sint d + sint a * 2 - 1"
    by (simp add: sint_word_ariths h1 h2 h3)
  then show ?thesis using a d by (simp add: annularDiameter_def word_sle_eq)
qed

lemma cacheCoherent_emitStatus [simp]:
  "cacheCoherent ext settings (emitStatus st s) = cacheCoherent ext settings s"
  by (simp add: cacheCoherent_def emitStatus_def emitSignal_def)

lemma checkViaAnnularRing_emits:
  "checkViaAnnularRing ext tol a T via t =
           Inr (emitMessages ext
                  (if \<not> annularDiameter (via_getDrillDiameter via) a \<le>s 0
                   then if uncovered ext (viaDisc ext tol a via) T \<noteq> []
                        then [DrcMsgMinimumAnnularRingViolation_Via via a
                                (Clipper_convertBack ext (uncovered ext (viaDisc ext tol a via) T))]
                        else []
                   else []) t)"
proof (cases "annularDiameter (via_getDrillDiameter via) a \<le>s 0")
  case True
  then show ?thesis by (simp add: checkViaAnnularRing_def)
next
  case False
  then show ?thesis
    using PositiveLength_positive[OF False]
    by (simp add: checkViaAnnularRing_def Let_def bindE_def reportRemaining_emits
        viaDisc_def annularDiameter_def)
qed

lemma padHoleAreas_skips:
  "padHoleAreas ext tol annularWidth pad = padHoleAreas ext tol annularWidth (withoutSkippedHoles annularWidth pad)"
proof -
  define body where "body = (\<lambda>(hole::Hole) areas.
              let diameter = annularDiameter (hole_getDiameter hole) annularWidth in
              if diameter \<le>s 0 then Inr areas
              else
                bindE (PositiveLength diameter)
                  (\<lambda>d. Inr (fold (\<lambda>area areas'.
                                     Clipper_unite ext areas'
                                       [Clipper_convert ext (Transform_map_Path ext (Transform_of_pad pad) area) tol])
                               (Path_toOutlineStrokes ext (hole_getPath hole) d) areas)))"
  have "foldE body hs acc =
          foldE body (filter (\<lambda>hole. \<not> annularDiameter (hole_getDiameter hole) annularWidth \<le>s 0) hs) acc"
    for hs acc
  proof (induction hs arbitrary: acc)
    case Nil
    show ?case by simp
  next
    case (Cons h hs)
    show ?case
    proof (cases "annularDiameter (hole_getDiameter h) annularWidth \<le>s 0")
      case True
      then have "body h acc = Inr acc" by (simp add: body_def)
      then show ?thesis using True Cons by simp
    next
      case False
      then show ?thesis using Cons by (simp split: sum.split)
    qed
  qed
  note main = this
  have tf: "Transform_of_pad (withoutSkippedHoles annularWidth pad) = Transform_of_pad pad"
    by (simp add: withoutSkippedHoles_def Transform_of_pad_def)
  have holes: "libpad_getHoles (pad_getLibPad (withoutSkippedHoles annularWidth pad)) =
      filter (\<lambda>hole. \<not> annularDiameter (hole_getDiameter hole) annularWidth \<le>s 0)
        (libpad_getHoles (pad_getLibPad pad))"
    by (simp add: withoutSkippedHoles_def)
  show ?thesis
    unfolding padHoleAreas_def tf holes
    using main[of "libpad_getHoles (pad_getLibPad pad)" "[]"] unfolding body_def .
qed

lemma padHoleAreas_discs:
  assumes "list_all (\<lambda>hole. \<not> annularDiameter (hole_getDiameter hole) a \<le>s 0)
             (libpad_getHoles (pad_getLibPad pad))"
  shows "padHoleAreas ext tol a pad = Inr (padHoleDiscs ext tol a pad)"
proof -
  define body where "body = (\<lambda>(hole::Hole) areas.
              let diameter = annularDiameter (hole_getDiameter hole) a in
              if diameter \<le>s 0 then Inr areas
              else
                bindE (PositiveLength diameter)
                  (\<lambda>d. Inr (fold (\<lambda>area areas'.
                                     Clipper_unite ext areas'
                                       [Clipper_convert ext (Transform_map_Path ext (Transform_of_pad pad) area) tol])
                               (Path_toOutlineStrokes ext (hole_getPath hole) d) areas)))"
  define disc where "disc = (\<lambda>(hole::Hole) areas.
             fold (\<lambda>area areas'.
                     Clipper_unite ext areas'
                       [Clipper_convert ext (Transform_map_Path ext (Transform_of_pad pad) area) tol])
               (Path_toOutlineStrokes ext (hole_getPath hole) (hole_getDiameter hole + a * 2 - 1))
               areas)"
  have "foldE body hs acc = Inr (fold disc hs acc)"
    if "list_all (\<lambda>hole. \<not> annularDiameter (hole_getDiameter hole) a \<le>s 0) hs" for hs acc
    using that
  proof (induction hs arbitrary: acc)
    case Nil
    then show ?case by simp
  next
    case (Cons h hs)
    have p: "\<not> annularDiameter (hole_getDiameter h) a \<le>s 0"
      using Cons.prems by simp
    have "body h acc = Inr (disc h acc)"
      using p PositiveLength_positive[OF p]
      by (simp add: body_def disc_def Let_def bindE_def annularDiameter_def)
    then show ?case using Cons by simp
  qed
  from this[OF assms(1)] show ?thesis
    unfolding padHoleAreas_def padHoleDiscs_def body_def disc_def .
qed

lemma padHoleAreas_united:
  "padHoleAreas ext tol a pad = Inr (padHoleDiscs ext tol a (withoutSkippedHoles a pad))"
proof -
  have "list_all (\<lambda>hole. \<not> annularDiameter (hole_getDiameter hole) a \<le>s 0)
          (libpad_getHoles (pad_getLibPad (withoutSkippedHoles a pad)))"
    by (simp add: withoutSkippedHoles_def list_all_iff)
  then show ?thesis
    using padHoleAreas_skips[of ext tol a pad] padHoleAreas_discs by simp
qed

subsection \<open>The cache in the first run of a check\<close>

lemma keepsCache_refl [cache_intros]: "keepsCache s s"
  by (simp add: keepsCache_def)

lemma keepsCache_emitMessage [cache_intros]:
  "keepsCache s t \<Longrightarrow> keepsCache s (emitMessage ext m t)"
  by (simp add: keepsCache_def emitMessage_def emitSignal_def)

lemma keepsCache_emitStatus [cache_intros]:
  "keepsCache s t \<Longrightarrow> keepsCache s (emitStatus st t)"
  by (simp add: keepsCache_def emitStatus_def emitSignal_def)

lemma keepsCache_emitProgress [cache_intros]:
  "keepsCache s t \<Longrightarrow> keepsCache s (emitProgress p t)"
  by (simp add: keepsCache_def emitProgress_def emitSignal_def)

lemma keepsCache_emitMessages [cache_intros]:
  "keepsCache s t \<Longrightarrow> keepsCache s (emitMessages ext ms t)"
  by (induction ms arbitrary: t) (simp_all add: keepsCache_emitMessage)

lemma keepsCache_if [cache_intros]:
  "(c \<Longrightarrow> keepsCache s a) \<Longrightarrow> (\<not> c \<Longrightarrow> keepsCache s b) \<Longrightarrow> keepsCache s (if c then a else b)"
  by simp

lemma keepsCache_fold [cache_intros]:
  assumes "\<And>x t. keepsCache s t \<Longrightarrow> keepsCache s (f x t)" and "keepsCache s t"
  shows "keepsCache s (fold f xs t)"
  using assms(2) by (induction xs arbitrary: t) (simp_all add: assms(1))

lemma keepsCacheE_Inr [cache_intros]: "keepsCache s t \<Longrightarrow> keepsCacheE s (Inr t)"
  by (simp add: keepsCacheE_def)

lemma keepsCacheE_if [cache_intros]:
  "(c \<Longrightarrow> keepsCacheE s a) \<Longrightarrow> (\<not> c \<Longrightarrow> keepsCacheE s b) \<Longrightarrow> keepsCacheE s (if c then a else b)"
  by simp

lemma keepsCacheE_foldE [cache_intros]:
  assumes "\<And>x t. keepsCache s t \<Longrightarrow> keepsCacheE s (f x t)" and "keepsCache s t"
  shows "keepsCacheE s (foldE f xs t)"
  using assms(2)
proof (induction xs arbitrary: t)
  case Nil
  then show ?case by (simp add: keepsCacheE_def)
next
  case (Cons x xs)
  show ?case
  proof (cases "f x t")
    case (Inl a)
    then show ?thesis using assms(1)[OF Cons.prems, of x] by (simp add: keepsCacheE_def)
  next
    case (Inr u)
    then have "keepsCache s u" using assms(1)[OF Cons.prems, of x] by (simp add: keepsCacheE_def)
    then show ?thesis using Cons.IH Inr by simp
  qed
qed

lemma keepsCacheE_bindE [cache_intros]:
  assumes "keepsCacheE s m" and "\<And>t. keepsCache s t \<Longrightarrow> keepsCacheE s (f t)"
  shows "keepsCacheE s (bindE m f)"
  using assms by (cases m) (auto simp: bindE_def keepsCacheE_def)

lemma keepsCacheE_thrownIn [cache_intros]:
  assumes "keepsCache s t" and "\<And>a. keepsCacheE s (f a)"
  shows "keepsCacheE s (bindE (thrownIn t m) f)"
  using assms by (cases m) (auto simp: bindE_def keepsCacheE_def)

lemma keepsCache_reportBoardClearance [cache_intros]:
  "keepsCache s t \<Longrightarrow> keepsCache s (reportBoardClearance ext area paths mk t)"
  unfolding reportBoardClearance_def Let_def by (intro cache_intros)

lemma keepsCache_checkItemIntersections [cache_intros]:
  "keepsCache s t \<Longrightarrow> keepsCache s (checkItemIntersections ext clearance items t)"
  unfolding checkItemIntersections_pairs by (rule keepsCache_emitMessages)

lemma checkMinimumCopperWidth_keepsCache:
  "keepsCacheE s (checkMinimumCopperWidth ext settings percent s)"
  unfolding checkMinimumCopperWidth_def checkStrokeTextWidth_def checkPlaneWidth_def
    checkNetLineWidth_def Let_def
  by (intro cache_intros)

lemma checkCopperCopperClearances_keepsCache:
  "keepsCache s (checkCopperCopperClearances ext settings percent s)"
  unfolding checkCopperCopperClearances_def Let_def
  by (intro cache_intros)

lemma checkCopperBoardClearances_keepsCache:
  "keepsCacheE s (checkCopperBoardClearances ext settings percent s)"
  unfolding checkCopperBoardClearances_def checkDeviceBoardClearance_def checkPadBoardClearance_def
    Let_def
  by (intro cache_intros)

lemma cacheCoherent_cong:
  assumes "mCachedPaths t = mCachedPaths s" and "mBoard t = mBoard s"
    and "mIgnorePlanes t = mIgnorePlanes s"
  shows "cacheCoherent ext settings t = cacheCoherent ext settings s"
  using assms by (simp add: cacheCoherent_def)

lemma getCopperPaths_coherent:
  "cacheCoherent ext settings s \<Longrightarrow> cacheCoherent ext settings (snd (getCopperPaths ext settings l n s))"
  by (auto simp: getCopperPaths_def Let_def cacheCoherent_def split: option.splits)

lemma anyLayerCopper_coherent:
  assumes "cacheCoherent ext settings s"
  shows "cacheCoherent ext settings (snd (anyLayerCopper ext settings s))"
proof -
  define step where "step = (\<lambda>l (copperAreas, t).
             if layer_isCopperLayer l \<and> layer_isEnabled l then
               (let (paths, t') = getCopperPaths ext settings l {} t
                in (Clipper_unite ext copperAreas paths, t'))
             else (copperAreas, t))"
  have "cacheCoherent ext settings (snd (fold step ls (a, t)))" if "cacheCoherent ext settings t" for ls a t
    using that
  proof (induction ls arbitrary: a t)
    case Nil
    then show ?case by simp
  next
    case (Cons l ls)
    obtain a' t' where st: "step l (a, t) = (a', t')" by fastforce
    have "t' = t \<or> t' = snd (getCopperPaths ext settings l {} t)"
      using st by (auto simp: step_def split_def Let_def split: if_splits)
    then have "cacheCoherent ext settings t'" using Cons.prems getCopperPaths_coherent by auto
    from Cons.IH[OF this] show ?case by (simp add: st)
  qed
  from this[OF assms] show ?thesis unfolding anyLayerCopper_def step_def .
qed

lemma checkCopperHoleClearances_coherent:
  assumes "cacheCoherent ext settings s"
  shows "cacheCoherent ext settings (checkCopperHoleClearances ext settings percent s)"
proof (cases "getMinCopperNpthClearance settings = 0")
  case True
  then show ?thesis using assms by (simp add: checkCopperHoleClearances_def)
next
  case False
  define s1 where "s1 = snd (anyLayerCopper ext settings (emitStatus ''Check hole clearances...'' s))"
  define C where "C = fst (anyLayerCopper ext settings (emitStatus ''Check hole clearances...'' s))"
  have c1: "cacheCoherent ext settings s1"
    unfolding s1_def using assms by (intro anyLayerCopper_coherent) simp
  define r where "r = checkCopperHoleClearances ext settings percent s"
  have k: "keepsCache s1 r"
    unfolding r_def checkCopperHoleClearances_def checkHoleClearance_def Let_def split_def
    using False
    by (simp only: if_False s1_def[symmetric] C_def[symmetric]) (intro cache_intros)
  have q: "quiet ext (copperKind False) (emitStatus ''Check hole clearances...'' s) s1"
    unfolding s1_def by (intro quiet_intros)
  have p: "passResult ext (copperKind False) True ''Check hole clearances...'' percent (\<lambda>b. b) s r"
    using checkCopperHoleClearances_pass[of ext False settings percent s] False by (simp add: r_def)
  have "mBoard r = mBoard s1" "mIgnorePlanes r = mIgnorePlanes s1"
    using p quiet_board[OF q] quiet_flag[OF q] by (auto simp add: passResult_def)
  then show ?thesis
    using cacheCoherent_cong[of r s1 ext settings] k c1 by (simp add: keepsCache_def r_def)
qed

text \<open>
  A run on a check whose cache is empty, as the constructor leaves it: the cache agrees
  with the state when the copper to hole clearance pass is entered, and still when it is
  left, which is where a full run enters the annular ring pass.
\<close>

lemma first_run_cacheCoherent:
  assumes "mCachedPaths s = (\<lambda>k. None)"
    and "checkMinimumCopperWidth ext settings 14 (enterRun ext quick s) = Inr s4"
    and "checkCopperBoardClearances ext settings 44 (checkCopperCopperClearances ext settings 34 s4) = Inr s6"
  shows "cacheCoherent ext settings s6"
    and "cacheCoherent ext settings (checkCopperHoleClearances ext settings 54 s6)"
proof -
  have e: "mCachedPaths (enterRun ext quick s) = (\<lambda>k. None)"
    using assms(1)
    by (simp add: enterRun_def startRun_def rebuildPlanes_def emitStatus_def emitProgress_def
        emitSignal_def Let_def)
  have "mCachedPaths s4 = (\<lambda>k. None)"
    using checkMinimumCopperWidth_keepsCache[of "enterRun ext quick s" ext settings 14] assms(2) e
    by (simp add: keepsCacheE_def keepsCache_def)
  then have "mCachedPaths (checkCopperCopperClearances ext settings 34 s4) = (\<lambda>k. None)"
    using checkCopperCopperClearances_keepsCache[of s4 ext settings 34] by (simp add: keepsCache_def)
  then have "mCachedPaths s6 = (\<lambda>k. None)"
    using checkCopperBoardClearances_keepsCache[of "checkCopperCopperClearances ext settings 34 s4" ext settings 44]
      assms(3)
    by (simp add: keepsCacheE_def keepsCache_def)
  then show "cacheCoherent ext settings s6" by (simp add: cacheCoherent_def)
  then show "cacheCoherent ext settings (checkCopperHoleClearances ext settings 54 s6)"
    by (rule checkCopperHoleClearances_coherent)
qed

text \<open>
  C4. In the minimum annular ring check (the ring setting is not zero), \<open>T\<close> is the
  intersection of the copper polygon sets that getCopperPaths returns for the enabled
  copper layers: for a layer without an entry in the cache the copper generated for the
  board and the plane flag of the run, for a layer with an entry that entry, which an
  earlier run on the same check may have stored. With a cache that agrees with the state
  these are the freshly generated sets, and the cache agrees with the state in which a
  run on a check with an empty cache enters the pass. For each via whose diameter
  \<open>drill + 2 * annular - 1\<close> is greater than zero, the disc of that diameter centred at
  the position of the via is built, and a DrcMsgMinimumAnnularRingViolation is emitted
  for the via exactly when the difference \<open>disc - T\<close> is not empty. The holes of a pad are
  not treated one by one: each hole whose diameter \<open>diameter + 2 * annular - 1\<close> is
  greater than zero is stroked along its path at that diameter, the areas of these holes
  are united, and the pad gets one message exactly when the difference of the united area
  with \<open>T\<close> is not empty. For a drill or hole diameter and a ring that are lengths greater
  than zero within the permitted range, \<open>drill + 2 * annular - 1\<close> is greater than zero.
\<close>

theorem annular_ring_check:
  assumes "getMinPthAnnularRing settings \<noteq> 0"
  shows "(\<exists>s'. checkMinimumPthAnnularRing ext settings percent s = Inr s'
           \<and> mMessages s' = mMessages s @
               (let annular = getMinPthAnnularRing settings;
                    tol = maxArcTolerance settings;
                    T = thtCopperArea ext settings s
                in [DrcMsgMinimumAnnularRingViolation_Via via annular
                      (Clipper_convertBack ext (uncovered ext (viaDisc ext tol annular via) T)).
                      netsegment \<leftarrow> board_getNetSegments (mBoard s), via \<leftarrow> seg_getVias netsegment,
                      \<not> annularDiameter (via_getDrillDiameter via) annular \<le>s 0,
                      uncovered ext (viaDisc ext tol annular via) T \<noteq> []]
                   @ [DrcMsgMinimumAnnularRingViolation_Pad pad annular
                        (Clipper_convertBack ext
                           (uncovered ext (padHoleDiscs ext tol annular (withoutSkippedHoles annular pad)) T)).
                        device \<leftarrow> board_getDeviceInstances (mBoard s), pad \<leftarrow> dev_getPads device,
                        uncovered ext (padHoleDiscs ext tol annular (withoutSkippedHoles annular pad)) T \<noteq> []]))
         \<and> (cacheCoherent ext settings s \<longrightarrow>
              thtCopperArea ext settings s =
                Clipper_treeToPaths ext
                  (Clipper_intersectList ext (layerCopperSets ext settings (mBoard s) (mIgnorePlanes s))))
         \<and> (mCachedPaths s0 = (\<lambda>k. None)
              \<and> checkMinimumCopperWidth ext settings 14 (enterRun ext quick s0) = Inr s4
              \<and> checkCopperBoardClearances ext settings 44
                   (checkCopperCopperClearances ext settings 34 s4) = Inr s6
              \<and> s = checkCopperHoleClearances ext settings 54 s6 \<longrightarrow>
              cacheCoherent ext settings s)
         \<and> (permittedPositive d \<and> permittedPositive (getMinPthAnnularRing settings) \<longrightarrow>
              \<not> annularDiameter d (getMinPthAnnularRing settings) \<le>s 0)"
proof -
  define a where "a = getMinPthAnnularRing settings"
  define tol where "tol = maxArcTolerance settings"
  define T where "T = thtCopperArea ext settings s"
  define s0' where "s0' = emitStatus ''Check minimum PTH annular rings...'' s"
  define s1 where "s1 = snd (allLayerCopper ext settings s0')"
  have a0: "a \<noteq> 0" using assms by (simp add: a_def)
  have f: "fst (allLayerCopper ext settings s0') = returnedCopperSets ext settings s"
    using allLayerCopper_returns(1)[of ext settings s0'] by (simp add: s0'_def)
  have b1: "mBoard s1 = mBoard s" "mMessages s1 = mMessages s"
    using sameButCache_fields(1,3)[OF allLayerCopper_returns(2)[of s0' ext settings]]
    by (simp_all add: s1_def s0'_def)
  have Teq: "Clipper_treeToPaths ext (Clipper_intersectList ext (fst (allLayerCopper ext settings s0'))) = T"
    by (simp add: f T_def thtCopperArea_def)
  define viaMsgs where "viaMsgs = (\<lambda>via.
      if \<not> annularDiameter (via_getDrillDiameter via) a \<le>s 0
      then if uncovered ext (viaDisc ext tol a via) T \<noteq> []
           then [DrcMsgMinimumAnnularRingViolation_Via via a (Clipper_convertBack ext (uncovered ext (viaDisc ext tol a via) T))]
           else []
      else [])"
  define padMsgs where "padMsgs = (\<lambda>pad.
      if uncovered ext (padHoleDiscs ext tol a (withoutSkippedHoles a pad)) T \<noteq> []
      then [DrcMsgMinimumAnnularRingViolation_Pad pad a
              (Clipper_convertBack ext (uncovered ext (padHoleDiscs ext tol a (withoutSkippedHoles a pad)) T))]
      else [])"
  have vias: "foldE (\<lambda>netsegment. foldE (checkViaAnnularRing ext tol a T) (seg_getVias netsegment))
                (board_getNetSegments (mBoard s)) t =
              Inr (emitMessages ext (concat (map (\<lambda>netsegment. concat (map viaMsgs (seg_getVias netsegment)))
                                          (board_getNetSegments (mBoard s)))) t)"
    if "mBoard t = mBoard s" for t
  proof (rule foldE_emits[OF _ that])
    fix seg and u :: BoardDesignRuleCheck
    assume u: "mBoard u = mBoard s"
    show "foldE (checkViaAnnularRing ext tol a T) (seg_getVias seg) u =
            Inr (emitMessages ext (concat (map viaMsgs (seg_getVias seg))) u)"
      by (rule foldE_emits[OF _ u]) (simp add: viaMsgs_def checkViaAnnularRing_emits)
  qed
  have pads: "foldE (\<lambda>device. foldE (checkPadAnnularRing ext tol a T) (dev_getPads device))
                (board_getDeviceInstances (mBoard s)) t =
              Inr (emitMessages ext (concat (map (\<lambda>device. concat (map padMsgs (dev_getPads device)))
                                          (board_getDeviceInstances (mBoard s)))) t)"
    if "mBoard t = mBoard s" for t
  proof (rule foldE_emits[OF _ that])
    fix device and u :: BoardDesignRuleCheck
    assume u: "mBoard u = mBoard s"
    show "foldE (checkPadAnnularRing ext tol a T) (dev_getPads device) u =
            Inr (emitMessages ext (concat (map padMsgs (dev_getPads device))) u)"
      by (rule foldE_emits[OF _ u])
         (simp add: padMsgs_def checkPadAnnularRing_def padHoleAreas_united bindE_def reportRemaining_emits)
  qed
  let ?vm = "concat (map (\<lambda>netsegment. concat (map viaMsgs (seg_getVias netsegment))) (board_getNetSegments (mBoard s)))"
  let ?pm = "concat (map (\<lambda>device. concat (map padMsgs (dev_getPads device))) (board_getDeviceInstances (mBoard s)))"
  have run: "checkMinimumPthAnnularRing ext settings percent s =
          Inr (emitProgress percent (emitMessages ext ?pm (emitMessages ext ?vm s1)))"
    unfolding checkMinimumPthAnnularRing_def Let_def split_def
    using a0
    by (simp add: a_def[symmetric] tol_def[symmetric] s0'_def[symmetric] Teq s1_def[symmetric] b1
        vias[OF b1(1)] bindE_def pads)
  have fresh: "cacheCoherent ext settings s \<longrightarrow>
              thtCopperArea ext settings s =
                Clipper_treeToPaths ext
                  (Clipper_intersectList ext (layerCopperSets ext settings (mBoard s) (mIgnorePlanes s)))"
    by (simp add: thtCopperArea_def returnedCopperSets_coherent)
  have first: "mCachedPaths s0 = (\<lambda>k. None)
              \<and> checkMinimumCopperWidth ext settings 14 (enterRun ext quick s0) = Inr s4
              \<and> checkCopperBoardClearances ext settings 44
                   (checkCopperCopperClearances ext settings 34 s4) = Inr s6
              \<and> s = checkCopperHoleClearances ext settings 54 s6 \<longrightarrow>
              cacheCoherent ext settings s"
    using first_run_cacheCoherent(2)[of s0 ext settings quick s4 s6] by blast
  have range: "permittedPositive d \<and> permittedPositive (getMinPthAnnularRing settings) \<longrightarrow>
              \<not> annularDiameter d (getMinPthAnnularRing settings) \<le>s 0"
    using annularDiameter_positive by blast
  have "\<exists>s'. checkMinimumPthAnnularRing ext settings percent s = Inr s'
           \<and> mMessages s' = mMessages s @
               (let annular = getMinPthAnnularRing settings;
                    tol = maxArcTolerance settings;
                    T = thtCopperArea ext settings s
                in [DrcMsgMinimumAnnularRingViolation_Via via annular
                      (Clipper_convertBack ext (uncovered ext (viaDisc ext tol annular via) T)).
                      netsegment \<leftarrow> board_getNetSegments (mBoard s), via \<leftarrow> seg_getVias netsegment,
                      \<not> annularDiameter (via_getDrillDiameter via) annular \<le>s 0,
                      uncovered ext (viaDisc ext tol annular via) T \<noteq> []]
                   @ [DrcMsgMinimumAnnularRingViolation_Pad pad annular
                        (Clipper_convertBack ext
                           (uncovered ext (padHoleDiscs ext tol annular (withoutSkippedHoles annular pad)) T)).
                        device \<leftarrow> board_getDeviceInstances (mBoard s), pad \<leftarrow> dev_getPads device,
                        uncovered ext (padHoleDiscs ext tol annular (withoutSkippedHoles annular pad)) T \<noteq> []])"
    unfolding run Let_def a_def[symmetric] tol_def[symmetric] T_def[symmetric]
    by (simp add: b1 viaMsgs_def padMsgs_def cong: if_cong)
  then show ?thesis using fresh first range by blast
qed

theorem annular_ring_check_witness:
  "getMinPthAnnularRing ringSettings \<noteq> 0
   \<and> mCachedPaths (BoardDesignRuleCheck_new exampleBoard) = (\<lambda>k. None)
   \<and> checkMinimumCopperWidth simpleCollaborators ringSettings 14 (enteredFullRun exampleBoard) =
       Inr (enteredFullRun exampleBoard)
   \<and> checkCopperBoardClearances simpleCollaborators ringSettings 44
        (checkCopperCopperClearances simpleCollaborators ringSettings 34 (enteredFullRun exampleBoard)) =
       Inr (enteredFullRun exampleBoard)
   \<and> enteredFullRun exampleBoard =
       checkCopperHoleClearances simpleCollaborators ringSettings 54 (enteredFullRun exampleBoard)
   \<and> cacheCoherent simpleCollaborators ringSettings (enteredFullRun exampleBoard)
   \<and> thtCopperArea simpleCollaborators ringSettings (enteredFullRun exampleBoard) = [[(5000000, 5000000)]]
   \<and> permittedPositive (via_getDrillDiameter exampleVia)
   \<and> permittedPositive (getMinPthAnnularRing ringSettings)
   \<and> \<not> annularDiameter (via_getDrillDiameter exampleVia) (getMinPthAnnularRing ringSettings) \<le>s 0
   \<and> (\<exists>s'. checkMinimumPthAnnularRing simpleCollaborators ringSettings 64 (enteredFullRun exampleBoard) =
              Inr s'
          \<and> mMessages s' =
              [DrcMsgMinimumAnnularRingViolation_Via exampleVia 100000
                 [[((4750001, 5000000), 0), ((5249999, 5000000), 0)]],
               DrcMsgMinimumAnnularRingViolation_Pad examplePad 100000 [[((0, 0), 0)]]])"
proof -
  let ?S = "enteredFullRun exampleBoard"
  have h1: "getMinPthAnnularRing ringSettings \<noteq> 0"
    by (simp add: ringSettings_def noSettings_def)
  have e: "mCachedPaths (BoardDesignRuleCheck_new exampleBoard) = (\<lambda>k. None)"
    by (simp add: BoardDesignRuleCheck_new_def)
  have w: "checkMinimumCopperWidth simpleCollaborators ringSettings 14 ?S = Inr ?S"
    by (simp add: checkMinimumCopperWidth_def ringSettings_def noSettings_def)
  have c: "checkCopperCopperClearances simpleCollaborators ringSettings 34 ?S = ?S"
    by (simp add: checkCopperCopperClearances_def ringSettings_def noSettings_def)
  have b: "checkCopperBoardClearances simpleCollaborators ringSettings 44 ?S = Inr ?S"
    by (simp add: checkCopperBoardClearances_def ringSettings_def noSettings_def)
  have h: "?S = checkCopperHoleClearances simpleCollaborators ringSettings 54 ?S"
    by (simp add: checkCopperHoleClearances_def ringSettings_def noSettings_def)
  note check = annular_ring_check [OF h1, where ext = simpleCollaborators and percent = 64
      and s = ?S and ?s0.0 = "BoardDesignRuleCheck_new exampleBoard" and quick = False
      and ?s4.0 = ?S and ?s6.0 = ?S and d = "via_getDrillDiameter exampleVia"]
  have coh: "cacheCoherent simpleCollaborators ringSettings ?S"
    using check [THEN conjunct2, THEN conjunct2, THEN conjunct1] e w b h c
    unfolding enteredFullRun_def by simp
  have m: "mBoard ?S = Board_rebuildAllPlanes simpleCollaborators exampleBoard"
    "mMessages ?S = []" "mIgnorePlanes ?S = False"
    by (simp_all add: enteredFullRun_def enterRun_def startRun_def rebuildPlanes_def emitStatus_def
        emitProgress_def emitSignal_def BoardDesignRuleCheck_new_def Let_def)
  have rb: "Board_rebuildAllPlanes simpleCollaborators exampleBoard = exampleBoard"
    by (simp add: simpleCollaborators_def exampleBoard_def examplePlane_def)
  have T0: "Clipper_treeToPaths simpleCollaborators
              (Clipper_intersectList simpleCollaborators
                 (layerCopperSets simpleCollaborators ringSettings exampleBoard False)) =
            [[(5000000, 5000000)]]"
    by (simp add: layerCopperSets_def example_defs maxArcTolerance_def ringSettings_def
        noSettings_def)
  have T: "thtCopperArea simpleCollaborators ringSettings ?S = [[(5000000, 5000000)]]"
    using check [THEN conjunct2, THEN conjunct1] coh
    by (simp add: m rb T0)
  have pv: "permittedPositive (via_getDrillDiameter exampleVia)"
    by (simp add: permittedPositive_def exampleVia_def word_sless_alt word_sle_eq)
  have pr: "permittedPositive (getMinPthAnnularRing ringSettings)"
    by (simp add: permittedPositive_def ringSettings_def noSettings_def word_sless_alt word_sle_eq)
  have pos: "\<not> annularDiameter (via_getDrillDiameter exampleVia) (getMinPthAnnularRing ringSettings) \<le>s 0"
    using check [THEN conjunct2, THEN conjunct2, THEN conjunct2] pv pr by blast
  have s: "getMinPthAnnularRing ringSettings = 100000" "maxArcTolerance ringSettings = 5000"
    by (simp_all add: ringSettings_def noSettings_def maxArcTolerance_def)
  have v: "uncovered simpleCollaborators
             (viaDisc simpleCollaborators 5000 100000 exampleVia) [[(5000000, 5000000)]] =
           [[(4750001, 5000000), (5249999, 5000000)]]"
    by (simp add: uncovered_def viaDisc_def example_defs Length_div_def signed_divide_int_def)
  have wp: "withoutSkippedHoles 100000 examplePad = examplePad"
    by (simp add: withoutSkippedHoles_def examplePad_def annularDiameter_def word_sle_eq)
  have p: "uncovered simpleCollaborators
             (padHoleDiscs simpleCollaborators 5000 100000 examplePad) [[(5000000, 5000000)]] = [[(0, 0)]]"
    by (simp add: uncovered_def padHoleDiscs_def example_defs Transform_of_pad_def)
  have bd: "board_getNetSegments exampleBoard =
        [\<lparr>seg_getNetSignal = Some ''GND'', seg_getVias = [exampleVia], seg_getNetLines = [exampleNetLine],
          seg_getNetPoints = [\<lparr>netpoint_getPosition = (7000000, 5000000), netpoint_isUsed = True\<rparr>],
          seg_isUsed = True\<rparr>]" "board_getDeviceInstances exampleBoard = [exampleDevice]"
    "dev_getPads exampleDevice = [examplePad]"
    by (simp_all add: exampleBoard_def exampleDevice_def)
  have cb: "Clipper_convertBack simpleCollaborators = map (map (\<lambda>p. (p, 0)))"
    by (simp add: simpleCollaborators_def)
  have run: "\<exists>s'. checkMinimumPthAnnularRing simpleCollaborators ringSettings 64 ?S = Inr s'
          \<and> mMessages s' =
              [DrcMsgMinimumAnnularRingViolation_Via exampleVia 100000
                 [[((4750001, 5000000), 0), ((5249999, 5000000), 0)]],
               DrcMsgMinimumAnnularRingViolation_Pad examplePad 100000 [[((0, 0), 0)]]]"
    using check [THEN conjunct1] pos
    by (simp add: m rb s T bd v wp p Let_def cb)
  show ?thesis using h1 e w b h coh T pv pr pos run by (simp add: c)
qed

text \<open>
  The pad with the two holes, neither of which has copper around it: the difference with
  \<open>T\<close> is not empty for the left hole alone and for the right hole alone, and the check
  emits one message, for the pad, whose locations are those of both holes.
\<close>

theorem annular_ring_per_pad_counterexample:
  "uncovered simpleCollaborators (padHoleDiscs simpleCollaborators 5000 100000 (padWithHoles [leftHole]))
     (thtCopperArea simpleCollaborators ringSettings (BoardDesignRuleCheck_new twoHoleBoard)) \<noteq> []
   \<and> uncovered simpleCollaborators (padHoleDiscs simpleCollaborators 5000 100000 (padWithHoles [rightHole]))
       (thtCopperArea simpleCollaborators ringSettings (BoardDesignRuleCheck_new twoHoleBoard)) \<noteq> []
   \<and> (\<exists>s'. checkMinimumPthAnnularRing simpleCollaborators ringSettings 64
              (BoardDesignRuleCheck_new twoHoleBoard) = Inr s'
          \<and> mMessages s' =
              [DrcMsgMinimumAnnularRingViolation_Pad (padWithHoles [leftHole, rightHole]) 100000
                 [[((0, 0), 0), ((2000000, 0), 0)]]])"
proof -
  have T: "thtCopperArea simpleCollaborators ringSettings (BoardDesignRuleCheck_new twoHoleBoard) = []"
    by (simp add: thtCopperArea_def returnedCopperSets_def copperOf_def BoardDesignRuleCheck_new_def
        twoHoleBoard_def emptyBoard_def example_defs layerCopper_def)
  have l: "uncovered simpleCollaborators (padHoleDiscs simpleCollaborators 5000 100000 (padWithHoles [leftHole])) [] \<noteq> []"
    by (simp add: uncovered_def padHoleDiscs_def padWithHoles_def leftHole_def example_defs
        Transform_of_pad_def)
  have r: "uncovered simpleCollaborators (padHoleDiscs simpleCollaborators 5000 100000 (padWithHoles [rightHole])) [] \<noteq> []"
    by (simp add: uncovered_def padHoleDiscs_def padWithHoles_def rightHole_def example_defs
        Transform_of_pad_def)
  have run: "\<exists>s'. checkMinimumPthAnnularRing simpleCollaborators ringSettings 64
              (BoardDesignRuleCheck_new twoHoleBoard) = Inr s'
          \<and> mMessages s' =
              [DrcMsgMinimumAnnularRingViolation_Pad (padWithHoles [leftHole, rightHole]) 100000
                 [[((0, 0), 0), ((2000000, 0), 0)]]]"
    apply (simp add: checkMinimumPthAnnularRing_def allLayerCopper_def getCopperPaths_def
        ringSettings_def noSettings_def maxArcTolerance_def Let_def split_def
        BoardDesignRuleCheck_new_def twoHoleBoard_def emptyBoard_def emitStatus_def emitSignal_def
        topCopper_def botCopper_def topCourtyard_def boardOutlines_def)
    apply (simp add: bindE_def checkPadAnnularRing_def padHoleAreas_def annularDiameter_def
        PositiveLength_def word_sle_eq word_sless_alt exampleDevice_def padWithHoles_def
        leftHole_def rightHole_def examplePad_def Transform_of_pad_def reportRemaining_def Let_def
        emitMessage_def emitProgress_def emitSignal_def)
    apply (simp add: simpleCollaborators_def gridUnite_def gridCells_def gridSubtract_def gridTree_def
        gridIntersectList_def layerCopper_def movePoint_def)
    done
  show ?thesis using T l r run by simp
qed

text \<open>
  C10. The minimum annular ring check always returns, so it never fails with InvalidRange,
  and no run ends with InvalidRange: a run returns unless the font lookup of a stroke text
  ends it in the minimum copper width pass. A via whose diameter
  \<open>drill + 2 * annular - 1\<close> is not positive is passed over without a message and without
  the construction of a PositiveLength, and a hole of a pad whose diameter is not positive
  adds nothing to the areas of the pad, which are those of the pad without such holes.
\<close>

theorem annular_ring_never_invalid_range:
  "(if fontLookupFails settings (mBoard (enterRun ext quick s))
    then \<exists>t. execute ext settings quick s = Inl (FontLookupFailed, t)
    else \<exists>s'. execute ext settings quick s = Inr s')
   \<and> (\<forall>t. execute ext settings quick s \<noteq> Inl (InvalidRange, t))
   \<and> (\<exists>s'. checkMinimumPthAnnularRing ext settings percent s = Inr s')
   \<and> (annularDiameter (via_getDrillDiameter via) annularWidth \<le>s 0 \<longrightarrow>
        checkViaAnnularRing ext tol annularWidth T via s = Inr s)
   \<and> (\<exists>areas. padHoleAreas ext tol annularWidth pad = Inr areas)
   \<and> padHoleAreas ext tol annularWidth pad =
       padHoleAreas ext tol annularWidth (withoutSkippedHoles annularWidth pad)"
proof -
  have run: "if fontLookupFails settings (mBoard (enterRun ext quick s))
    then \<exists>t. execute ext settings quick s = Inl (FontLookupFailed, t)
    else \<exists>s'. execute ext settings quick s = Inr s'"
    using execute_returns[of settings ext quick s] execute_thrown[of settings ext quick s]
    by auto
  then have "\<forall>t. execute ext settings quick s \<noteq> Inl (InvalidRange, t)"
    by (auto split: if_splits)
  moreover note run
  moreover have "\<exists>s'. checkMinimumPthAnnularRing ext settings percent s = Inr s'"
    using checkMinimumPthAnnularRing_pass[of ext settings percent s] by (auto simp: passResultE_def)
  moreover have "annularDiameter (via_getDrillDiameter via) annularWidth \<le>s 0 \<longrightarrow>
        checkViaAnnularRing ext tol annularWidth T via s = Inr s"
    by (simp add: checkViaAnnularRing_def)
  ultimately show ?thesis using padHoleAreas_Inr padHoleAreas_skips by blast
qed

theorem annular_ring_never_invalid_range_witness:
  "annularDiameter (via_getDrillDiameter (exampleVia\<lparr>via_getDrillDiameter := - 300000\<rparr>)) 100000 \<le>s 0
   \<and> checkViaAnnularRing simpleCollaborators 5000 100000 []
        (exampleVia\<lparr>via_getDrillDiameter := - 300000\<rparr>) (BoardDesignRuleCheck_new exampleBoard)
      = Inr (BoardDesignRuleCheck_new exampleBoard)
   \<and> (\<exists>s'. checkMinimumPthAnnularRing simpleCollaborators exampleSettings 64
              (BoardDesignRuleCheck_new exampleBoard) = Inr s')"
proof -
  have h: "annularDiameter (via_getDrillDiameter (exampleVia\<lparr>via_getDrillDiameter := - 300000\<rparr>)) 100000 \<le>s 0"
    by (simp add: annularDiameter_def word_sle_eq)
  show ?thesis
    using h annular_ring_never_invalid_range [where ext = simpleCollaborators
        and settings = exampleSettings and quick = False
        and s = "BoardDesignRuleCheck_new exampleBoard" and percent = 64
        and via = "exampleVia\<lparr>via_getDrillDiameter := - 300000\<rparr>"
        and annularWidth = 100000 and tol = 5000 and T = "[]" and pad = examplePad,
        THEN conjunct2, THEN conjunct2]
    by simp
qed





lemma reportBoardClearance_emits:
  "reportBoardClearance ext area paths mk t =
     emitMessages ext
       (if Clipper_convertBack ext (Clipper_flattenTree ext (Clipper_intersect ext area paths)) \<noteq> []
        then [mk (Clipper_convertBack ext (Clipper_flattenTree ext (Clipper_intersect ext area paths)))]
        else []) t"
  by (simp add: reportBoardClearance_def Let_def)

text \<open>
  C8, as the check has it. emitMessage appends every message it is given to the messages
  of the run: nothing is compared with what has been emitted before. In the copper to
  board clearance check a pad yields one DrcMsgCopperBoardClearanceViolation for each
  enabled copper layer of the stack on which it lies and on which its copper reaches
  into the restricted area; the message names the pad and the clearance, and not the
  layer.
\<close>

theorem pad_board_clearance_per_layer:
  "mMessages (emitMessage ext msg s) = mMessages s @ [msg]
   \<and> mMessages (checkPadBoardClearance ext tol clearance restrictedArea transform pad s) =
       mMessages s @
       [DrcMsgCopperBoardClearanceViolation_Pad pad clearance
          (padOutlineOverlap ext tol restrictedArea transform (mBoard s) pad l).
          l \<leftarrow> board_getAllLayers (mBoard s),
          layer_isCopperLayer l \<and> layer_isEnabled l \<and> pad_isOnLayer pad (layer_getName l),
          padOutlineOverlap ext tol restrictedArea transform (mBoard s) pad l \<noteq> []]"
proof -
  define msgs where "msgs = (\<lambda>l::GraphicsLayer.
      if layer_isCopperLayer l \<and> layer_isEnabled l \<and> pad_isOnLayer pad (layer_getName l)
      then if padOutlineOverlap ext tol restrictedArea transform (mBoard s) pad l \<noteq> []
           then [DrcMsgCopperBoardClearanceViolation_Pad pad clearance
                   (padOutlineOverlap ext tol restrictedArea transform (mBoard s) pad l)]
           else []
      else [])"
  have "checkPadBoardClearance ext tol clearance restrictedArea transform pad s =
          emitMessages ext (concat (map msgs (board_getAllLayers (mBoard s)))) s"
    unfolding checkPadBoardClearance_def
    by (rule fold_emits[OF _ refl])
       (simp add: reportBoardClearance_emits msgs_def padOutlineOverlap_def)
  then show ?thesis by (simp add: msgs_def)
qed

theorem pad_board_clearance_per_layer_witness:
  "mMessages (checkPadBoardClearance simpleCollaborators 5000 300000 [[(0, 0)]]
                (Transform_of_device exampleDevice) examplePad (BoardDesignRuleCheck_new padBoard)) =
     [DrcMsgCopperBoardClearanceViolation_Pad examplePad 300000 [[((0, 0), 0)]],
      DrcMsgCopperBoardClearanceViolation_Pad examplePad 300000 [[((0, 0), 0)]]]"
proof -
  have b: "mBoard (BoardDesignRuleCheck_new padBoard) = padBoard"
    "mMessages (BoardDesignRuleCheck_new padBoard) = []"
    by (simp_all add: BoardDesignRuleCheck_new_def)
  have l: "board_getAllLayers padBoard = [topCopper, botCopper, topCourtyard, boardOutlines]"
    by (simp add: padBoard_def emptyBoard_def)
  have o: "padOutlineOverlap simpleCollaborators 5000 [[(0, 0)]] (Transform_of_device exampleDevice)
             padBoard examplePad = (\<lambda>l. [[((0, 0), 0)]])"
    by (rule ext)
       (simp add: padOutlineOverlap_def simpleCollaborators_def gridIntersect_def gridTree_def
          gridCells_def examplePad_def)
  have p: "pad_isOnLayer examplePad = (\<lambda>name. name = ''top_cu'' \<or> name = ''bot_cu'')"
    by (simp add: examplePad_def)
  show ?thesis
    using pad_board_clearance_per_layer [of simpleCollaborators undefined "BoardDesignRuleCheck_new padBoard"
        5000 300000 "[[(0, 0)]]" "Transform_of_device exampleDevice" examplePad, THEN conjunct2]
    by (simp add: b l o p topCopper_def botCopper_def topCourtyard_def boardOutlines_def
        sTopCourtyard_def sBoardOutlines_def)
qed

text \<open>
  A pad that lies on the top and on the bottom copper layer, at a corner of the board
  outline: a quick run with only the copper to board clearance enabled emits the same
  message twice.
\<close>

theorem duplicate_message_counterexample:
  "\<exists>s'. execute simpleCollaborators boardClearanceSettings True (BoardDesignRuleCheck_new padBoard) = Inr s'
        \<and> mMessages s' =
            [DrcMsgCopperBoardClearanceViolation_Pad examplePad 300000 [[((0, 0), 0)]],
             DrcMsgCopperBoardClearanceViolation_Pad examplePad 300000 [[((0, 0), 0)]]]
        \<and> \<not> distinct (mMessages s')"
  apply (simp add: execute_def Let_def bindE_def checkMinimumCopperWidth_def checkCopperCopperClearances_def
     checkCopperHoleClearances_def boardClearanceSettings_def noSettings_def)
  apply (simp add: checkCopperBoardClearances_def Let_def bindE_def PositiveLength_def std_max_def
      maxArcTolerance_def word_sless_alt)
  apply (simp add: outlineStrokes_def padBoard_def emptyBoard_def outlineAtOrigin_def sBoardOutlines_def
      BoardDesignRuleCheck_new_def emitSignal_def emitProgress_def emitStatus_def exampleDevice_def
      checkDeviceBoardClearance_def checkPadBoardClearance_def Let_def
      topCopper_def botCopper_def topCourtyard_def boardOutlines_def sTopCourtyard_def
      reportBoardClearance_def onEnabledCopperLayer_def getLayer_def isEnabledCopper_def emitMessage_def
      Transform_of_device_def)
  apply (simp add: simpleCollaborators_def gridUnite_def gridCells_def gridIntersect_def gridTree_def
     examplePad_def)
  done

lemmas run_defs =
  execute_def
  checkCopperHoleClearances_def anyLayerCopper_def holeClearanceLocations_def checkHoleClearance_def
  holeClearanceOffset_def getCopperPaths_def rebuildPlanes_def startRun_def
  checkMinimumCopperWidth_def checkCopperCopperClearances_def checkCopperBoardClearances_def
  emitSignal_def emitProgress_def emitStatus_def emitMessage_def bindE_def
  Transform_default_def maxArcTolerance_def
  BoardDesignRuleCheck_new_def Let_def

lemmas board_defs = planeBoard_def emptyBoard_def holeClearanceSettings_def noSettings_def exampleHole_def
  example_defs

lemma fold_const_state: "fold (\<lambda>x s. s) xs s = s"
  by (induction xs) simp_all

lemma quick_run_on_planeBoard:
  "execute simpleCollaborators holeClearanceSettings True (BoardDesignRuleCheck_new planeBoard) =
     Inr afterQuickRun"
  by (simp add: run_defs board_defs afterQuickRun_def)

lemma execute_full_only_holes:
  assumes "onlyHoleClearance settings"
  shows "execute ext settings False s =
           bindE (fullChecks ext settings
                    (checkCopperHoleClearances ext settings 54 (rebuildPlanes ext 12 (startRun False s))))
             (\<lambda>s8. Inr (finishRun ext s8))"
  using assms
  by (simp add: onlyHoleClearance_def execute_def startRun_def finishRun_def checkMinimumCopperWidth_def
      checkCopperCopperClearances_def checkCopperBoardClearances_def bindE_def Let_def)

lemma fold_fixed:
  assumes "\<And>x t. P t \<Longrightarrow> g x t = t" and "P s"
  shows "fold g xs s = s"
  using assms by (induction xs) simp_all

lemma checkCourtyardClearances_bare:
  assumes "board_getDeviceInstances (mBoard s) = []"
  shows "checkCourtyardClearances ext settings p s =
           emitProgress p (emitStatus ''Check courtyard clearances...'' s)"
proof -
  have "fold (\<lambda>l s'.
               let deviceCourtyards =
                     fold (\<lambda>device. QMap_insert device (getDeviceCourtyardPaths ext settings device l))
                       (board_getDeviceInstances (mBoard s')) []
               in checkCourtyardPairs ext deviceCourtyards s')
          ls (emitStatus ''Check courtyard clearances...'' s) =
        emitStatus ''Check courtyard clearances...'' s" for ls
    by (rule fold_fixed[where P = "\<lambda>t. board_getDeviceInstances (mBoard t) = []"])
       (simp_all add: assms)
  then show ?thesis by (simp add: checkCourtyardClearances_def Let_def)
qed

lemma fullChecks_bare:
  assumes "onlyHoleClearance settings" and "bareBoard (mBoard s)"
    and "Board_forceAirWiresRebuild ext (mBoard s) = mBoard s"
  shows "\<exists>s'. fullChecks ext settings s = Inr s' \<and> mMessages s' = mMessages s"
  using assms
  apply (simp add: onlyHoleClearance_def bareBoard_def fullChecks_def checkMinimumPthAnnularRing_def
      checkMinimumNpthDrillDiameter_def
      checkMinimumNpthSlotWidth_def checkMinimumPthDrillDiameter_def checkMinimumPthSlotWidth_def
      checkAllowedNpthSlots_def checkAllowedPthSlots_def bindE_def Let_def)
  apply (simp add: checkInvalidPadConnections_def checkCourtyardClearances_bare
      checkForUnplacedComponents_def checkForMissingConnections_def
      checkForStaleObjects_def emitStatus_def emitProgress_def emitSignal_def
      fold_const_state Let_def)
  done

text \<open>
  C3. The key of the cache is the layer and the net signals, without the plane flag, and
  execute resets the status and the messages of the last run and not the cache. On the
  board with the plane, with only the hole clearance enabled: a quick run leaves the
  copper of the top layer without the plane in the cache; in the full run on the same
  check that follows, planes are not ignored, getCopperPaths returns the cached copper
  although the generator now yields the plane, and the run reports nothing, while a
  full run on a new check reports the hole on the plane.
\<close>

theorem stale_copper_cache_across_runs:
  "execute simpleCollaborators holeClearanceSettings True (BoardDesignRuleCheck_new planeBoard) =
     Inr afterQuickRun
   \<and> \<not> mIgnorePlanes (rebuildPlanes simpleCollaborators 12 (startRun False afterQuickRun))
   \<and> fst (getCopperPaths simpleCollaborators holeClearanceSettings topCopper {}
            (rebuildPlanes simpleCollaborators 12 (startRun False afterQuickRun))) = []
   \<and> gen_addCopper simpleCollaborators
        (mBoard (rebuildPlanes simpleCollaborators 12 (startRun False afterQuickRun)))
        (maxArcTolerance holeClearanceSettings) (layer_getName topCopper) {}
        (mIgnorePlanes (rebuildPlanes simpleCollaborators 12 (startRun False afterQuickRun))) =
       [[(7000000, 5000000), (9000000, 5000000), (9000000, 9000000)]]
   \<and> (\<exists>s'. execute simpleCollaborators holeClearanceSettings False afterQuickRun = Inr s'
            \<and> mMessages s' = [])
   \<and> (\<exists>s'. execute simpleCollaborators holeClearanceSettings False (BoardDesignRuleCheck_new planeBoard) =
              Inr s'
            \<and> mMessages s' =
                [DrcMsgCopperHoleClearanceViolation None exampleHole 250000 [[((9000000, 9000000), 0)]]])"
proof -
  let ?ext = simpleCollaborators
  let ?S = holeClearanceSettings
  let ?stale = "rebuildPlanes ?ext 12 (startRun False afterQuickRun)"
  let ?fresh = "rebuildPlanes ?ext 12 (startRun False (BoardDesignRuleCheck_new planeBoard))"
  have only: "onlyHoleClearance ?S"
    by (simp add: onlyHoleClearance_def holeClearanceSettings_def noSettings_def)
  have air: "Board_forceAirWiresRebuild ?ext = (\<lambda>board. board)"
    by (simp add: simpleCollaborators_def)
  have q: "execute ?ext ?S True (BoardDesignRuleCheck_new planeBoard) = Inr afterQuickRun"
    by (rule quick_run_on_planeBoard)
  have f: "\<not> mIgnorePlanes ?stale"
    by (simp add: rebuildPlanes_def startRun_def emitStatus_def emitProgress_def emitSignal_def Let_def)
  have c: "fst (getCopperPaths ?ext ?S topCopper {} ?stale) = []"
    by (simp add: getCopperPaths_def rebuildPlanes_def startRun_def emitStatus_def emitProgress_def
        emitSignal_def afterQuickRun_def Let_def)
  have g: "gen_addCopper ?ext (mBoard ?stale) (maxArcTolerance ?S) (layer_getName topCopper) {}
             (mIgnorePlanes ?stale) = [[(7000000, 5000000), (9000000, 5000000), (9000000, 9000000)]]"
    by (simp add: run_defs board_defs afterQuickRun_def layerCopper_def)
  have stale_board: "bareBoard (mBoard (checkCopperHoleClearances ?ext ?S 54 ?stale))"
    by (simp add: run_defs board_defs afterQuickRun_def bareBoard_def)
  have stale_msgs: "mMessages (checkCopperHoleClearances ?ext ?S 54 ?stale) = []"
    by (simp add: run_defs board_defs afterQuickRun_def)
  have fresh_board: "bareBoard (mBoard (checkCopperHoleClearances ?ext ?S 54 ?fresh))"
    by (simp add: run_defs board_defs bareBoard_def)
  have fresh_msgs: "mMessages (checkCopperHoleClearances ?ext ?S 54 ?fresh) =
      [DrcMsgCopperHoleClearanceViolation None exampleHole 250000 [[((9000000, 9000000), 0)]]]"
    by (simp add: run_defs board_defs layerCopper_def)
  have r1: "\<exists>s'. execute ?ext ?S False afterQuickRun = Inr s' \<and> mMessages s' = []"
    using fullChecks_bare[OF only stale_board, of simpleCollaborators] stale_msgs
    by (auto simp add: execute_full_only_holes[OF only] air bindE_def finishRun_def emitSignal_def)
  have r2: "\<exists>s'. execute ?ext ?S False (BoardDesignRuleCheck_new planeBoard) = Inr s'
      \<and> mMessages s' =
          [DrcMsgCopperHoleClearanceViolation None exampleHole 250000 [[((9000000, 9000000), 0)]]]"
    using fullChecks_bare[OF only fresh_board, of simpleCollaborators] fresh_msgs
    by (auto simp add: execute_full_only_holes[OF only] air bindE_def finishRun_def emitSignal_def)
  show ?thesis
    using q f c g r1 r2 by (intro conjI)
qed

lemma fold_map_same:
  assumes "\<And>x acc. g (h x) acc = g x acc"
  shows "fold g (map h xs) acc = fold g xs acc"
  using assms by (induction xs arbitrary: acc) simp_all

text \<open>
  C9. getDeviceCourtyardPaths does not use the centre of a footprint circle: the courtyard
  of a device is the same wherever the circles of its footprint are centred. For the
  example device, at the origin with a courtyard circle of 1 mm centred at (10 mm, 0), the
  courtyard is the circle around the origin, and not the circle around (10 mm, 0) that the
  specification asks for.
\<close>

theorem courtyard_circle_centre_unused:
  "getDeviceCourtyardPaths ext settings (withCircleCentres f device) l =
     getDeviceCourtyardPaths ext settings device l
   \<and> getDeviceCourtyardPaths simpleCollaborators exampleSettings exampleDevice topCourtyard =
       [[(- 500000, 0), (500000, 0)]]
   \<and> Clipper_unite simpleCollaborators []
        [translatedCourtyardCircle simpleCollaborators exampleSettings (Transform_of_device exampleDevice)
           \<lparr>circle_getLayerName = sTopCourtyard, circle_getCenter = (10000000, 0),
            circle_getDiameter = 1000000\<rparr>] =
       [[(9500000, 0), (10500000, 0)]]"
proof (intro conjI)
  show "getDeviceCourtyardPaths ext settings (withCircleCentres f device) l =
          getDeviceCourtyardPaths ext settings device l"
  proof -
    have t: "Transform_of_device (withCircleCentres f device) = Transform_of_device device"
      by (simp add: Transform_of_device_def withCircleCentres_def)
    have p: "footprint_getPolygons (dev_getLibFootprint (withCircleCentres f device)) =
               footprint_getPolygons (dev_getLibFootprint device)"
      by (simp add: withCircleCentres_def)
    have c: "footprint_getCircles (dev_getLibFootprint (withCircleCentres f device)) =
               map (\<lambda>circle. circle\<lparr>circle_getCenter := f circle\<rparr>)
                 (footprint_getCircles (dev_getLibFootprint device))"
      by (simp add: withCircleCentres_def)
    show ?thesis
      unfolding getDeviceCourtyardPaths_def Let_def t p c
      by (rule fold_map_same) simp
  qed
next
  have d: "Length_div 1000000 2 = 500000"
    by (simp add: Length_div_def signed_divide_int_def)
  show "getDeviceCourtyardPaths simpleCollaborators exampleSettings exampleDevice topCourtyard =
          [[(- 500000, 0), (500000, 0)]]"
    by (simp add: getDeviceCourtyardPaths_def Let_def exampleDevice_def topCourtyard_def
        simpleCollaborators_def mirrorLayer_def Transform_of_device_def gridUnite_def gridCells_def d)
next
  have d: "Length_div 1000000 2 = 500000"
    by (simp add: Length_div_def signed_divide_int_def)
  show "Clipper_unite simpleCollaborators []
          [translatedCourtyardCircle simpleCollaborators exampleSettings (Transform_of_device exampleDevice)
             \<lparr>circle_getLayerName = sTopCourtyard, circle_getCenter = (10000000, 0),
              circle_getDiameter = 1000000\<rparr>] =
        [[(9500000, 0), (10500000, 0)]]"
    by (simp add: translatedCourtyardCircle_def simpleCollaborators_def movePoint_def
        Transform_of_device_def exampleDevice_def gridUnite_def gridCells_def d)
qed

end
